theory Spec2Isabelle
  imports Main
begin

section \<open>The random sources and the generator monad\<close>

text \<open>
  The script \<^verbatim>\<open>scripts/01_generate_data.py\<close> draws from two process-wide
  pseudo-random streams: Python's \<^verbatim>\<open>random\<close> module (\<^verbatim>\<open>randint\<close>,
  \<^verbatim>\<open>choice\<close>, \<^verbatim>\<open>uniform\<close>, \<^verbatim>\<open>random\<close>) and NumPy's global state,
  which \<^verbatim>\<open>DataFrame.sample\<close> consumes. Each stream is a tape of raw draws
  that is read front to back; a tape that has been read to its end keeps
  yielding 0. Every result below holds for all tapes, so nothing depends on
  which numbers a particular seed produces.

  A failing call (\<^verbatim>\<open>ValueError\<close> from sampling more rows than a frame
  has or from an empty \<^verbatim>\<open>randint\<close> range, \<^verbatim>\<open>IndexError\<close> from an empty
  \<^verbatim>\<open>choice\<close> or an index out of range) aborts the whole generation, as the
  uncaught exception does.
\<close>

datatype error = ValueError | IndexError

record rng =
  py :: "nat list"
  np :: "nat list"

type_synonym 'a gen = "rng \<Rightarrow> error + ('a \<times> rng)"

definition gret :: "'a \<Rightarrow> 'a gen" where
  "gret x g = Inr (x, g)"

definition graise :: "error \<Rightarrow> 'a gen" where
  "graise e g = Inl e"

definition gbind :: "'a gen \<Rightarrow> ('a \<Rightarrow> 'b gen) \<Rightarrow> 'b gen" where
  "gbind m f g = (case m g of Inl e \<Rightarrow> Inl e | Inr (x, g') \<Rightarrow> f x g')"

fun draw :: "nat list \<Rightarrow> nat \<times> nat list" where
  "draw [] = (0, [])"
| "draw (d # t) = (d, t)"

text \<open>A draw below \<open>n\<close> from the \<^verbatim>\<open>random\<close> stream, and one from NumPy's.\<close>

definition py_below :: "nat \<Rightarrow> nat gen" where
  "py_below n g = (case draw (py g) of (d, t) \<Rightarrow> Inr (d mod n, g\<lparr>py := t\<rparr>))"

definition np_below :: "nat \<Rightarrow> nat gen" where
  "np_below n g = (case draw (np g) of (d, t) \<Rightarrow> Inr (d mod n, g\<lparr>np := t\<rparr>))"

text \<open>\<^verbatim>\<open>random.randint(a, b)\<close>: an integer of \<open>[a, b]\<close>; an empty range raises.\<close>

definition randint :: "int \<Rightarrow> int \<Rightarrow> int gen" where
  "randint a b =
     (if b < a then graise ValueError
      else gbind (py_below (nat (b - a + 1))) (\<lambda>k. gret (a + int k)))"

text \<open>\<^verbatim>\<open>random.choice(seq)\<close>: an element of the sequence; an empty one raises.\<close>

definition choice :: "'a list \<Rightarrow> 'a gen" where
  "choice xs =
     (if xs = [] then graise IndexError
      else gbind (py_below (length xs)) (\<lambda>k. gret (xs ! k)))"

text \<open>
  \<^verbatim>\<open>round(random.uniform(a, b), digits)\<close> is a floating-point number. It is
  kept here as a fixed-point integer: the value times \<open>10 ^ digits\<close>, an
  integer between \<open>a * 10 ^ digits\<close> and \<open>b * 10 ^ digits\<close>. The
  arguments \<open>lo\<close> and \<open>hi\<close> are these scaled bounds.
\<close>

definition uniform_rounded :: "int \<Rightarrow> int \<Rightarrow> int gen" where
  "uniform_rounded lo hi = gbind (py_below (nat (hi - lo + 1))) (\<lambda>k. gret (lo + int k))"

text \<open>
  \<^verbatim>\<open>random.random()\<close> is \<open>k / 2 ^ 53\<close> for an integer \<open>0 \<le> k < 2 ^ 53\<close>;
  the model returns \<open>k\<close>. The double \<^verbatim>\<open>0.3\<close> is \<open>5404319552844595 / 2 ^ 54\<close>
  and \<^verbatim>\<open>0.9\<close> is \<open>8106479329266893 / 2 ^ 53\<close>, so both comparisons of the
  script are exact on integers.
\<close>

definition random_py :: "nat gen" where
  "random_py = py_below (2 ^ 53)"

definition gt_0_3 :: "nat \<Rightarrow> bool" where
  "gt_0_3 k = (5404319552844595 < 2 * k)"

definition gt_0_9 :: "nat \<Rightarrow> bool" where
  "gt_0_9 k = (8106479329266893 < k)"

text \<open>
  \<^verbatim>\<open>df.sample(n)\<close> draws \<open>n\<close> distinct rows without replacement, in random
  order, from NumPy's stream, and raises when the frame has fewer rows.
  \<^verbatim>\<open>df.sample(frac=p/q)\<close> draws \<^verbatim>\<open>round(frac * len(df))\<close> rows, with
  Python's rounding of ties to even; the product is computed here on
  rationals. \<^verbatim>\<open>.iloc[0]\<close> is the first row of the result.
\<close>

fun choose_rows :: "nat \<Rightarrow> 'a list \<Rightarrow> 'a list gen" where
  "choose_rows 0 xs = gret []"
| "choose_rows (Suc k) xs =
     gbind (np_below (length xs)) (\<lambda>i.
     gbind (choose_rows k (take i xs @ drop (Suc i) xs)) (\<lambda>rest.
     gret (xs ! i # rest)))"

definition df_sample :: "int \<Rightarrow> 'a list \<Rightarrow> 'a list gen" where
  "df_sample n xs =
     (if n < 0 \<or> int (length xs) < n then graise ValueError
      else choose_rows (nat n) xs)"

definition py_round :: "int \<Rightarrow> int \<Rightarrow> int" where
  "py_round p q =
     (let f = p div q; r = 2 * (p mod q)
      in if r < q then f else if q < r then f + 1 else if even f then f else f + 1)"

definition df_sample_frac :: "int \<Rightarrow> int \<Rightarrow> 'a list \<Rightarrow> 'a list gen" where
  "df_sample_frac p q xs = df_sample (py_round (p * int (length xs)) q) xs"

definition iloc0 :: "'a list \<Rightarrow> 'a gen" where
  "iloc0 xs = (case xs of [] \<Rightarrow> graise IndexError | x # _ \<Rightarrow> gret x)"

definition sample_one :: "'a list \<Rightarrow> 'a gen" where
  "sample_one xs = gbind (df_sample 1 xs) iloc0"

text \<open>Python list indexing: a negative index counts from the end.\<close>

definition py_index :: "'a list \<Rightarrow> int \<Rightarrow> 'a gen" where
  "py_index xs i =
     (if 0 \<le> i \<and> i < int (length xs) then gret (xs ! nat i)
      else if i < 0 \<and> - int (length xs) \<le> i then gret (xs ! nat (int (length xs) + i))
      else graise IndexError)"

text \<open>\<^verbatim>\<open>range(n)\<close>, and a \<^verbatim>\<open>for\<close> loop that updates its loop state.\<close>

definition py_range :: "int \<Rightarrow> int list" where
  "py_range n = [0..n - 1]"

fun for_loop :: "'a list \<Rightarrow> ('s \<Rightarrow> 'a \<Rightarrow> 's gen) \<Rightarrow> 's \<Rightarrow> 's gen" where
  "for_loop [] body s = gret s"
| "for_loop (x # xs) body s = gbind (body s x) (for_loop xs body)"

section \<open>Dates and times\<close>

text \<open>
  A timestamp is a number of minutes since midnight of the start date (every
  offset of the script is a whole number of minutes), a date a number of
  days since the start date. \<^verbatim>\<open>timedelta(days, hours, minutes)\<close> is a number
  of minutes, \<^verbatim>\<open>.days\<close> of a difference its floor in days, \<^verbatim>\<open>.date()\<close> the
  day a timestamp falls on. The start date is the first of January of
  \<open>start_year\<close>, so \<^verbatim>\<open>(start + DateOffset(years=n) - start).days\<close> is the
  length of \<open>n\<close> calendar years.
\<close>

definition timedelta :: "int \<Rightarrow> int \<Rightarrow> int \<Rightarrow> int" where
  "timedelta days hours minutes = days * 1440 + hours * 60 + minutes"

definition days_of :: "int \<Rightarrow> int" where
  "days_of td = td div 1440"

definition date_of :: "int \<Rightarrow> int" where
  "date_of dt = dt div 1440"

definition is_leap :: "int \<Rightarrow> bool" where
  "is_leap y = (y mod 4 = 0 \<and> (y mod 100 \<noteq> 0 \<or> y mod 400 = 0))"

fun horizon_days :: "int \<Rightarrow> nat \<Rightarrow> int" where
  "horizon_days y 0 = 0"
| "horizon_days y (Suc n) = (if is_leap y then 366 else 365) + horizon_days (y + 1) n"

section \<open>Configuration (config.py)\<close>

definition NUM_PATIENTS :: int where "NUM_PATIENTS = 500"
definition NUM_STAFF :: int where "NUM_STAFF = 150"
definition NUM_YEARS :: nat where "NUM_YEARS = 5"
definition START_YEAR :: int where "START_YEAR = 2020"

record ward =
  w_ward_id :: int
  w_ward_name :: string
  w_department :: string
  w_bed_capacity :: int
  w_ward_type :: string
  w_floor_number :: int

definition mk_ward :: "int \<Rightarrow> string \<Rightarrow> string \<Rightarrow> int \<Rightarrow> string \<Rightarrow> int \<Rightarrow> ward" where
  "mk_ward i n d c t f =
     \<lparr>w_ward_id = i, w_ward_name = n, w_department = d, w_bed_capacity = c,
      w_ward_type = t, w_floor_number = f\<rparr>"

definition WARDS :: "ward list" where
  "WARDS =
    [mk_ward 1 ''ICU'' ''Critical Care'' 20 ''Intensive Care'' 3,
     mk_ward 2 ''ICU-2'' ''Critical Care'' 20 ''Intensive Care'' 3,
     mk_ward 3 ''Emergency'' ''Emergency Medicine'' 30 ''Emergency'' 1,
     mk_ward 4 ''Cardiology'' ''Cardiac Care'' 25 ''Specialty'' 4,
     mk_ward 5 ''Maternity'' ''Obstetrics'' 20 ''Specialty'' 2,
     mk_ward 6 ''Pediatrics'' ''Pediatrics'' 30 ''Specialty'' 2,
     mk_ward 7 ''Surgery'' ''Surgical Services'' 25 ''Surgical'' 5,
     mk_ward 8 ''Orthopedics'' ''Orthopedics'' 20 ''Specialty'' 5,
     mk_ward 9 ''Oncology'' ''Cancer Care'' 15 ''Specialty'' 6,
     mk_ward 10 ''General Medicine A'' ''Internal Medicine'' 40 ''General'' 4,
     mk_ward 11 ''General Medicine B'' ''Internal Medicine'' 40 ''General'' 4,
     mk_ward 12 ''Neurology'' ''Neurosciences'' 20 ''Specialty'' 6]"

definition STAFF_ROLES :: "string list" where
  "STAFF_ROLES =
    [''Attending Physician'', ''Resident'', ''Nurse Practitioner'', ''Registered Nurse'',
     ''Licensed Practical Nurse'', ''Nursing Assistant'', ''Physical Therapist'',
     ''Occupational Therapist'', ''Respiratory Therapist'', ''Pharmacist'']"

definition MEDICATION_CLASSES :: "string list" where
  "MEDICATION_CLASSES =
    [''Antibiotic'', ''Analgesic'', ''Anticoagulant'', ''Antihypertensive'', ''Diuretic'',
     ''Antidiabetic'', ''Anticonvulsant'', ''Bronchodilator'', ''Sedative'', ''Antidepressant'']"

record diagnosis =
  d_icd10_code :: string
  d_diagnosis_name :: string
  d_category :: string
  d_severity_level :: string
  d_diagnosis_id :: int

text \<open>A catalog entry of \<^verbatim>\<open>COMMON_DIAGNOSES\<close>, which has no \<^verbatim>\<open>diagnosis_id\<close> yet.\<close>

type_synonym diagnosis_entry = "string \<times> string \<times> string \<times> string"

definition COMMON_DIAGNOSES :: "diagnosis_entry list" where
  "COMMON_DIAGNOSES =
    [(''I21.9'', ''Acute Myocardial Infarction'', ''Cardiovascular'', ''Critical''),
     (''J18.9'', ''Pneumonia'', ''Respiratory'', ''Moderate''),
     (''I50.9'', ''Heart Failure'', ''Cardiovascular'', ''Serious''),
     (''N39.0'', ''Urinary Tract Infection'', ''Genitourinary'', ''Mild''),
     (''E11.9'', ''Type 2 Diabetes Mellitus'', ''Endocrine'', ''Moderate''),
     (''I63.9'', ''Cerebral Infarction (Stroke)'', ''Neurological'', ''Critical''),
     (''J44.1'', ''COPD with Exacerbation'', ''Respiratory'', ''Moderate''),
     (''K80.2'', ''Cholecystitis'', ''Digestive'', ''Moderate''),
     (''S72.0'', ''Hip Fracture'', ''Injury'', ''Serious''),
     (''C50.9'', ''Breast Cancer'', ''Neoplasm'', ''Serious''),
     (''I10'', ''Essential Hypertension'', ''Cardiovascular'', ''Mild''),
     (''K21.9'', ''GERD'', ''Digestive'', ''Mild'')]"

text \<open>
  \<^verbatim>\<open>VITAL_SIGNS_RANGES\<close>: the catalog's range of each vital sign, the
  temperature in tenths of a degree.
\<close>

definition VITAL_SIGNS_RANGES :: "(string \<times> int \<times> int) list" where
  "VITAL_SIGNS_RANGES =
    [(''blood_pressure_systolic'', 90, 180),
     (''blood_pressure_diastolic'', 60, 120),
     (''heart_rate'', 50, 120),
     (''temperature'', 360, 390),
     (''respiratory_rate'', 12, 25),
     (''oxygen_saturation'', 85, 100),
     (''pain_level'', 0, 10)]"

section \<open>Dimension tables\<close>

text \<open>
  A data frame is the list of its rows. The columns that the script fills
  from the Faker library (names, addresses, phone numbers, dates of birth and
  of hire, product words) and its formatted strings (\<^verbatim>\<open>mrn\<close>,
  \<^verbatim>\<open>bed_number\<close>) are left out of the rows: no fact table reads them, and
  Faker draws from a generator of its own, so the two tapes are read as if
  the columns were there. Amounts of money are in cents. The calendar
  table \<^verbatim>\<open>dim_date\<close> has no random column and no fact table refers to it.
\<close>

record patient =
  p_patient_id :: int
  p_gender :: string
  p_blood_type :: string
  p_insurance_provider :: string
  p_is_current :: bool

definition blood_types :: "string list" where
  "blood_types = [''A+'', ''A-'', ''B+'', ''B-'', ''AB+'', ''AB-'', ''O+'', ''O-'']"

definition genders :: "string list" where
  "genders = [''Male'', ''Female'', ''Other'']"

definition insurance_providers :: "string list" where
  "insurance_providers =
     [''Blue Cross'', ''Aetna'', ''UnitedHealthcare'', ''Cigna'', ''Medicare'', ''Medicaid'']"

definition patient_step :: "patient list \<Rightarrow> int \<Rightarrow> patient list gen" where
  "patient_step patients i =
     gbind (choice genders) (\<lambda>gender.
     gbind (choice blood_types) (\<lambda>blood_type.
     gbind (choice insurance_providers) (\<lambda>insurance_provider.
     gret (patients @
       [\<lparr>p_patient_id = i, p_gender = gender, p_blood_type = blood_type,
         p_insurance_provider = insurance_provider, p_is_current = True\<rparr>]))))"

definition generate_patients :: "int \<Rightarrow> patient list gen" where
  "generate_patients n = for_loop [1..n] patient_step []"

record staff =
  s_staff_id :: int
  s_role :: string
  s_department :: string
  s_shift_pattern :: string
  s_qualifications :: string
  s_is_active :: bool

definition shift_patterns :: "string list" where
  "shift_patterns = [''Day'', ''Night'', ''Rotating'', ''On-Call'']"

definition staff_step :: "staff list \<Rightarrow> int \<Rightarrow> staff list gen" where
  "staff_step staff_rows i =
     gbind (choice STAFF_ROLES) (\<lambda>role.
     gbind (choice (map w_department WARDS)) (\<lambda>department.
     gbind (choice shift_patterns) (\<lambda>shift_pattern.
     gret (staff_rows @
       [\<lparr>s_staff_id = i, s_role = role, s_department = department,
         s_shift_pattern = shift_pattern, s_qualifications = ''Licensed '' @ role,
         s_is_active = True\<rparr>]))))"

definition generate_staff :: "int \<Rightarrow> staff list gen" where
  "generate_staff n = for_loop [1..n] staff_step []"

definition generate_wards :: "ward list" where
  "generate_wards = WARDS"

record medication =
  m_medication_id :: int
  m_drug_class :: string
  m_dosage_form :: string
  m_manufacturer :: string
  m_cost_per_unit :: int
  m_contraindications :: string

definition dosage_forms :: "string list" where
  "dosage_forms =
     [''Tablet'', ''Capsule'', ''Injection'', ''IV Solution'', ''Topical Cream'', ''Inhaler'']"

definition manufacturers :: "string list" where
  "manufacturers = [''Pfizer'', ''Novartis'', ''Roche'', ''Merck'', ''GSK'', ''AstraZeneca'']"

definition medication_step :: "medication list \<Rightarrow> int \<Rightarrow> medication list gen" where
  "medication_step medications i =
     gbind (choice MEDICATION_CLASSES) (\<lambda>drug_class.
     gbind (choice dosage_forms) (\<lambda>dosage_form.
     gbind (choice manufacturers) (\<lambda>manufacturer.
     gbind (uniform_rounded 50 50000) (\<lambda>cost_per_unit.
     gret (medications @
       [\<lparr>m_medication_id = i, m_drug_class = drug_class, m_dosage_form = dosage_form,
         m_manufacturer = manufacturer, m_cost_per_unit = cost_per_unit,
         m_contraindications = ''Allergy to '' @ drug_class\<rparr>])))))"

definition generate_medications :: "int \<Rightarrow> medication list gen" where
  "generate_medications n = for_loop [1..n] medication_step []"

record procedure =
  pr_procedure_id :: int
  pr_procedure_type :: string
  pr_department :: string
  pr_avg_duration_minutes :: int
  pr_base_cost :: int
  pr_requires_anesthesia :: bool

definition procedure_types :: "string list" where
  "procedure_types = [''Diagnostic'', ''Therapeutic'', ''Surgical'', ''Rehabilitative'']"

definition procedure_step :: "procedure list \<Rightarrow> int \<Rightarrow> procedure list gen" where
  "procedure_step procedures i =
     gbind (choice procedure_types) (\<lambda>procedure_type.
     gbind (choice (map w_department WARDS)) (\<lambda>department.
     gbind (randint 15 480) (\<lambda>avg_duration_minutes.
     gbind (uniform_rounded 10000 5000000) (\<lambda>base_cost.
     gret (procedures @
       [\<lparr>pr_procedure_id = i, pr_procedure_type = procedure_type,
         pr_department = department, pr_avg_duration_minutes = avg_duration_minutes,
         pr_base_cost = base_cost,
         pr_requires_anesthesia = (procedure_type = ''Surgical'')\<rparr>])))))"

definition generate_procedures :: "int \<Rightarrow> procedure list gen" where
  "generate_procedures n = for_loop [1..n] procedure_step []"

definition generate_diagnoses :: "diagnosis list" where
  "generate_diagnoses =
     map (\<lambda>(i, (code, name, category, severity)).
            \<lparr>d_icd10_code = code, d_diagnosis_name = name, d_category = category,
             d_severity_level = severity, d_diagnosis_id = i\<rparr>)
         (zip [1..int (length COMMON_DIAGNOSES)] COMMON_DIAGNOSES)"

record bed =
  b_bed_id :: int
  b_ward_id :: int
  b_bed_type :: string
  b_has_ventilator :: bool
  b_has_monitor :: bool
  b_is_available :: bool

text \<open>\<^verbatim>\<open>sub in s\<close> on strings.\<close>

fun contains_str :: "string \<Rightarrow> string \<Rightarrow> bool" where
  "contains_str sub [] = (sub = [])"
| "contains_str sub (c # s) = (take (length sub) (c # s) = sub \<or> contains_str sub s)"

definition bed_step :: "ward \<Rightarrow> bed list \<times> int \<Rightarrow> int \<Rightarrow> (bed list \<times> int) gen" where
  "bed_step ward st bed_num =
     (case st of (beds, bed_id) \<Rightarrow>
        let bed_type = (if contains_str ''ICU'' (w_ward_name ward) then ''ICU'' else ''Standard'')
        in gbind (choice [True, False]) (\<lambda>is_available.
           gret (beds @
             [\<lparr>b_bed_id = bed_id, b_ward_id = w_ward_id ward, b_bed_type = bed_type,
               b_has_ventilator = (bed_type = ''ICU''), b_has_monitor = True,
               b_is_available = is_available\<rparr>], bed_id + 1)))"

definition generate_beds :: "bed list gen" where
  "generate_beds =
     gbind (for_loop WARDS
              (\<lambda>st ward. for_loop [1..w_bed_capacity ward] (bed_step ward) st) ([], 1))
       (\<lambda>(beds, bed_id). gret beds)"

section \<open>Admissions\<close>

record admission =
  a_admission_id :: int
  a_patient_id :: int
  a_ward_id :: int
  a_bed_id :: int
  a_admission_date :: int
  a_admission_datetime :: int
  a_discharge_date :: int
  a_discharge_datetime :: int
  a_admission_type :: string
  a_chief_complaint :: string
  a_primary_diagnosis_id :: int
  a_secondary_diagnosis_ids :: "int list"
  a_attending_doctor_id :: int
  a_length_of_stay :: int
  a_is_readmission :: bool
  a_readmission_days_since_discharge :: "int option"
  a_discharge_disposition :: string
  a_total_charges :: int

definition admission_types :: "string list" where
  "admission_types = [''Emergency'', ''Scheduled'', ''Transfer'']"

definition dispositions :: "string list" where
  "dispositions =
     [''Home'', ''Rehab Facility'', ''Nursing Home'', ''Expired'', ''Transfer'', ''Left AMA'']"

text \<open>
  The two role filters of the script: \<^verbatim>\<open>staff_df[staff_df['role'].isin(['Attending
  Physician', 'Resident'])]\<close> and \<^verbatim>\<open>staff_df[staff_df['role'] == 'Registered
  Nurse']\<close>.
\<close>

definition physician_roles :: "string list" where
  "physician_roles = [''Attending Physician'', ''Resident'']"

definition nurse_role :: string where
  "nurse_role = ''Registered Nurse''"

definition physicians :: "staff list \<Rightarrow> staff list" where
  "physicians staff_df = filter (\<lambda>s. s_role s \<in> set physician_roles) staff_df"

definition nurses :: "staff list \<Rightarrow> staff list" where
  "nurses staff_df = filter (\<lambda>s. s_role s = nurse_role) staff_df"

text \<open>
  The body of the inner loop of \<^verbatim>\<open>generate_admissions\<close>: one admission of
  \<open>patient\<close>, appended to the flat list \<open>admissions\<close>. The loop state is the
  list with the counter \<open>admission_id\<close>; \<open>horizon\<close> is \<^verbatim>\<open>(end - start).days\<close>.
  \<^verbatim>\<open>secondary_diagnosis_ids\<close> is the list of ids that the script joins with
  commas.
\<close>

definition admission_step ::
  "patient \<Rightarrow> ward list \<Rightarrow> diagnosis list \<Rightarrow> staff list \<Rightarrow> bed list \<Rightarrow> int \<Rightarrow>
   admission list \<times> int \<Rightarrow> int \<Rightarrow> (admission list \<times> int) gen" where
  "admission_step patient wards_df diagnoses_df staff_df beds_df horizon st adm_num =
     (case st of (admissions, admission_id) \<Rightarrow>
     gbind (randint 0 horizon) (\<lambda>days_offset.
     gbind (randint 0 23) (\<lambda>hours.
     gbind (randint 0 59) (\<lambda>minutes.
     let admission_datetime = timedelta days_offset hours minutes in
     gbind (sample_one diagnoses_df) (\<lambda>diagnosis.
     gbind (if d_severity_level diagnosis = ''Critical'' then randint 5 21
            else if d_severity_level diagnosis = ''Serious'' then randint 3 14
            else randint 1 7) (\<lambda>los.
     let discharge_datetime = admission_datetime + timedelta los 0 0 in
     gbind (if 0 < adm_num
            then gbind (py_index admissions (admission_id - 2)) (\<lambda>prev.
                 let days_since = days_of (admission_datetime - a_discharge_datetime prev)
                 in gret (days_since \<le> 30))
            else gret False) (\<lambda>is_readmission.
     gbind (sample_one wards_df) (\<lambda>ward.
     gbind (sample_one (filter (\<lambda>b. b_ward_id b = w_ward_id ward) beds_df)) (\<lambda>bed.
     gbind (sample_one (physicians staff_df)) (\<lambda>doctor.
     gbind (choice admission_types) (\<lambda>admission_type.
     gbind (randint 0 2) (\<lambda>num_secondary.
     gbind (df_sample num_secondary diagnoses_df) (\<lambda>secondary.
     gbind (choice dispositions) (\<lambda>discharge_disposition.
     gbind (uniform_rounded 500000 15000000) (\<lambda>total_charges.
     gret (admissions @
       [\<lparr>a_admission_id = admission_id,
         a_patient_id = p_patient_id patient,
         a_ward_id = w_ward_id ward,
         a_bed_id = b_bed_id bed,
         a_admission_date = date_of admission_datetime,
         a_admission_datetime = admission_datetime,
         a_discharge_date = date_of discharge_datetime,
         a_discharge_datetime = discharge_datetime,
         a_admission_type = admission_type,
         a_chief_complaint = d_diagnosis_name diagnosis,
         a_primary_diagnosis_id = d_diagnosis_id diagnosis,
         a_secondary_diagnosis_ids = map d_diagnosis_id secondary,
         a_attending_doctor_id = s_staff_id doctor,
         a_length_of_stay = los,
         a_is_readmission = is_readmission,
         a_readmission_days_since_discharge = None,
         a_discharge_disposition = discharge_disposition,
         a_total_charges = total_charges\<rparr>], admission_id + 1))))))))))))))))"

definition patient_admissions ::
  "ward list \<Rightarrow> diagnosis list \<Rightarrow> staff list \<Rightarrow> bed list \<Rightarrow> int \<Rightarrow>
   admission list \<times> int \<Rightarrow> patient \<Rightarrow> (admission list \<times> int) gen" where
  "patient_admissions wards_df diagnoses_df staff_df beds_df horizon st patient =
     gbind (randint 2 5) (\<lambda>num_admissions.
     for_loop (py_range num_admissions)
       (admission_step patient wards_df diagnoses_df staff_df beds_df horizon) st)"

definition generate_admissions ::
  "patient list \<Rightarrow> ward list \<Rightarrow> diagnosis list \<Rightarrow> staff list \<Rightarrow> bed list \<Rightarrow> int \<Rightarrow> nat \<Rightarrow>
   admission list gen" where
  "generate_admissions patients_df wards_df diagnoses_df staff_df beds_df start_year num_years =
     gbind (for_loop patients_df
              (patient_admissions wards_df diagnoses_df staff_df beds_df
                 (horizon_days start_year num_years)) ([], 1))
       (\<lambda>(admissions, admission_id). gret admissions)"

section \<open>Dependent fact tables\<close>

text \<open>
  Each generator walks a random subset of the admissions and appends its
  rows to a list, numbering them with a counter; the loop state is the pair
  of the list and the counter. Optional columns (\<^verbatim>\<open>None\<close> in the script) are
  options.
\<close>

subsection \<open>Medication administration\<close>

record medication_administration =
  mar_mar_id :: int
  mar_patient_id :: int
  mar_admission_id :: int
  mar_medication_id :: int
  mar_prescribed_by_staff_id :: int
  mar_administered_by_staff_id :: "int option"
  mar_scheduled_datetime :: int
  mar_administered_datetime :: "int option"
  mar_dosage :: "int \<times> string"
  mar_route :: string
  mar_status :: string
  mar_reason_if_not_given :: "string option"
  mar_vital_signs_before :: "string option"
  mar_vital_signs_after :: "string option"

definition routes :: "string list" where
  "routes = [''PO'', ''IV'', ''IM'', ''SC'', ''Topical'', ''Inhaled'']"

definition mar_statuses :: "string list" where
  "mar_statuses =
     [''Given'', ''Given'', ''Given'', ''Given'', ''Given'', ''Missed'', ''Refused'', ''Held'']"

text \<open>
  One dose: the innermost loop body of
  \<^verbatim>\<open>generate_medication_administration\<close>. \<^verbatim>\<open>dosage\<close> is the pair of the
  amount and the unit that the script formats into one string.
\<close>

definition mar_dose_step ::
  "admission \<Rightarrow> medication \<Rightarrow> staff list \<Rightarrow> int \<Rightarrow>
   medication_administration list \<times> int \<Rightarrow> int \<Rightarrow>
   (medication_administration list \<times> int) gen" where
  "mar_dose_step admission med staff_df day st dose =
     (case st of (mar_records, mar_id) \<Rightarrow>
     let scheduled_dt = a_admission_datetime admission + timedelta day (8 * dose) 0 in
     gbind (choice mar_statuses) (\<lambda>status.
     gbind (if status = ''Given''
            then gbind (randint (- 30) 60) (\<lambda>minutes. gret (Some (scheduled_dt + minutes)))
            else gret None) (\<lambda>administered_dt.
     gbind (sample_one (physicians staff_df)) (\<lambda>prescriber.
     gbind (sample_one (nurses staff_df)) (\<lambda>nurse.
     gbind (choice [10, 25, 50, 100, 250, 500]) (\<lambda>amount.
     gbind (choice [''mg'', ''mcg'', ''units'']) (\<lambda>unit.
     gbind (choice routes) (\<lambda>route.
     gret (mar_records @
       [\<lparr>mar_mar_id = mar_id,
         mar_patient_id = a_patient_id admission,
         mar_admission_id = a_admission_id admission,
         mar_medication_id = m_medication_id med,
         mar_prescribed_by_staff_id = s_staff_id prescriber,
         mar_administered_by_staff_id =
           (if status = ''Given'' then Some (s_staff_id nurse) else None),
         mar_scheduled_datetime = scheduled_dt,
         mar_administered_datetime = administered_dt,
         mar_dosage = (amount, unit),
         mar_route = route,
         mar_status = status,
         mar_reason_if_not_given =
           (if status = ''Missed'' then Some ''Patient asleep''
            else if status = ''Refused'' then Some ''Patient refused''
            else if status = ''Held'' then Some ''Low BP'' else None),
         mar_vital_signs_before = None,
         mar_vital_signs_after = None\<rparr>], mar_id + 1)))))))))"

definition mar_day_step ::
  "admission \<Rightarrow> medication \<Rightarrow> staff list \<Rightarrow>
   medication_administration list \<times> int \<Rightarrow> int \<Rightarrow>
   (medication_administration list \<times> int) gen" where
  "mar_day_step admission med staff_df st day =
     gbind (randint 1 4) (\<lambda>doses_per_day.
     for_loop (py_range doses_per_day) (mar_dose_step admission med staff_df day) st)"

definition mar_med_step ::
  "admission \<Rightarrow> staff list \<Rightarrow>
   medication_administration list \<times> int \<Rightarrow> medication \<Rightarrow>
   (medication_administration list \<times> int) gen" where
  "mar_med_step admission staff_df st med =
     for_loop (py_range (a_length_of_stay admission)) (mar_day_step admission med staff_df) st"

definition mar_admission_step ::
  "medication list \<Rightarrow> staff list \<Rightarrow>
   medication_administration list \<times> int \<Rightarrow> admission \<Rightarrow>
   (medication_administration list \<times> int) gen" where
  "mar_admission_step medications_df staff_df st admission =
     gbind (randint 3 8) (\<lambda>num_meds.
     gbind (df_sample num_meds medications_df) (\<lambda>meds.
     for_loop meds (mar_med_step admission staff_df) st))"

definition generate_medication_administration ::
  "admission list \<Rightarrow> medication list \<Rightarrow> staff list \<Rightarrow> medication_administration list gen" where
  "generate_medication_administration admissions_df medications_df staff_df =
     gbind (df_sample_frac 3 10 admissions_df) (\<lambda>sampled_admissions.
     gbind (for_loop sampled_admissions (mar_admission_step medications_df staff_df) ([], 1))
       (\<lambda>(mar_records, mar_id). gret mar_records))"

subsection \<open>Vital signs\<close>

text \<open>The temperature is in tenths of a degree Celsius.\<close>

record vital_sign =
  v_vital_id :: int
  v_patient_id :: int
  v_admission_id :: int
  v_recorded_datetime :: int
  v_recorded_by_staff_id :: int
  v_blood_pressure_systolic :: int
  v_blood_pressure_diastolic :: int
  v_heart_rate :: int
  v_temperature :: int
  v_respiratory_rate :: int
  v_oxygen_saturation :: int
  v_pain_level :: int
  v_consciousness_level :: string

definition vital_check_step ::
  "admission \<Rightarrow> staff list \<Rightarrow> int \<Rightarrow> vital_sign list \<times> int \<Rightarrow> int \<Rightarrow>
   (vital_sign list \<times> int) gen" where
  "vital_check_step admission staff_df day st check =
     (case st of (vitals, vital_id) \<Rightarrow>
     let recorded_dt = a_admission_datetime admission + timedelta day (6 * check) 0 in
     gbind (sample_one (nurses staff_df)) (\<lambda>nurse.
     gbind (randint 90 180) (\<lambda>blood_pressure_systolic.
     gbind (randint 60 120) (\<lambda>blood_pressure_diastolic.
     gbind (randint 55 120) (\<lambda>heart_rate.
     gbind (uniform_rounded 360 390) (\<lambda>temperature.
     gbind (randint 12 24) (\<lambda>respiratory_rate.
     gbind (randint 88 100) (\<lambda>oxygen_saturation.
     gbind (randint 0 8) (\<lambda>pain_level.
     gbind (choice [''Alert'', ''Alert'', ''Alert'', ''Confused'', ''Lethargic''])
       (\<lambda>consciousness_level.
     gret (vitals @
       [\<lparr>v_vital_id = vital_id,
         v_patient_id = a_patient_id admission,
         v_admission_id = a_admission_id admission,
         v_recorded_datetime = recorded_dt,
         v_recorded_by_staff_id = s_staff_id nurse,
         v_blood_pressure_systolic = blood_pressure_systolic,
         v_blood_pressure_diastolic = blood_pressure_diastolic,
         v_heart_rate = heart_rate,
         v_temperature = temperature,
         v_respiratory_rate = respiratory_rate,
         v_oxygen_saturation = oxygen_saturation,
         v_pain_level = pain_level,
         v_consciousness_level = consciousness_level\<rparr>], vital_id + 1)))))))))))"

definition vital_admission_step ::
  "staff list \<Rightarrow> vital_sign list \<times> int \<Rightarrow> admission \<Rightarrow> (vital_sign list \<times> int) gen" where
  "vital_admission_step staff_df st admission =
     gbind (randint 2 4) (\<lambda>checks_per_day.
     for_loop (py_range (a_length_of_stay admission))
       (\<lambda>st day. for_loop (py_range checks_per_day)
                    (vital_check_step admission staff_df day) st) st)"

definition generate_vital_signs :: "admission list \<Rightarrow> staff list \<Rightarrow> vital_sign list gen" where
  "generate_vital_signs admissions_df staff_df =
     gbind (df_sample_frac 3 10 admissions_df) (\<lambda>sampled_admissions.
     gbind (for_loop sampled_admissions (vital_admission_step staff_df) ([], 1))
       (\<lambda>(vitals, vital_id). gret vitals))"

subsection \<open>Daily activities\<close>

text \<open>\<^verbatim>\<open>sleep_hours\<close> is in tenths of an hour.\<close>

record daily_activity =
  act_activity_id :: int
  act_patient_id :: int
  act_admission_id :: int
  act_activity_date :: int
  act_recorded_by_staff_id :: int
  act_recorded_datetime :: int
  act_mobility_score :: int
  act_mobility_notes :: string
  act_self_care_score :: int
  act_breakfast_percent_consumed :: int
  act_lunch_percent_consumed :: int
  act_dinner_percent_consumed :: int
  act_feeding_assistance_needed :: bool
  act_bathroom_independence :: bool
  act_continent_bladder :: bool
  act_continent_bowel :: bool
  act_output_notes :: string
  act_mental_status :: string
  act_mood :: string
  act_pain_level :: int
  act_pain_location :: string
  act_pain_management_effectiveness :: int
  act_sleep_quality :: int
  act_sleep_hours :: int
  act_comments :: "string option"

definition mental_statuses :: "string list" where
  "mental_statuses = [''Alert'', ''Alert'', ''Confused'', ''Lethargic'', ''Agitated'']"

definition moods :: "string list" where
  "moods = [''Cooperative'', ''Cooperative'', ''Anxious'', ''Depressed'', ''Irritable'']"

definition possible_comments :: "string list" where
  "possible_comments =
     [''Patient ambulated to hallway with walker, good progress today.'',
      ''Patient complained of pain in right hip during PT session.'',
      ''Family visited today, patient mood improved significantly.'',
      ''Patient required extensive assistance with morning hygiene.'',
      ''Good appetite today, finished most meals independently.'',
      ''Patient expressed desire to go home, education provided.'',
      ''Wound dressing changed, healing well per nursing assessment.'',
      ''Patient participated in physical therapy exercises reluctantly.'',
      ''Overnight sleep interrupted 3x for medications/vitals.'',
      ''Patient displayed confusion this morning, resolved by afternoon.'',
      ''No bowel movement for 2 days, physician notified.'',
      ''Patient tolerated ambulation better today vs yesterday.'']"

definition activity_day_step ::
  "admission \<Rightarrow> staff list \<Rightarrow> daily_activity list \<times> int \<Rightarrow> int \<Rightarrow>
   (daily_activity list \<times> int) gen" where
  "activity_day_step admission staff_df st day =
     (case st of (activities, activity_id) \<Rightarrow>
     let activity_date = date_of (a_admission_datetime admission + timedelta day 0 0) in
     gbind (sample_one (nurses staff_df)) (\<lambda>nurse.
     gbind (randint 1 5) (\<lambda>mobility_score.
     gbind (choice [''Walked to chair (assisted)'', ''Bedbound'',
                    ''Walked hallway with walker'', ''Independent ambulation''])
       (\<lambda>mobility_notes.
     gbind (randint 1 5) (\<lambda>self_care_score.
     gbind (randint 25 100) (\<lambda>breakfast_percent_consumed.
     gbind (randint 25 100) (\<lambda>lunch_percent_consumed.
     gbind (randint 25 100) (\<lambda>dinner_percent_consumed.
     gbind (choice [True, False]) (\<lambda>feeding_assistance_needed.
     gbind (choice [True, True, False]) (\<lambda>bathroom_independence.
     gbind (choice [True, True, True, False]) (\<lambda>continent_bladder.
     gbind (choice [True, True, True, False]) (\<lambda>continent_bowel.
     gbind (choice [''Urination normal'', ''No BM today'', ''Catheter in place'',
                    ''Normal output'']) (\<lambda>output_notes.
     gbind (choice mental_statuses) (\<lambda>mental_status.
     gbind (choice moods) (\<lambda>mood.
     gbind (randint 0 7) (\<lambda>pain_level.
     gbind (choice [''None'', ''Abdomen'', ''Hip'', ''Chest'', ''Back'', ''Head''])
       (\<lambda>pain_location.
     gbind (randint 1 5) (\<lambda>pain_management_effectiveness.
     gbind (randint 2 5) (\<lambda>sleep_quality.
     gbind (uniform_rounded 40 90) (\<lambda>sleep_hours.
     gbind random_py (\<lambda>r.
     gbind (if gt_0_3 r then gbind (choice possible_comments) (\<lambda>c. gret (Some c))
            else gret None) (\<lambda>comments.
     gret (activities @
       [\<lparr>act_activity_id = activity_id,
         act_patient_id = a_patient_id admission,
         act_admission_id = a_admission_id admission,
         act_activity_date = activity_date,
         act_recorded_by_staff_id = s_staff_id nurse,
         act_recorded_datetime = a_admission_datetime admission + timedelta day 20 0,
         act_mobility_score = mobility_score,
         act_mobility_notes = mobility_notes,
         act_self_care_score = self_care_score,
         act_breakfast_percent_consumed = breakfast_percent_consumed,
         act_lunch_percent_consumed = lunch_percent_consumed,
         act_dinner_percent_consumed = dinner_percent_consumed,
         act_feeding_assistance_needed = feeding_assistance_needed,
         act_bathroom_independence = bathroom_independence,
         act_continent_bladder = continent_bladder,
         act_continent_bowel = continent_bowel,
         act_output_notes = output_notes,
         act_mental_status = mental_status,
         act_mood = mood,
         act_pain_level = pain_level,
         act_pain_location = pain_location,
         act_pain_management_effectiveness = pain_management_effectiveness,
         act_sleep_quality = sleep_quality,
         act_sleep_hours = sleep_hours,
         act_comments = comments\<rparr>], activity_id + 1)))))))))))))))))))))))"

definition activity_admission_step ::
  "staff list \<Rightarrow> daily_activity list \<times> int \<Rightarrow> admission \<Rightarrow>
   (daily_activity list \<times> int) gen" where
  "activity_admission_step staff_df st admission =
     for_loop (py_range (a_length_of_stay admission)) (activity_day_step admission staff_df) st"

definition generate_daily_activities ::
  "admission list \<Rightarrow> staff list \<Rightarrow> daily_activity list gen" where
  "generate_daily_activities admissions_df staff_df =
     gbind (df_sample_frac 4 10 admissions_df) (\<lambda>sampled_admissions.
     gbind (for_loop sampled_admissions (activity_admission_step staff_df) ([], 1))
       (\<lambda>(activities, activity_id). gret activities))"

subsection \<open>Procedure events\<close>

record procedure_event =
  pe_procedure_event_id :: int
  pe_patient_id :: int
  pe_admission_id :: int
  pe_procedure_id :: int
  pe_performed_by_staff_id :: int
  pe_scheduled_datetime :: int
  pe_actual_datetime :: int
  pe_duration_minutes :: int
  pe_outcome :: string
  pe_complications :: "string option"
  pe_notes :: string
  pe_procedure_charges :: int

definition outcomes :: "string list" where
  "outcomes = [''Successful'', ''Successful'', ''Successful'', ''Complicated'', ''Aborted'']"

definition procedure_event_step ::
  "admission \<Rightarrow> procedure list \<Rightarrow> staff list \<Rightarrow> procedure_event list \<times> int \<Rightarrow> int \<Rightarrow>
   (procedure_event list \<times> int) gen" where
  "procedure_event_step admission procedures_df staff_df st proc_num =
     (case st of (procedure_events, event_id) \<Rightarrow>
     gbind (sample_one procedures_df) (\<lambda>procedure.
     gbind (sample_one (physicians staff_df)) (\<lambda>doctor.
     gbind (randint 0 (a_length_of_stay admission - 1)) (\<lambda>day.
     gbind (randint 8 17) (\<lambda>hour.
     let scheduled_dt = a_admission_datetime admission + timedelta day hour 0 in
     gbind (randint (- 30) 120) (\<lambda>minutes.
     let actual_dt = scheduled_dt + minutes in
     gbind (randint (- 30) 60) (\<lambda>extra.
     gbind (choice outcomes) (\<lambda>outcome.
     gbind random_py (\<lambda>r.
     gret (procedure_events @
       [\<lparr>pe_procedure_event_id = event_id,
         pe_patient_id = a_patient_id admission,
         pe_admission_id = a_admission_id admission,
         pe_procedure_id = pr_procedure_id procedure,
         pe_performed_by_staff_id = s_staff_id doctor,
         pe_scheduled_datetime = scheduled_dt,
         pe_actual_datetime = actual_dt,
         pe_duration_minutes = pr_avg_duration_minutes procedure + extra,
         pe_outcome = outcome,
         pe_complications = (if gt_0_9 r then Some ''Minor bleeding'' else None),
         pe_notes = ''Procedure completed as planned'',
         pe_procedure_charges = pr_base_cost procedure\<rparr>], event_id + 1))))))))))"

definition procedure_admission_step ::
  "procedure list \<Rightarrow> staff list \<Rightarrow> procedure_event list \<times> int \<Rightarrow> admission \<Rightarrow>
   (procedure_event list \<times> int) gen" where
  "procedure_admission_step procedures_df staff_df st admission =
     gbind (randint 1 3) (\<lambda>num_procedures.
     for_loop (py_range num_procedures)
       (procedure_event_step admission procedures_df staff_df) st)"

definition generate_procedure_events ::
  "admission list \<Rightarrow> procedure list \<Rightarrow> staff list \<Rightarrow> procedure_event list gen" where
  "generate_procedure_events admissions_df procedures_df staff_df =
     gbind (df_sample_frac 4 10 admissions_df) (\<lambda>admissions_with_procedures.
     gbind (for_loop admissions_with_procedures
              (procedure_admission_step procedures_df staff_df) ([], 1))
       (\<lambda>(procedure_events, event_id). gret procedure_events))"

subsection \<open>Lab results\<close>

text \<open>\<^verbatim>\<open>test_value\<close> is in tenths, before the script turns it into a string.\<close>

record lab_result =
  lab_lab_id :: int
  lab_patient_id :: int
  lab_admission_id :: int
  lab_test_type :: string
  lab_test_name :: string
  lab_ordered_by_staff_id :: int
  lab_collected_datetime :: int
  lab_resulted_datetime :: int
  lab_test_value :: int
  lab_unit_of_measure :: string
  lab_reference_range :: string
  lab_abnormal_flag :: string
  lab_lab_department :: string

definition test_types :: "(string \<times> string \<times> string \<times> string) list" where
  "test_types =
     [(''CBC'', ''Hemoglobin'', ''12-16 g/dL'', ''g/dL''),
      (''CBC'', ''WBC Count'', ''4-11 K/uL'', ''K/uL''),
      (''BMP'', ''Sodium'', ''135-145 mEq/L'', ''mEq/L''),
      (''BMP'', ''Potassium'', ''3.5-5.0 mEq/L'', ''mEq/L''),
      (''BMP'', ''Glucose'', ''70-100 mg/dL'', ''mg/dL''),
      (''Lipid Panel'', ''Total Cholesterol'', ''<200 mg/dL'', ''mg/dL''),
      (''Lipid Panel'', ''HDL'', ''>40 mg/dL'', ''mg/dL''),
      (''Liver Function'', ''ALT'', ''7-56 U/L'', ''U/L'')]"

definition abnormal_flags :: "string list" where
  "abnormal_flags = [''Normal'', ''Normal'', ''Normal'', ''High'', ''Low'', ''Critical'']"

definition lab_panel_step ::
  "admission \<Rightarrow> staff list \<Rightarrow> lab_result list \<times> int \<Rightarrow> int \<Rightarrow>
   (lab_result list \<times> int) gen" where
  "lab_panel_step admission staff_df st panel =
     (case st of (labs, lab_id) \<Rightarrow>
     gbind (choice test_types) (\<lambda>test.
     gbind (sample_one (physicians staff_df)) (\<lambda>doctor.
     gbind (randint 0 (a_length_of_stay admission - 1)) (\<lambda>day.
     gbind (randint 6 10) (\<lambda>hour.
     let collected_dt = a_admission_datetime admission + timedelta day hour 0 in
     gbind (randint 2 24) (\<lambda>delay.
     let resulted_dt = collected_dt + timedelta 0 delay 0 in
     gbind (uniform_rounded 500 2000) (\<lambda>test_value.
     gbind (choice abnormal_flags) (\<lambda>abnormal_flag.
     gret (labs @
       [\<lparr>lab_lab_id = lab_id,
         lab_patient_id = a_patient_id admission,
         lab_admission_id = a_admission_id admission,
         lab_test_type = fst test,
         lab_test_name = fst (snd test),
         lab_ordered_by_staff_id = s_staff_id doctor,
         lab_collected_datetime = collected_dt,
         lab_resulted_datetime = resulted_dt,
         lab_test_value = test_value,
         lab_unit_of_measure = snd (snd (snd test)),
         lab_reference_range = fst (snd (snd test)),
         lab_abnormal_flag = abnormal_flag,
         lab_lab_department = ''Clinical Lab''\<rparr>], lab_id + 1)))))))))"

definition lab_admission_step ::
  "staff list \<Rightarrow> lab_result list \<times> int \<Rightarrow> admission \<Rightarrow> (lab_result list \<times> int) gen" where
  "lab_admission_step staff_df st admission =
     gbind (randint 1 4) (\<lambda>num_lab_panels.
     for_loop (py_range num_lab_panels) (lab_panel_step admission staff_df) st)"

definition generate_lab_results :: "admission list \<Rightarrow> staff list \<Rightarrow> lab_result list gen" where
  "generate_lab_results admissions_df staff_df =
     gbind (df_sample_frac 5 10 admissions_df) (\<lambda>admissions_with_labs.
     gbind (for_loop admissions_with_labs (lab_admission_step staff_df) ([], 1))
       (\<lambda>(labs, lab_id). gret labs))"

subsection \<open>Care plan goals\<close>

record care_plan_goal =
  goal_goal_id :: int
  goal_patient_id :: int
  goal_admission_id :: int
  goal_goal_type :: string
  goal_goal_description :: string
  goal_target_date :: int
  goal_status :: string
  goal_progress_pct :: int
  goal_created_by_staff_id :: int
  goal_created_datetime :: int
  goal_last_updated_datetime :: int

definition goal_templates :: "(string \<times> string) list" where
  "goal_templates =
     [(''Mobility'', ''Walk 50 feet independently by discharge''),
      (''Mobility'', ''Transfer from bed to chair with minimal assistance''),
      (''Pain Management'', ''Maintain pain level below 4/10''),
      (''Wound Healing'', ''Wound fully healed within 2 weeks''),
      (''Self-Care'', ''Complete morning hygiene independently''),
      (''Nutrition'', ''Consume 75% of meals without assistance''),
      (''Education'', ''Patient verbalizes understanding of discharge medications'')]"

definition goal_statuses :: "string list" where
  "goal_statuses =
     [''Not Started'', ''In Progress'', ''In Progress'', ''In Progress'', ''Achieved'',
      ''Discontinued'']"

definition goal_step ::
  "admission \<Rightarrow> staff list \<Rightarrow> care_plan_goal list \<times> int \<Rightarrow> int \<Rightarrow>
   (care_plan_goal list \<times> int) gen" where
  "goal_step admission staff_df st k =
     (case st of (goals, goal_id) \<Rightarrow>
     gbind (choice goal_templates) (\<lambda>goal_template.
     gbind (sample_one (nurses staff_df)) (\<lambda>nurse.
     gbind (choice goal_statuses) (\<lambda>status.
     gbind (if status = ''Achieved'' then gret 100
            else if status = ''In Progress'' then randint 30 90
            else gret 0) (\<lambda>progress.
     gbind (randint 2 24) (\<lambda>created_hours.
     gbind (randint 1 (a_length_of_stay admission)) (\<lambda>updated_days.
     gret (goals @
       [\<lparr>goal_goal_id = goal_id,
         goal_patient_id = a_patient_id admission,
         goal_admission_id = a_admission_id admission,
         goal_goal_type = fst goal_template,
         goal_goal_description = snd goal_template,
         goal_target_date = a_discharge_date admission,
         goal_status = status,
         goal_progress_pct = progress,
         goal_created_by_staff_id = s_staff_id nurse,
         goal_created_datetime =
           a_admission_datetime admission + timedelta 0 created_hours 0,
         goal_last_updated_datetime =
           a_admission_datetime admission + timedelta updated_days 0 0\<rparr>],
       goal_id + 1))))))))"

definition goal_admission_step ::
  "staff list \<Rightarrow> care_plan_goal list \<times> int \<Rightarrow> admission \<Rightarrow>
   (care_plan_goal list \<times> int) gen" where
  "goal_admission_step staff_df st admission =
     gbind (randint 2 4) (\<lambda>num_goals.
     for_loop (py_range num_goals) (goal_step admission staff_df) st)"

definition generate_care_plan_goals ::
  "admission list \<Rightarrow> staff list \<Rightarrow> care_plan_goal list gen" where
  "generate_care_plan_goals admissions_df staff_df =
     gbind (df_sample_frac 6 10 admissions_df) (\<lambda>admissions_with_goals.
     gbind (for_loop admissions_with_goals (goal_admission_step staff_df) ([], 1))
       (\<lambda>(goals, goal_id). gret goals))"

section \<open>Properties of the generated tables\<close>

subsection \<open>Admissions\<close>

text \<open>
  The stay-length range that the severity of a diagnosis dictates:
  Critical gives 5 to 21 days, Serious 3 to 14, anything else 1 to 7.
\<close>

definition los_in_range :: "string \<Rightarrow> int \<Rightarrow> bool" where
  "los_in_range severity los =
     (if severity = ''Critical'' then 5 \<le> los \<and> los \<le> 21
      else if severity = ''Serious'' then 3 \<le> los \<and> los \<le> 14
      else 1 \<le> los \<and> los \<le> 7)"

text \<open>
  The readmission flags along the admissions of one patient, in generation
  order: the first is never flagged, and each later one is flagged exactly
  when it starts at most 30 days (the \<^verbatim>\<open>.days\<close> of the difference) after
  the discharge of the admission generated just before it.
\<close>

fun readmission_chain :: "admission \<Rightarrow> admission list \<Rightarrow> bool" where
  "readmission_chain prev [] = True"
| "readmission_chain prev (a # as) =
     ((a_is_readmission a \<longleftrightarrow>
         days_of (a_admission_datetime a - a_discharge_datetime prev) \<le> 30)
      \<and> readmission_chain a as)"

fun readmission_invariant :: "admission list \<Rightarrow> bool" where
  "readmission_invariant [] = True"
| "readmission_invariant (a # as) = (\<not> a_is_readmission a \<and> readmission_chain a as)"

text \<open>The admissions of one patient, in the order of the table.\<close>

definition admissions_of :: "int \<Rightarrow> admission list \<Rightarrow> admission list" where
  "admissions_of pid admissions = filter (\<lambda>a. a_patient_id a = pid) admissions"

text \<open>A row of a table looked up by its key: the first row that has it.\<close>

definition primary_diagnosis :: "diagnosis list \<Rightarrow> admission \<Rightarrow> diagnosis option" where
  "primary_diagnosis diagnoses_df a =
     find (\<lambda>d. d_diagnosis_id d = a_primary_diagnosis_id a) diagnoses_df"

definition staff_role :: "staff list \<Rightarrow> int \<Rightarrow> string option" where
  "staff_role staff_df sid = map_option s_role (find (\<lambda>s. s_staff_id s = sid) staff_df)"

text \<open>
  What every admission of \<open>patient\<close> satisfies when it leaves
  \<open>admission_step\<close>: its references, its stay and its unset column.
\<close>

definition admission_refs ::
  "ward list \<Rightarrow> diagnosis list \<Rightarrow> staff list \<Rightarrow> bed list \<Rightarrow> admission \<Rightarrow> bool" where
  "admission_refs W D S B a \<longleftrightarrow>
       (\<exists>w\<in>set W. w_ward_id w = a_ward_id a)
     \<and> (\<exists>b\<in>set B. b_bed_id b = a_bed_id a \<and> b_ward_id b = a_ward_id a)
     \<and> (\<exists>d\<in>set D. d_diagnosis_id d = a_primary_diagnosis_id a)
     \<and> set (a_secondary_diagnosis_ids a) \<subseteq> d_diagnosis_id ` set D
     \<and> (\<exists>s\<in>set S. s_staff_id s = a_attending_doctor_id a \<and> s_role s \<in> set physician_roles)"

definition admission_row ::
  "patient \<Rightarrow> ward list \<Rightarrow> diagnosis list \<Rightarrow> staff list \<Rightarrow> bed list \<Rightarrow> admission \<Rightarrow> bool" where
  "admission_row patient W D S B a \<longleftrightarrow>
       a_patient_id a = p_patient_id patient
     \<and> admission_refs W D S B a
     \<and> (\<exists>d\<in>set D. d_diagnosis_id d = a_primary_diagnosis_id a
            \<and> d_diagnosis_name d = a_chief_complaint a
            \<and> los_in_range (d_severity_level d) (a_length_of_stay a))
     \<and> length (a_secondary_diagnosis_ids a) \<le> 2
     \<and> a_discharge_datetime a = a_admission_datetime a + timedelta (a_length_of_stay a) 0 0
     \<and> a_readmission_days_since_discharge a = None
     \<and> 0 \<le> a_admission_datetime a"

text \<open>The block of admissions that one pass of the outer loop appends.\<close>

definition patient_block ::
  "ward list \<Rightarrow> diagnosis list \<Rightarrow> staff list \<Rightarrow> bed list \<Rightarrow> patient \<Rightarrow>
   admission list \<Rightarrow> bool" where
  "patient_block W D S B patient blk \<longleftrightarrow>
     (\<forall>a\<in>set blk. admission_row patient W D S B a) \<and> readmission_invariant blk
     \<and> 2 \<le> length blk \<and> length blk \<le> 5"

text \<open>
  The loop state of the admission generator: the counter is one more than
  the number of rows, and the rows are numbered \<open>1, 2, \<dots>\<close> in the order
  of the table.
\<close>

definition ids_inv :: "admission list \<times> int \<Rightarrow> bool" where
  "ids_inv st \<longleftrightarrow>
     snd st = int (length (fst st)) + 1
     \<and> map a_admission_id (fst st) = [1..int (length (fst st))]"

subsection \<open>Child rows\<close>

text \<open>The end of a stay: \<^verbatim>\<open>admission_datetime + timedelta(days=length_of_stay)\<close>.\<close>

definition stay_end :: "admission \<Rightarrow> int" where
  "stay_end a = a_admission_datetime a + timedelta (a_length_of_stay a) 0 0"

text \<open>A staff id that belongs to a staff row with one of the given roles.\<close>

definition has_role :: "staff list \<Rightarrow> string list \<Rightarrow> int \<Rightarrow> bool" where
  "has_role S roles sid \<longleftrightarrow> (\<exists>s\<in>set S. s_staff_id s = sid \<and> s_role s \<in> set roles)"

text \<open>Medication administration: parent, references, roles and times.\<close>

definition mar_parent :: "admission \<Rightarrow> medication_administration \<Rightarrow> bool" where
  "mar_parent a r \<longleftrightarrow>
     mar_admission_id r = a_admission_id a \<and> mar_patient_id r = a_patient_id a"

definition mar_refs :: "medication list \<Rightarrow> staff list \<Rightarrow> medication_administration \<Rightarrow> bool" where
  "mar_refs M S r \<longleftrightarrow>
       (\<exists>m\<in>set M. m_medication_id m = mar_medication_id r)
     \<and> (\<exists>s\<in>set S. s_staff_id s = mar_prescribed_by_staff_id r)
     \<and> (case mar_administered_by_staff_id r of None \<Rightarrow> True
         | Some sid \<Rightarrow> \<exists>s\<in>set S. s_staff_id s = sid)"

definition mar_roles :: "staff list \<Rightarrow> medication_administration \<Rightarrow> bool" where
  "mar_roles S r \<longleftrightarrow>
       has_role S physician_roles (mar_prescribed_by_staff_id r)
     \<and> (case mar_administered_by_staff_id r of None \<Rightarrow> True
         | Some sid \<Rightarrow> has_role S [nurse_role] sid)"

definition mar_times :: "admission \<Rightarrow> medication_administration \<Rightarrow> bool" where
  "mar_times a r \<longleftrightarrow>
       a_admission_datetime a \<le> mar_scheduled_datetime r
     \<and> mar_scheduled_datetime r \<le> stay_end a
     \<and> (case mar_administered_datetime r of None \<Rightarrow> True
         | Some t \<Rightarrow> mar_scheduled_datetime r - 30 \<le> t \<and> t \<le> mar_scheduled_datetime r + 60)"

text \<open>Vital signs.\<close>

definition vital_parent :: "admission \<Rightarrow> vital_sign \<Rightarrow> bool" where
  "vital_parent a r \<longleftrightarrow>
     v_admission_id r = a_admission_id a \<and> v_patient_id r = a_patient_id a"

definition vital_times :: "admission \<Rightarrow> vital_sign \<Rightarrow> bool" where
  "vital_times a r \<longleftrightarrow>
     a_admission_datetime a \<le> v_recorded_datetime r \<and> v_recorded_datetime r < stay_end a"

definition vital_ranges :: "vital_sign \<Rightarrow> bool" where
  "vital_ranges r \<longleftrightarrow>
       90 \<le> v_blood_pressure_systolic r \<and> v_blood_pressure_systolic r \<le> 180
     \<and> 60 \<le> v_blood_pressure_diastolic r \<and> v_blood_pressure_diastolic r \<le> 120
     \<and> 55 \<le> v_heart_rate r \<and> v_heart_rate r \<le> 120
     \<and> 360 \<le> v_temperature r \<and> v_temperature r \<le> 390
     \<and> 12 \<le> v_respiratory_rate r \<and> v_respiratory_rate r \<le> 24
     \<and> 88 \<le> v_oxygen_saturation r \<and> v_oxygen_saturation r \<le> 100
     \<and> 0 \<le> v_pain_level r \<and> v_pain_level r \<le> 8"

text \<open>Daily activities.\<close>

definition activity_parent :: "admission \<Rightarrow> daily_activity \<Rightarrow> bool" where
  "activity_parent a r \<longleftrightarrow>
     act_admission_id r = a_admission_id a \<and> act_patient_id r = a_patient_id a"

definition activity_times :: "admission \<Rightarrow> daily_activity \<Rightarrow> bool" where
  "activity_times a r \<longleftrightarrow>
     a_admission_datetime a \<le> act_recorded_datetime r \<and> act_recorded_datetime r < stay_end a"

text \<open>Procedure events.\<close>

definition procedure_parent :: "admission \<Rightarrow> procedure_event \<Rightarrow> bool" where
  "procedure_parent a r \<longleftrightarrow>
     pe_admission_id r = a_admission_id a \<and> pe_patient_id r = a_patient_id a"

definition procedure_times :: "admission \<Rightarrow> procedure_event \<Rightarrow> bool" where
  "procedure_times a r \<longleftrightarrow>
       a_admission_datetime a \<le> pe_scheduled_datetime r \<and> pe_scheduled_datetime r < stay_end a
     \<and> a_admission_datetime a \<le> pe_actual_datetime r \<and> pe_actual_datetime r < stay_end a"

text \<open>Lab results.\<close>

definition lab_parent :: "admission \<Rightarrow> lab_result \<Rightarrow> bool" where
  "lab_parent a r \<longleftrightarrow>
     lab_admission_id r = a_admission_id a \<and> lab_patient_id r = a_patient_id a"

definition lab_times :: "admission \<Rightarrow> lab_result \<Rightarrow> bool" where
  "lab_times a r \<longleftrightarrow>
       a_admission_datetime a \<le> lab_collected_datetime r \<and> lab_collected_datetime r < stay_end a
     \<and> lab_collected_datetime r + 120 \<le> lab_resulted_datetime r
     \<and> lab_resulted_datetime r \<le> lab_collected_datetime r + 1440"

text \<open>Care plan goals.\<close>

definition goal_parent :: "admission \<Rightarrow> care_plan_goal \<Rightarrow> bool" where
  "goal_parent a r \<longleftrightarrow>
     goal_admission_id r = a_admission_id a \<and> goal_patient_id r = a_patient_id a"

definition goal_times :: "admission \<Rightarrow> care_plan_goal \<Rightarrow> bool" where
  "goal_times a r \<longleftrightarrow>
       a_admission_datetime a + 120 \<le> goal_created_datetime r
     \<and> goal_created_datetime r \<le> a_admission_datetime a + 1440
     \<and> a_admission_datetime a + 1440 \<le> goal_last_updated_datetime r
     \<and> goal_last_updated_datetime r \<le> stay_end a"

definition progress_consistent :: "care_plan_goal \<Rightarrow> bool" where
  "progress_consistent r \<longleftrightarrow>
       (goal_status r = ''Achieved'' \<longrightarrow> goal_progress_pct r = 100)
     \<and> (goal_status r = ''Not Started'' \<or> goal_status r = ''Discontinued''
          \<longrightarrow> goal_progress_pct r = 0)
     \<and> (goal_status r = ''In Progress''
          \<longrightarrow> 30 \<le> goal_progress_pct r \<and> goal_progress_pct r \<le> 90)"

text \<open>
  The full description of a row of each child table, as the innermost loop
  body leaves it, for the admission \<open>a\<close> it belongs to.
\<close>

definition mar_row ::
  "medication list \<Rightarrow> staff list \<Rightarrow> admission \<Rightarrow> medication_administration \<Rightarrow> bool" where
  "mar_row M S a r \<longleftrightarrow> mar_parent a r \<and> mar_refs M S r \<and> mar_roles S r \<and> mar_times a r"

definition vital_row :: "staff list \<Rightarrow> admission \<Rightarrow> vital_sign \<Rightarrow> bool" where
  "vital_row S a r \<longleftrightarrow>
     vital_parent a r \<and> has_role S [nurse_role] (v_recorded_by_staff_id r)
     \<and> vital_times a r \<and> vital_ranges r"

definition activity_row :: "staff list \<Rightarrow> admission \<Rightarrow> daily_activity \<Rightarrow> bool" where
  "activity_row S a r \<longleftrightarrow>
     activity_parent a r \<and> has_role S [nurse_role] (act_recorded_by_staff_id r)
     \<and> activity_times a r"

definition procedure_row ::
  "procedure list \<Rightarrow> staff list \<Rightarrow> admission \<Rightarrow> procedure_event \<Rightarrow> bool" where
  "procedure_row P S a r \<longleftrightarrow>
     procedure_parent a r \<and> (\<exists>p\<in>set P. pr_procedure_id p = pe_procedure_id r)
     \<and> has_role S physician_roles (pe_performed_by_staff_id r) \<and> procedure_times a r"

definition lab_row :: "staff list \<Rightarrow> admission \<Rightarrow> lab_result \<Rightarrow> bool" where
  "lab_row S a r \<longleftrightarrow>
     lab_parent a r \<and> has_role S physician_roles (lab_ordered_by_staff_id r) \<and> lab_times a r"

definition goal_row :: "staff list \<Rightarrow> admission \<Rightarrow> care_plan_goal \<Rightarrow> bool" where
  "goal_row S a r \<longleftrightarrow>
     goal_parent a r \<and> has_role S [nurse_role] (goal_created_by_staff_id r)
     \<and> goal_times a r \<and> progress_consistent r \<and> goal_status r \<in> set goal_statuses"

text \<open>The rows of a loop state all satisfy \<open>Q\<close>.\<close>

definition rows_inv :: "('r \<Rightarrow> bool) \<Rightarrow> 'r list \<times> int \<Rightarrow> bool" where
  "rows_inv Q st \<longleftrightarrow> (\<forall>r\<in>set (fst st). Q r)"

subsection \<open>Foreign keys and attribution\<close>

text \<open>
  A foreign key resolves when some row of the referenced table has it as
  its key. \<open>known_patient\<close> is that for the patient table; the other
  references of a row are in \<open>admission_refs\<close>, \<open>mar_refs\<close> and below.
\<close>

definition known_patient :: "patient list \<Rightarrow> int \<Rightarrow> bool" where
  "known_patient P pid \<longleftrightarrow> (\<exists>p\<in>set P. p_patient_id p = pid)"

definition known_staff :: "staff list \<Rightarrow> int \<Rightarrow> bool" where
  "known_staff S sid \<longleftrightarrow> (\<exists>s\<in>set S. s_staff_id s = sid)"

definition admission_fks ::
  "patient list \<Rightarrow> ward list \<Rightarrow> diagnosis list \<Rightarrow> staff list \<Rightarrow> bed list \<Rightarrow>
   admission \<Rightarrow> bool" where
  "admission_fks P W D S B a \<longleftrightarrow> known_patient P (a_patient_id a) \<and> admission_refs W D S B a"

definition mar_fks ::
  "patient list \<Rightarrow> admission list \<Rightarrow> medication list \<Rightarrow> staff list \<Rightarrow>
   medication_administration \<Rightarrow> bool" where
  "mar_fks P A M S r \<longleftrightarrow>
     (\<exists>a\<in>set A. mar_parent a r) \<and> known_patient P (mar_patient_id r) \<and> mar_refs M S r"

definition vital_fks :: "patient list \<Rightarrow> admission list \<Rightarrow> staff list \<Rightarrow> vital_sign \<Rightarrow> bool" where
  "vital_fks P A S r \<longleftrightarrow>
     (\<exists>a\<in>set A. vital_parent a r) \<and> known_patient P (v_patient_id r)
     \<and> known_staff S (v_recorded_by_staff_id r)"

definition activity_fks ::
  "patient list \<Rightarrow> admission list \<Rightarrow> staff list \<Rightarrow> daily_activity \<Rightarrow> bool" where
  "activity_fks P A S r \<longleftrightarrow>
     (\<exists>a\<in>set A. activity_parent a r) \<and> known_patient P (act_patient_id r)
     \<and> known_staff S (act_recorded_by_staff_id r)"

definition procedure_fks ::
  "patient list \<Rightarrow> admission list \<Rightarrow> procedure list \<Rightarrow> staff list \<Rightarrow> procedure_event \<Rightarrow> bool" where
  "procedure_fks P A PR S r \<longleftrightarrow>
     (\<exists>a\<in>set A. procedure_parent a r) \<and> known_patient P (pe_patient_id r)
     \<and> (\<exists>p\<in>set PR. pr_procedure_id p = pe_procedure_id r)
     \<and> known_staff S (pe_performed_by_staff_id r)"

definition lab_fks :: "patient list \<Rightarrow> admission list \<Rightarrow> staff list \<Rightarrow> lab_result \<Rightarrow> bool" where
  "lab_fks P A S r \<longleftrightarrow>
     (\<exists>a\<in>set A. lab_parent a r) \<and> known_patient P (lab_patient_id r)
     \<and> known_staff S (lab_ordered_by_staff_id r)"

definition goal_fks ::
  "patient list \<Rightarrow> admission list \<Rightarrow> staff list \<Rightarrow> care_plan_goal \<Rightarrow> bool" where
  "goal_fks P A S r \<longleftrightarrow>
     (\<exists>a\<in>set A. goal_parent a r) \<and> known_patient P (goal_patient_id r)
     \<and> known_staff S (goal_created_by_staff_id r)"

text \<open>
  A staff reference is attributed to a set of roles when the staff row it
  resolves to has one of them.
\<close>

definition attributed_to :: "staff list \<Rightarrow> string list \<Rightarrow> int \<Rightarrow> bool" where
  "attributed_to S roles sid =
     (case staff_role S sid of None \<Rightarrow> False | Some role \<Rightarrow> role \<in> set roles)"

definition mar_attribution :: "staff list \<Rightarrow> medication_administration \<Rightarrow> bool" where
  "mar_attribution S r \<longleftrightarrow>
       attributed_to S physician_roles (mar_prescribed_by_staff_id r)
     \<and> (case mar_administered_by_staff_id r of None \<Rightarrow> True
         | Some sid \<Rightarrow> attributed_to S [nurse_role] sid)"

section \<open>A small run\<close>

text \<open>
  Concrete tables and tapes on which the generators are run below: two
  patients, four staff members, one bed in each of the first wards, three
  medications and two procedures.
\<close>

definition mk_patient :: "int \<Rightarrow> patient" where
  "mk_patient i =
     \<lparr>p_patient_id = i, p_gender = ''Female'', p_blood_type = ''O+'',
      p_insurance_provider = ''Aetna'', p_is_current = True\<rparr>"

definition ex_patients :: "patient list" where
  "ex_patients = [mk_patient 1, mk_patient 2]"

definition mk_staff :: "int \<Rightarrow> string \<Rightarrow> staff" where
  "mk_staff i r =
     \<lparr>s_staff_id = i, s_role = r, s_department = ''Critical Care'',
      s_shift_pattern = ''Day'', s_qualifications = ''Licensed '' @ r, s_is_active = True\<rparr>"

definition ex_staff :: "staff list" where
  "ex_staff =
     [mk_staff 1 ''Attending Physician'', mk_staff 2 ''Registered Nurse'',
      mk_staff 3 ''Resident'', mk_staff 4 ''Pharmacist'']"

definition mk_bed :: "int \<Rightarrow> int \<Rightarrow> bed" where
  "mk_bed i w =
     \<lparr>b_bed_id = i, b_ward_id = w, b_bed_type = ''Standard'', b_has_ventilator = False,
      b_has_monitor = True, b_is_available = True\<rparr>"

definition ex_beds :: "bed list" where
  "ex_beds = map (\<lambda>w. mk_bed (100 + w_ward_id w) (w_ward_id w)) WARDS"

definition mk_medication :: "int \<Rightarrow> medication" where
  "mk_medication i =
     \<lparr>m_medication_id = i, m_drug_class = ''Antibiotic'', m_dosage_form = ''Tablet'',
      m_manufacturer = ''Roche'', m_cost_per_unit = 1250,
      m_contraindications = ''Allergy to Antibiotic''\<rparr>"

definition ex_medications :: "medication list" where
  "ex_medications = [mk_medication 1, mk_medication 2, mk_medication 3]"

definition mk_procedure :: "int \<Rightarrow> procedure" where
  "mk_procedure i =
     \<lparr>pr_procedure_id = i, pr_procedure_type = ''Diagnostic'', pr_department = ''Obstetrics'',
      pr_avg_duration_minutes = 45, pr_base_cost = 120000, pr_requires_anesthesia = False\<rparr>"

definition ex_procedures :: "procedure list" where
  "ex_procedures = [mk_procedure 1, mk_procedure 2]"

text \<open>
  The tapes of the admission run. Patient 1 draws three admissions and
  patient 2 two; an admission reads eight numbers of the first tape (day,
  hour, minute, stay, type, number of secondary diagnoses, disposition,
  charges) and at least four of the second (diagnosis, ward, bed, doctor).
\<close>

definition ex_rng :: rng where
  "ex_rng =
     \<lparr>py = [1,
             10, 8, 30, 0, 0, 1, 0, 0,
             12, 9, 0, 1, 1, 0, 2, 5,
             100, 0, 0, 2, 0, 0, 0, 7,
             0,
             400, 23, 59, 0, 2, 2, 4, 99,
             395, 0, 0, 6, 0, 0, 1, 0],
      np = [1, 1, 0, 0, 3,
            2, 0, 0, 1,
            5, 11, 0, 0,
            3, 4, 0, 0, 1, 7,
            1, 4, 0, 1]\<rparr>"

text \<open>
  The tapes of the child tables. The second tape first picks the sampled
  admissions (here the fourth and the first of the table, for the care
  goals also the second); a tape read to its end yields zeros, which select
  the first option and the lower bound everywhere.
\<close>

definition ex_mar_rng :: rng where
  "ex_mar_rng =
     \<lparr>py = [0,
             3,
             0, 90, 0, 0, 0,
             5, 1, 1, 1,
             6, 2, 2, 2,
             0, 90, 3, 0, 3,
             0,
             7, 4, 1, 4,
             0,
             0, 0, 5, 2, 5],
      np = [3, 0, 0, 0, 0, 0, 0, 1, 0, 0, 0, 1, 0, 0, 0, 1, 0]\<rparr>"

definition ex_vital_rng :: rng where
  "ex_vital_rng =
     \<lparr>py = [0,
             25, 20, 17, 8, 4, 9, 3, 3,
             90, 60, 65, 30, 12, 12, 8, 4],
      np = [3, 0]\<rparr>"

definition ex_activity_rng :: rng where
  "ex_activity_rng = \<lparr>py = [], np = [3, 0]\<rparr>"

definition ex_procedure_rng :: rng where
  "ex_procedure_rng =
     \<lparr>py = [0, 0, 9, 150, 5, 3, 9000000000000000], np = [3, 0, 1, 1]\<rparr>"

definition ex_lab_rng :: rng where
  "ex_lab_rng = \<lparr>py = [0, 4, 0, 4, 22, 371, 5], np = [3, 0, 1]\<rparr>"

definition ex_goal_rng :: rng where
  "ex_goal_rng =
     \<lparr>py = [0,
             0, 4, 0, 0,
             2, 1, 42, 22, 0,
             0,
             4, 0, 5, 0,
             6, 5, 10, 0],
      np = [3, 0, 0]\<rparr>"

text \<open>
  The tables these runs produce, row by row. They are what the generators
  return on the tapes above (see \<open>ex_admissions_run\<close> and the lemmas after it).
\<close>

definition ex_admissions :: "admission list" where
  "ex_admissions =
     [\<lparr>a_admission_id = 1, a_patient_id = 1, a_ward_id = 2, a_bed_id = 102,
       a_admission_date = 10, a_admission_datetime = 14910, a_discharge_date = 11,
       a_discharge_datetime = 16350, a_admission_type = ''Emergency'',
       a_chief_complaint = ''Pneumonia'', a_primary_diagnosis_id = 2,
       a_secondary_diagnosis_ids = [4], a_attending_doctor_id = 1, a_length_of_stay = 1,
       a_is_readmission = False, a_readmission_days_since_discharge = None,
       a_discharge_disposition = ''Home'', a_total_charges = 500000\<rparr>,
      \<lparr>a_admission_id = 2, a_patient_id = 1, a_ward_id = 1, a_bed_id = 101,
       a_admission_date = 12, a_admission_datetime = 17820, a_discharge_date = 16,
       a_discharge_datetime = 23580, a_admission_type = ''Scheduled'',
       a_chief_complaint = ''Heart Failure'', a_primary_diagnosis_id = 3,
       a_secondary_diagnosis_ids = [], a_attending_doctor_id = 3, a_length_of_stay = 4,
       a_is_readmission = True, a_readmission_days_since_discharge = None,
       a_discharge_disposition = ''Nursing Home'', a_total_charges = 500005\<rparr>,
      \<lparr>a_admission_id = 3, a_patient_id = 1, a_ward_id = 12, a_bed_id = 112,
       a_admission_date = 100, a_admission_datetime = 144000, a_discharge_date = 107,
       a_discharge_datetime = 154080, a_admission_type = ''Emergency'',
       a_chief_complaint = ''Cerebral Infarction (Stroke)'', a_primary_diagnosis_id = 6,
       a_secondary_diagnosis_ids = [], a_attending_doctor_id = 1, a_length_of_stay = 7,
       a_is_readmission = False, a_readmission_days_since_discharge = None,
       a_discharge_disposition = ''Home'', a_total_charges = 500007\<rparr>,
      \<lparr>a_admission_id = 4, a_patient_id = 2, a_ward_id = 5, a_bed_id = 105,
       a_admission_date = 400, a_admission_datetime = 577439, a_discharge_date = 401,
       a_discharge_datetime = 578879, a_admission_type = ''Transfer'',
       a_chief_complaint = ''Urinary Tract Infection'', a_primary_diagnosis_id = 4,
       a_secondary_diagnosis_ids = [2, 9], a_attending_doctor_id = 1, a_length_of_stay = 1,
       a_is_readmission = False, a_readmission_days_since_discharge = None,
       a_discharge_disposition = ''Transfer'', a_total_charges = 500099\<rparr>,
      \<lparr>a_admission_id = 5, a_patient_id = 2, a_ward_id = 5, a_bed_id = 105,
       a_admission_date = 395, a_admission_datetime = 568800, a_discharge_date = 402,
       a_discharge_datetime = 578880, a_admission_type = ''Emergency'',
       a_chief_complaint = ''Pneumonia'', a_primary_diagnosis_id = 2,
       a_secondary_diagnosis_ids = [], a_attending_doctor_id = 3, a_length_of_stay = 7,
       a_is_readmission = True, a_readmission_days_since_discharge = None,
       a_discharge_disposition = ''Rehab Facility'', a_total_charges = 500000\<rparr>]"

definition ex_mar :: "medication_administration list" where
  "ex_mar =
     [\<lparr>mar_mar_id = 1, mar_patient_id = 2, mar_admission_id = 4, mar_medication_id = 1,
       mar_prescribed_by_staff_id = 1, mar_administered_by_staff_id = Some 2,
       mar_scheduled_datetime = 577439, mar_administered_datetime = Some 577499,
       mar_dosage = (10, ''mg''), mar_route = ''PO'', mar_status = ''Given'',
       mar_reason_if_not_given = None, mar_vital_signs_before = None,
       mar_vital_signs_after = None\<rparr>,
      \<lparr>mar_mar_id = 2, mar_patient_id = 2, mar_admission_id = 4, mar_medication_id = 1,
       mar_prescribed_by_staff_id = 3, mar_administered_by_staff_id = None,
       mar_scheduled_datetime = 577919, mar_administered_datetime = None,
       mar_dosage = (25, ''mcg''), mar_route = ''IV'', mar_status = ''Missed'',
       mar_reason_if_not_given = Some ''Patient asleep'', mar_vital_signs_before = None,
       mar_vital_signs_after = None\<rparr>,
      \<lparr>mar_mar_id = 3, mar_patient_id = 2, mar_admission_id = 4, mar_medication_id = 1,
       mar_prescribed_by_staff_id = 1, mar_administered_by_staff_id = None,
       mar_scheduled_datetime = 578399, mar_administered_datetime = None,
       mar_dosage = (50, ''units''), mar_route = ''IM'', mar_status = ''Refused'',
       mar_reason_if_not_given = Some ''Patient refused'', mar_vital_signs_before = None,
       mar_vital_signs_after = None\<rparr>,
      \<lparr>mar_mar_id = 4, mar_patient_id = 2, mar_admission_id = 4, mar_medication_id = 1,
       mar_prescribed_by_staff_id = 3, mar_administered_by_staff_id = Some 2,
       mar_scheduled_datetime = 578879, mar_administered_datetime = Some 578939,
       mar_dosage = (100, ''mg''), mar_route = ''SC'', mar_status = ''Given'',
       mar_reason_if_not_given = None, mar_vital_signs_before = None,
       mar_vital_signs_after = None\<rparr>,
      \<lparr>mar_mar_id = 5, mar_patient_id = 2, mar_admission_id = 4, mar_medication_id = 2,
       mar_prescribed_by_staff_id = 1, mar_administered_by_staff_id = None,
       mar_scheduled_datetime = 577439, mar_administered_datetime = None,
       mar_dosage = (250, ''mcg''), mar_route = ''Topical'', mar_status = ''Held'',
       mar_reason_if_not_given = Some ''Low BP'', mar_vital_signs_before = None,
       mar_vital_signs_after = None\<rparr>,
      \<lparr>mar_mar_id = 6, mar_patient_id = 2, mar_admission_id = 4, mar_medication_id = 3,
       mar_prescribed_by_staff_id = 3, mar_administered_by_staff_id = Some 2,
       mar_scheduled_datetime = 577439, mar_administered_datetime = Some 577409,
       mar_dosage = (500, ''units''), mar_route = ''Inhaled'', mar_status = ''Given'',
       mar_reason_if_not_given = None, mar_vital_signs_before = None,
       mar_vital_signs_after = None\<rparr>,
      \<lparr>mar_mar_id = 7, mar_patient_id = 1, mar_admission_id = 1, mar_medication_id = 1,
       mar_prescribed_by_staff_id = 1, mar_administered_by_staff_id = Some 2,
       mar_scheduled_datetime = 14910, mar_administered_datetime = Some 14880,
       mar_dosage = (10, ''mg''), mar_route = ''PO'', mar_status = ''Given'',
       mar_reason_if_not_given = None, mar_vital_signs_before = None,
       mar_vital_signs_after = None\<rparr>,
      \<lparr>mar_mar_id = 8, mar_patient_id = 1, mar_admission_id = 1, mar_medication_id = 2,
       mar_prescribed_by_staff_id = 1, mar_administered_by_staff_id = Some 2,
       mar_scheduled_datetime = 14910, mar_administered_datetime = Some 14880,
       mar_dosage = (10, ''mg''), mar_route = ''PO'', mar_status = ''Given'',
       mar_reason_if_not_given = None, mar_vital_signs_before = None,
       mar_vital_signs_after = None\<rparr>,
      \<lparr>mar_mar_id = 9, mar_patient_id = 1, mar_admission_id = 1, mar_medication_id = 3,
       mar_prescribed_by_staff_id = 1, mar_administered_by_staff_id = Some 2,
       mar_scheduled_datetime = 14910, mar_administered_datetime = Some 14880,
       mar_dosage = (10, ''mg''), mar_route = ''PO'', mar_status = ''Given'',
       mar_reason_if_not_given = None, mar_vital_signs_before = None,
       mar_vital_signs_after = None\<rparr>]"

definition ex_vitals :: "vital_sign list" where
  "ex_vitals =
     [\<lparr>v_vital_id = 1, v_patient_id = 2, v_admission_id = 4, v_recorded_datetime = 577439,
       v_recorded_by_staff_id = 2, v_blood_pressure_systolic = 115,
       v_blood_pressure_diastolic = 80, v_heart_rate = 72, v_temperature = 368,
       v_respiratory_rate = 16, v_oxygen_saturation = 97, v_pain_level = 3,
       v_consciousness_level = ''Confused''\<rparr>,
      \<lparr>v_vital_id = 2, v_patient_id = 2, v_admission_id = 4, v_recorded_datetime = 577799,
       v_recorded_by_staff_id = 2, v_blood_pressure_systolic = 180,
       v_blood_pressure_diastolic = 120, v_heart_rate = 120, v_temperature = 390,
       v_respiratory_rate = 24, v_oxygen_saturation = 100, v_pain_level = 8,
       v_consciousness_level = ''Lethargic''\<rparr>,
      \<lparr>v_vital_id = 3, v_patient_id = 1, v_admission_id = 1, v_recorded_datetime = 14910,
       v_recorded_by_staff_id = 2, v_blood_pressure_systolic = 90,
       v_blood_pressure_diastolic = 60, v_heart_rate = 55, v_temperature = 360,
       v_respiratory_rate = 12, v_oxygen_saturation = 88, v_pain_level = 0,
       v_consciousness_level = ''Alert''\<rparr>,
      \<lparr>v_vital_id = 4, v_patient_id = 1, v_admission_id = 1, v_recorded_datetime = 15270,
       v_recorded_by_staff_id = 2, v_blood_pressure_systolic = 90,
       v_blood_pressure_diastolic = 60, v_heart_rate = 55, v_temperature = 360,
       v_respiratory_rate = 12, v_oxygen_saturation = 88, v_pain_level = 0,
       v_consciousness_level = ''Alert''\<rparr>]"

definition ex_activities :: "daily_activity list" where
  "ex_activities =
     [\<lparr>act_activity_id = 1, act_patient_id = 2, act_admission_id = 4,
       act_activity_date = 400, act_recorded_by_staff_id = 2,
       act_recorded_datetime = 578639, act_mobility_score = 1,
       act_mobility_notes = ''Walked to chair (assisted)'', act_self_care_score = 1,
       act_breakfast_percent_consumed = 25, act_lunch_percent_consumed = 25,
       act_dinner_percent_consumed = 25, act_feeding_assistance_needed = True,
       act_bathroom_independence = True, act_continent_bladder = True,
       act_continent_bowel = True, act_output_notes = ''Urination normal'',
       act_mental_status = ''Alert'', act_mood = ''Cooperative'', act_pain_level = 0,
       act_pain_location = ''None'', act_pain_management_effectiveness = 1,
       act_sleep_quality = 2, act_sleep_hours = 40, act_comments = None\<rparr>,
      \<lparr>act_activity_id = 2, act_patient_id = 1, act_admission_id = 1,
       act_activity_date = 10, act_recorded_by_staff_id = 2, act_recorded_datetime = 16110,
       act_mobility_score = 1, act_mobility_notes = ''Walked to chair (assisted)'',
       act_self_care_score = 1, act_breakfast_percent_consumed = 25,
       act_lunch_percent_consumed = 25, act_dinner_percent_consumed = 25,
       act_feeding_assistance_needed = True, act_bathroom_independence = True,
       act_continent_bladder = True, act_continent_bowel = True,
       act_output_notes = ''Urination normal'', act_mental_status = ''Alert'',
       act_mood = ''Cooperative'', act_pain_level = 0, act_pain_location = ''None'',
       act_pain_management_effectiveness = 1, act_sleep_quality = 2, act_sleep_hours = 40,
       act_comments = None\<rparr>]"

definition ex_procedure_events :: "procedure_event list" where
  "ex_procedure_events =
     [\<lparr>pe_procedure_event_id = 1, pe_patient_id = 2, pe_admission_id = 4,
       pe_procedure_id = 2, pe_performed_by_staff_id = 3, pe_scheduled_datetime = 578459,
       pe_actual_datetime = 578579, pe_duration_minutes = 20, pe_outcome = ''Complicated'',
       pe_complications = Some ''Minor bleeding'',
       pe_notes = ''Procedure completed as planned'', pe_procedure_charges = 120000\<rparr>,
      \<lparr>pe_procedure_event_id = 2, pe_patient_id = 1, pe_admission_id = 1,
       pe_procedure_id = 1, pe_performed_by_staff_id = 1, pe_scheduled_datetime = 15390,
       pe_actual_datetime = 15360, pe_duration_minutes = 15, pe_outcome = ''Successful'',
       pe_complications = None, pe_notes = ''Procedure completed as planned'',
       pe_procedure_charges = 120000\<rparr>]"

definition ex_labs :: "lab_result list" where
  "ex_labs =
     [\<lparr>lab_lab_id = 1, lab_patient_id = 2, lab_admission_id = 4, lab_test_type = ''BMP'',
       lab_test_name = ''Glucose'', lab_ordered_by_staff_id = 3,
       lab_collected_datetime = 578039, lab_resulted_datetime = 579479,
       lab_test_value = 871, lab_unit_of_measure = ''mg/dL'',
       lab_reference_range = ''70-100 mg/dL'', lab_abnormal_flag = ''Critical'',
       lab_lab_department = ''Clinical Lab''\<rparr>,
      \<lparr>lab_lab_id = 2, lab_patient_id = 1, lab_admission_id = 1, lab_test_type = ''CBC'',
       lab_test_name = ''Hemoglobin'', lab_ordered_by_staff_id = 1,
       lab_collected_datetime = 15270, lab_resulted_datetime = 15390, lab_test_value = 500,
       lab_unit_of_measure = ''g/dL'', lab_reference_range = ''12-16 g/dL'',
       lab_abnormal_flag = ''Normal'', lab_lab_department = ''Clinical Lab''\<rparr>]"

definition ex_goals :: "care_plan_goal list" where
  "ex_goals =
     [\<lparr>goal_goal_id = 1, goal_patient_id = 2, goal_admission_id = 4,
       goal_goal_type = ''Mobility'',
       goal_goal_description = ''Walk 50 feet independently by discharge'',
       goal_target_date = 401, goal_status = ''Achieved'', goal_progress_pct = 100,
       goal_created_by_staff_id = 2, goal_created_datetime = 577559,
       goal_last_updated_datetime = 578879\<rparr>,
      \<lparr>goal_goal_id = 2, goal_patient_id = 2, goal_admission_id = 4,
       goal_goal_type = ''Pain Management'',
       goal_goal_description = ''Maintain pain level below 4/10'', goal_target_date = 401,
       goal_status = ''In Progress'', goal_progress_pct = 72, goal_created_by_staff_id = 2,
       goal_created_datetime = 578879, goal_last_updated_datetime = 578879\<rparr>,
      \<lparr>goal_goal_id = 3, goal_patient_id = 1, goal_admission_id = 1,
       goal_goal_type = ''Self-Care'',
       goal_goal_description = ''Complete morning hygiene independently'',
       goal_target_date = 11, goal_status = ''Not Started'', goal_progress_pct = 0,
       goal_created_by_staff_id = 2, goal_created_datetime = 15330,
       goal_last_updated_datetime = 16350\<rparr>,
      \<lparr>goal_goal_id = 4, goal_patient_id = 1, goal_admission_id = 1,
       goal_goal_type = ''Education'',
       goal_goal_description = ''Patient verbalizes understanding of discharge medications'',
       goal_target_date = 11, goal_status = ''Discontinued'', goal_progress_pct = 0,
       goal_created_by_staff_id = 2, goal_created_datetime = 15630,
       goal_last_updated_datetime = 16350\<rparr>,
      \<lparr>goal_goal_id = 5, goal_patient_id = 1, goal_admission_id = 2,
       goal_goal_type = ''Mobility'',
       goal_goal_description = ''Walk 50 feet independently by discharge'',
       goal_target_date = 16, goal_status = ''Not Started'', goal_progress_pct = 0,
       goal_created_by_staff_id = 2, goal_created_datetime = 17940,
       goal_last_updated_datetime = 19260\<rparr>,
      \<lparr>goal_goal_id = 6, goal_patient_id = 1, goal_admission_id = 2,
       goal_goal_type = ''Mobility'',
       goal_goal_description = ''Walk 50 feet independently by discharge'',
       goal_target_date = 16, goal_status = ''Not Started'', goal_progress_pct = 0,
       goal_created_by_staff_id = 2, goal_created_datetime = 17940,
       goal_last_updated_datetime = 19260\<rparr>]"

section \<open>Reasoning about generators\<close>

lemma gbind_Inr_iff:
  "gbind m f g = Inr r \<longleftrightarrow> (\<exists>x g1. m g = Inr (x, g1) \<and> f x g1 = Inr r)"
  by (auto simp: gbind_def split: sum.splits)

lemma gbindE:
  assumes "gbind m f g = Inr r"
  obtains x g1 where "m g = Inr (x, g1)" and "f x g1 = Inr r"
  using assms by (auto simp: gbind_Inr_iff)

lemma gret_Inr_iff [simp]: "gret x g = Inr (y, g') \<longleftrightarrow> y = x \<and> g' = g"
  by (auto simp: gret_def)

lemma graise_Inr [simp]: "graise e g \<noteq> Inr r"
  by (simp add: graise_def)

lemma py_below_range: "py_below n g = Inr (k, g') \<Longrightarrow> 0 < n \<Longrightarrow> k < n"
  by (auto simp: py_below_def split: prod.splits)

lemma np_below_range: "np_below n g = Inr (k, g') \<Longrightarrow> 0 < n \<Longrightarrow> k < n"
  by (auto simp: np_below_def split: prod.splits)

lemma randint_range: "randint a b g = Inr (x, g') \<Longrightarrow> a \<le> x \<and> x \<le> b"
  by (auto simp: randint_def gbind_Inr_iff split: if_splits dest!: py_below_range)

lemma uniform_rounded_range:
  "uniform_rounded lo hi g = Inr (x, g') \<Longrightarrow> lo \<le> hi \<Longrightarrow> lo \<le> x \<and> x \<le> hi"
  by (auto simp: uniform_rounded_def gbind_Inr_iff dest!: py_below_range)

lemma choice_mem: "choice xs g = Inr (x, g') \<Longrightarrow> x \<in> set xs"
  by (auto simp: choice_def gbind_Inr_iff split: if_splits dest!: py_below_range)

lemma choose_rows_subset:
  "choose_rows k xs g = Inr (rows, g') \<Longrightarrow> k \<le> length xs \<Longrightarrow> set rows \<subseteq> set xs \<and> length rows = k"
proof (induction k arbitrary: xs g rows g')
  case 0
  then show ?case by simp
next
  case (Suc k)
  from Suc.prems(1) obtain i g1 rest g2 where
    i: "np_below (length xs) g = Inr (i, g1)" and
    rest: "choose_rows k (take i xs @ drop (Suc i) xs) g1 = Inr (rest, g2)" and
    rows: "rows = xs ! i # rest"
    by (auto simp: gbind_Inr_iff)
  from Suc.prems(2) have pos: "0 < length xs" by (cases xs) auto
  from np_below_range [OF i pos] have il: "i < length xs" .
  then have len: "k \<le> length (take i xs @ drop (Suc i) xs)"
    using Suc.prems(2) by simp
  from Suc.IH [OF rest len]
  have "set rest \<subseteq> set (take i xs @ drop (Suc i) xs)" and "length rest = k" by auto
  moreover have "set (take i xs @ drop (Suc i) xs) \<subseteq> set xs"
    by (auto dest: in_set_takeD in_set_dropD)
  ultimately show ?case using il rows by auto
qed

lemma df_sample_subset:
  "df_sample n xs g = Inr (rows, g') \<Longrightarrow> set rows \<subseteq> set xs \<and> int (length rows) = n"
  by (auto simp: df_sample_def split: if_splits dest!: choose_rows_subset)

lemma df_sample_frac_subset:
  "df_sample_frac p q xs g = Inr (rows, g') \<Longrightarrow> set rows \<subseteq> set xs"
  by (auto simp: df_sample_frac_def dest!: df_sample_subset)

lemma iloc0_mem: "iloc0 xs g = Inr (x, g') \<Longrightarrow> x \<in> set xs"
  by (cases xs) (auto simp: iloc0_def)

lemma sample_one_mem:
  assumes "sample_one xs g = Inr (x, g')"
  shows "x \<in> set xs"
proof -
  from assms obtain rows g1 where
    r: "df_sample 1 xs g = Inr (rows, g1)" and i: "iloc0 rows g1 = Inr (x, g')"
    by (auto simp: sample_one_def gbind_Inr_iff)
  from df_sample_subset [OF r] iloc0_mem [OF i] show ?thesis by auto
qed

lemma py_index_mem: "py_index xs i g = Inr (x, g') \<Longrightarrow> x \<in> set xs"
  by (auto simp: py_index_def split: if_splits)

lemma for_loop_inv_aux:
  assumes step: "\<And>s x g s' g'. x \<in> set xs \<Longrightarrow> I s \<Longrightarrow> body s x g = Inr (s', g') \<Longrightarrow> I s'"
  shows "for_loop xs body s g = Inr (s', g') \<Longrightarrow> I s \<Longrightarrow> I s'"
  using step
proof (induction xs arbitrary: s g)
  case Nil
  then show ?case by simp
next
  case (Cons x xs)
  from Cons.prems(1) obtain s1 g1 where
    b: "body s x g = Inr (s1, g1)" and r: "for_loop xs body s1 g1 = Inr (s', g')"
    by (auto simp: gbind_Inr_iff)
  have "I s1" using Cons.prems(3) [of x s g s1 g1] Cons.prems(2) b by simp
  moreover have "\<And>s x g s' g'. x \<in> set xs \<Longrightarrow> I s \<Longrightarrow> body s x g = Inr (s', g') \<Longrightarrow> I s'"
    using Cons.prems(3) by (meson list.set_intros(2))
  ultimately show ?case using Cons.IH [OF r] by blast
qed

lemma for_loop_inv:
  assumes "for_loop xs body s g = Inr (s', g')" and "I s"
    and "\<And>s x g s' g'. x \<in> set xs \<Longrightarrow> I s \<Longrightarrow> body s x g = Inr (s', g') \<Longrightarrow> I s'"
  shows "I s'"
  using for_loop_inv_aux [of xs I body s g s'] assms by blast

lemma los_draw_range:
  "(if sev = ''Critical'' then randint 5 21
    else if sev = ''Serious'' then randint 3 14 else randint 1 7) g = Inr (los, g')
   \<Longrightarrow> los_in_range sev los"
  by (auto simp: los_in_range_def dest!: randint_range split: if_splits)

lemma readmission_check:
  "(if 0 < n then gbind (py_index adms i) (\<lambda>prev. gret (F prev)) else gret False) g = Inr (b, g')
   \<Longrightarrow> (n \<le> (0::int) \<longrightarrow> \<not> b) \<and>
       (0 < n \<longrightarrow> (\<exists>prev. (\<forall>g0. py_index adms i g0 = Inr (prev, g0)) \<and> b = F prev))"
  by (auto simp: gbind_Inr_iff py_index_def gret_def split: if_splits)

lemma admission_step_result:
  assumes "admission_step patient W D S B h (adms, aid) n g = Inr (s', g')"
  shows "\<exists>a. s' = (adms @ [a], aid + 1)
     \<and> a_admission_id a = aid
     \<and> admission_row patient W D S B a
     \<and> (n \<le> 0 \<longrightarrow> \<not> a_is_readmission a)
     \<and> (0 < n \<longrightarrow> (\<exists>prev. (\<forall>g0. py_index adms (aid - 2) g0 = Inr (prev, g0)) \<and>
            (a_is_readmission a \<longleftrightarrow>
               days_of (a_admission_datetime a - a_discharge_datetime prev) \<le> 30)))"
  using assms
  apply (simp only: admission_step_def prod.case Let_def)
  apply (elim gbindE)
  apply (simp only: gret_Inr_iff)
  apply (drule sample_one_mem choice_mem df_sample_subset los_draw_range readmission_check)+
  apply (drule randint_range)+
  apply (clarsimp simp: timedelta_def admission_row_def admission_refs_def physicians_def)
  apply blast
  done

lemma readmission_chain_snoc:
  "readmission_chain prev (as @ [a]) \<longleftrightarrow>
     readmission_chain prev as \<and>
     (a_is_readmission a \<longleftrightarrow>
        days_of (a_admission_datetime a - a_discharge_datetime (last (prev # as))) \<le> 30)"
  by (induction as arbitrary: prev) auto

lemma readmission_invariant_snoc:
  "readmission_invariant (as @ [a]) \<longleftrightarrow>
     readmission_invariant as \<and>
     (if as = [] then \<not> a_is_readmission a
      else (a_is_readmission a \<longleftrightarrow>
              days_of (a_admission_datetime a - a_discharge_datetime (last as)) \<le> 30))"
  by (cases as) (auto simp: readmission_chain_snoc)

lemma py_index_previous:
  assumes "xs \<noteq> []"
  shows "py_index xs (int (length xs) + 1 - 2) g = Inr (last xs, g)"
proof -
  from assms have pos: "0 < length xs" by simp
  then have "nat (int (length xs) + 1 - 2) = length xs - 1" by linarith
  with pos show ?thesis
    by (simp add: py_index_def gret_def last_conv_nth assms)
qed

lemma admission_step_block:
  assumes step: "admission_step patient W D S B h (adms @ blk, int (length (adms @ blk)) + 1) i g = Inr (s', g')"
    and len: "int (length blk) = i"
    and rows: "\<forall>a\<in>set blk. admission_row patient W D S B a"
    and inv: "readmission_invariant blk"
  shows "\<exists>a. s' = (adms @ blk @ [a], int (length (adms @ blk @ [a])) + 1)
           \<and> (\<forall>a\<in>set (blk @ [a]). admission_row patient W D S B a)
           \<and> readmission_invariant (blk @ [a])"
proof -
  from admission_step_result [OF step] obtain a where
    s': "s' = ((adms @ blk) @ [a], int (length (adms @ blk)) + 1 + 1)" and
    row: "admission_row patient W D S B a" and
    first: "i \<le> 0 \<longrightarrow> \<not> a_is_readmission a" and
    later: "0 < i \<longrightarrow> (\<exists>prev. (\<forall>g0. py_index (adms @ blk) (int (length (adms @ blk)) + 1 - 2) g0 = Inr (prev, g0)) \<and>
            (a_is_readmission a \<longleftrightarrow>
               days_of (a_admission_datetime a - a_discharge_datetime prev) \<le> 30))"
    by blast
  have "readmission_invariant (blk @ [a])"
  proof (cases "blk = []")
    case True
    with len first show ?thesis by simp
  next
    case False
    with len have pos: "0 < i" by (cases blk) auto
    with later obtain prev where
      p: "py_index (adms @ blk) (int (length (adms @ blk)) + 1 - 2) g = Inr (prev, g)" and
      r: "a_is_readmission a \<longleftrightarrow> days_of (a_admission_datetime a - a_discharge_datetime prev) \<le> 30"
      by blast
    from False have "py_index (adms @ blk) (int (length (adms @ blk)) + 1 - 2) g = Inr (last blk, g)"
      using py_index_previous [of "adms @ blk" g] by simp
    with p have "prev = last blk" by simp
    with r inv False show ?thesis by (simp add: readmission_invariant_snoc)
  qed
  with s' row rows show ?thesis by auto
qed

lemma patient_loop:
  "for_loop [i..j] (admission_step patient W D S B h) (adms @ blk, int (length (adms @ blk)) + 1) g = Inr (s', g')
   \<Longrightarrow> int (length blk) = i
   \<Longrightarrow> \<forall>a\<in>set blk. admission_row patient W D S B a
   \<Longrightarrow> readmission_invariant blk
   \<Longrightarrow> \<exists>blk'. s' = (adms @ blk', int (length (adms @ blk')) + 1)
           \<and> (\<forall>a\<in>set blk'. admission_row patient W D S B a)
           \<and> readmission_invariant blk'
           \<and> int (length blk') = max i (j + 1)"
proof (induction "nat (j + 1 - i)" arbitrary: i blk g)
  case 0
  then have "[i..j] = []" by simp
  with 0 show ?case by auto
next
  case (Suc k)
  then have ij: "i \<le> j" by simp
  then have unf: "[i..j] = i # [i + 1..j]" by (rule upto_rec1)
  from Suc.prems(1) obtain s1 g1 where
    b: "admission_step patient W D S B h (adms @ blk, int (length (adms @ blk)) + 1) i g = Inr (s1, g1)" and
    r: "for_loop [i + 1..j] (admission_step patient W D S B h) s1 g1 = Inr (s', g')"
    unfolding unf by (auto simp: gbind_Inr_iff)
  from admission_step_block [OF b Suc.prems(2) Suc.prems(3) Suc.prems(4)] obtain a where
    s1: "s1 = (adms @ blk @ [a], int (length (adms @ blk @ [a])) + 1)" and
    rows: "\<forall>a\<in>set (blk @ [a]). admission_row patient W D S B a" and
    inv: "readmission_invariant (blk @ [a])"
    by blast
  have k: "k = nat (j + 1 - (i + 1))" using Suc.hyps(2) by simp
  have len: "int (length (blk @ [a])) = i + 1" using Suc.prems(2) by simp
  from Suc.hyps(1) [OF k r [unfolded s1] len rows inv] ij
  show ?case by auto
qed


lemma patient_admissions_block:
  assumes "patient_admissions W D S B h (adms, int (length adms) + 1) patient g = Inr (s', g')"
  shows "\<exists>blk. s' = (adms @ blk, int (length (adms @ blk)) + 1) \<and> patient_block W D S B patient blk"
proof -
  from assms obtain num g1 where
    n: "randint 2 5 g = Inr (num, g1)" and
    l: "for_loop [0..num - 1] (admission_step patient W D S B h) (adms @ [], int (length (adms @ [])) + 1) g1 = Inr (s', g')"
    by (auto simp: patient_admissions_def gbind_Inr_iff py_range_def)
  from randint_range [OF n] have num: "2 \<le> num" "num \<le> 5" by auto
  from patient_loop [OF l] obtain blk' where
    "s' = (adms @ blk', int (length (adms @ blk')) + 1)"
    "\<forall>a\<in>set blk'. admission_row patient W D S B a"
    "readmission_invariant blk'" "int (length blk') = max 0 (num - 1 + 1)"
    by auto
  with num show ?thesis unfolding patient_block_def by (intro exI [of _ blk']) auto
qed

lemma admissions_loop:
  "for_loop ps (patient_admissions W D S B h) (adms, int (length adms) + 1) g = Inr (s', g')
   \<Longrightarrow> \<exists>blks. s' = (adms @ concat blks, int (length (adms @ concat blks)) + 1)
          \<and> list_all2 (patient_block W D S B) ps blks"
proof (induction ps arbitrary: adms g)
  case Nil
  then show ?case by (auto intro: exI [of _ "[]"])
next
  case (Cons p ps)
  from Cons.prems obtain s1 g1 where
    b: "patient_admissions W D S B h (adms, int (length adms) + 1) p g = Inr (s1, g1)" and
    r: "for_loop ps (patient_admissions W D S B h) s1 g1 = Inr (s', g')"
    by (auto simp: gbind_Inr_iff)
  from patient_admissions_block [OF b] obtain blk where
    s1: "s1 = (adms @ blk, int (length (adms @ blk)) + 1)" and blk: "patient_block W D S B p blk"
    by blast
  from Cons.IH [OF r [unfolded s1]] obtain blks where
    s': "s' = ((adms @ blk) @ concat blks, int (length ((adms @ blk) @ concat blks)) + 1)" and
    all: "list_all2 (patient_block W D S B) ps blks"
    by blast
  show ?case using s' blk all by (intro exI [of _ "blk # blks"]) simp
qed

lemma generate_admissions_blocks:
  assumes "generate_admissions ps W D S B y n g = Inr (adms, g')"
  shows "\<exists>blks. adms = concat blks \<and> list_all2 (patient_block W D S B) ps blks"
proof -
  from assms obtain aid g1 where
    "for_loop ps (patient_admissions W D S B (horizon_days y n)) ([], int (length ([]::admission list)) + 1) g = Inr ((adms, aid), g1)"
    by (auto simp: generate_admissions_def gbind_Inr_iff)
  from admissions_loop [OF this] show ?thesis by auto
qed

lemma blocks_rows:
  "list_all2 (patient_block W D S B) ps blks \<Longrightarrow> a \<in> set (concat blks)
   \<Longrightarrow> \<exists>p\<in>set ps. admission_row p W D S B a"
  by (induction rule: list_all2_induct) (auto simp: patient_block_def)

lemma blocks_length:
  "list_all2 (patient_block W D S B) ps blks
   \<Longrightarrow> 2 * length ps \<le> length (concat blks) \<and> length (concat blks) \<le> 5 * length ps"
  by (induction rule: list_all2_induct) (auto simp: patient_block_def)

lemma blocks_other_patient:
  "list_all2 (patient_block W D S B) ps blks \<Longrightarrow> pid \<notin> p_patient_id ` set ps
   \<Longrightarrow> admissions_of pid (concat blks) = []"
  by (induction rule: list_all2_induct)
     (auto simp: patient_block_def admissions_of_def admission_row_def)

lemma blocks_of_patient:
  "list_all2 (patient_block W D S B) ps blks \<Longrightarrow> distinct (map p_patient_id ps)
   \<Longrightarrow> p \<in> set ps
   \<Longrightarrow> patient_block W D S B p (admissions_of (p_patient_id p) (concat blks))"
proof (induction rule: list_all2_induct)
  case Nil
  then show ?case by simp
next
  case (Cons q ps blk blks)
  have same: "\<And>pid. (\<forall>a\<in>set blk. a_patient_id a = p_patient_id q)"
    using Cons.hyps(1) by (auto simp: patient_block_def admission_row_def)
  show ?case
  proof (cases "p_patient_id p = p_patient_id q")
    case True
    with Cons.prems have "p_patient_id p \<notin> p_patient_id ` set ps" by auto
    from blocks_other_patient [OF Cons.hyps(2) this]
    have "admissions_of (p_patient_id p) (concat blks) = []" .
    moreover have "admissions_of (p_patient_id p) blk = blk"
      using same True by (auto simp: admissions_of_def)
    ultimately have "admissions_of (p_patient_id p) (concat (blk # blks)) = blk"
      by (simp add: admissions_of_def)
    moreover have "patient_block W D S B p blk"
      using Cons.hyps(1) True by (auto simp: patient_block_def admission_row_def)
    ultimately show ?thesis by simp
  next
    case False
    then have "admissions_of (p_patient_id p) blk = []"
      using same by (auto simp: admissions_of_def)
    moreover from False Cons.prems have "p \<in> set ps" by auto
    ultimately show ?thesis using Cons.IH Cons.prems by (simp add: admissions_of_def)
  qed
qed


subsection \<open>Child tables\<close>

lemma py_range_mem: "x \<in> set (py_range n) \<longleftrightarrow> 0 \<le> x \<and> x < n"
  by (auto simp: py_range_def)

lemma physicians_mem: "s \<in> set (physicians S) \<Longrightarrow> has_role S physician_roles (s_staff_id s)"
  by (auto simp: physicians_def has_role_def)

lemma nurses_mem: "s \<in> set (nurses S) \<Longrightarrow> has_role S [nurse_role] (s_staff_id s)"
  by (auto simp: nurses_def has_role_def)

lemma has_role_staff: "has_role S roles sid \<Longrightarrow> \<exists>s\<in>set S. s_staff_id s = sid"
  by (auto simp: has_role_def)

lemma rows_inv_append:
  "rows_inv Q (rows, i) \<Longrightarrow> Q r \<Longrightarrow> rows_inv Q (rows @ [r], j)"
  by (simp add: rows_inv_def)

lemma for_loop_rows_inv:
  assumes "for_loop xs body s g = Inr (s', g')" and "rows_inv Q s"
    and "\<And>s x g s' g'. x \<in> set xs \<Longrightarrow> rows_inv Q s \<Longrightarrow> body s x g = Inr (s', g')
           \<Longrightarrow> rows_inv Q s'"
  shows "rows_inv Q s'"
  using for_loop_inv [where I = "rows_inv Q", OF assms(1,2)] assms(3) by blast

lemma rows_inv_result:
  assumes "gbind (for_loop xs body ([], 1)) (\<lambda>(rows, i). gret rows) g = Inr (rows, g')"
    and "\<And>s x g s' g'. x \<in> set xs \<Longrightarrow> rows_inv Q s \<Longrightarrow> body s x g = Inr (s', g')
           \<Longrightarrow> rows_inv Q s'"
  shows "\<forall>r\<in>set rows. Q r"
proof -
  from assms(1) obtain i g1 where
    l: "for_loop xs body ([], 1) g = Inr ((rows, i), g1)"
    by (auto simp: gbind_Inr_iff)
  have init: "rows_inv Q ([], 1)" by (simp add: rows_inv_def)
  have "rows_inv Q (rows, i)"
    by (rule for_loop_rows_inv [OF l init]) (blast intro: assms(2))
  then show ?thesis by (simp add: rows_inv_def)
qed

text \<open>Medication administration.\<close>

lemma administered_draw:
  "(if status = ''Given''
    then gbind (randint (- 30) 60) (\<lambda>minutes. gret (Some (t + minutes)))
    else gret None) g = Inr (r, g')
   \<Longrightarrow> (case r of None \<Rightarrow> True | Some u \<Rightarrow> t - 30 \<le> u \<and> u \<le> t + 60)
       \<and> (r = None \<longleftrightarrow> status \<noteq> ''Given'')"
  by (auto simp: gbind_Inr_iff split: if_splits dest!: randint_range)

lemma mar_dose_step_result:
  assumes "mar_dose_step a med S day (rows, i) dose g = Inr (s', g')"
    and "0 \<le> day" "day < a_length_of_stay a" "0 \<le> dose" "dose \<le> 3" "med \<in> set M"
  shows "\<exists>r. s' = (rows @ [r], i + 1) \<and> mar_row M S a r"
  using assms
  apply (simp only: mar_dose_step_def prod.case Let_def)
  apply (elim gbindE)
  apply (simp only: gret_Inr_iff)
  apply (drule sample_one_mem choice_mem administered_draw)+
  apply (drule physicians_mem nurses_mem)+
  apply (clarsimp simp: mar_row_def mar_parent_def mar_refs_def mar_roles_def mar_times_def
      stay_end_def timedelta_def dest!: has_role_staff split: option.splits)
  apply (auto simp: has_role_def)
  done

lemma mar_dose_inv:
  assumes "mar_dose_step a med S day s dose g = Inr (s', g')"
    and "rows_inv (\<lambda>r. \<exists>a\<in>set A. mar_row M S a r) s"
    and "a \<in> set A" "med \<in> set M" "0 \<le> day" "day < a_length_of_stay a" "0 \<le> dose" "dose \<le> 3"
  shows "rows_inv (\<lambda>r. \<exists>a\<in>set A. mar_row M S a r) s'"
proof -
  obtain rows i where s: "s = (rows, i)" by (cases s)
  from mar_dose_step_result [OF assms(1) [unfolded s] assms(5-8) assms(4)]
  obtain r where "s' = (rows @ [r], i + 1)" "mar_row M S a r" by blast
  with assms(2,3) s show ?thesis by (auto intro!: rows_inv_append)
qed

lemma mar_day_inv:
  assumes "mar_day_step a med S s day g = Inr (s', g')"
    and "rows_inv (\<lambda>r. \<exists>a\<in>set A. mar_row M S a r) s"
    and "a \<in> set A" "med \<in> set M" "0 \<le> day" "day < a_length_of_stay a"
  shows "rows_inv (\<lambda>r. \<exists>a\<in>set A. mar_row M S a r) s'"
proof -
  from assms(1) obtain doses g1 where
    d: "randint 1 4 g = Inr (doses, g1)" and
    l: "for_loop (py_range doses) (mar_dose_step a med S day) s g1 = Inr (s', g')"
    by (auto simp: mar_day_step_def gbind_Inr_iff)
  from randint_range [OF d] have "doses \<le> 4" by simp
  then have dose: "\<And>dose. dose \<in> set (py_range doses) \<Longrightarrow> 0 \<le> dose \<and> dose \<le> 3"
    by (auto simp: py_range_mem)
  show ?thesis
  proof (rule for_loop_rows_inv [OF l assms(2)])
    fix s x g s' g'
    assume "x \<in> set (py_range doses)"
      and "rows_inv (\<lambda>r. \<exists>a\<in>set A. mar_row M S a r) s"
      and "mar_dose_step a med S day s x g = Inr (s', g')"
    then show "rows_inv (\<lambda>r. \<exists>a\<in>set A. mar_row M S a r) s'"
      using mar_dose_inv [of a med S day s x g s' g' A M] dose [of x] assms(3-6) by simp
  qed
qed

lemma mar_med_inv:
  assumes "mar_med_step a S s med g = Inr (s', g')"
    and "rows_inv (\<lambda>r. \<exists>a\<in>set A. mar_row M S a r) s"
    and "a \<in> set A" "med \<in> set M"
  shows "rows_inv (\<lambda>r. \<exists>a\<in>set A. mar_row M S a r) s'"
proof -
  from assms(1) have
    l: "for_loop (py_range (a_length_of_stay a)) (mar_day_step a med S) s g = Inr (s', g')"
    by (simp add: mar_med_step_def)
  show ?thesis
  proof (rule for_loop_rows_inv [OF l assms(2)])
    fix s x g s' g'
    assume "x \<in> set (py_range (a_length_of_stay a))"
      and "rows_inv (\<lambda>r. \<exists>a\<in>set A. mar_row M S a r) s"
      and "mar_day_step a med S s x g = Inr (s', g')"
    then show "rows_inv (\<lambda>r. \<exists>a\<in>set A. mar_row M S a r) s'"
      using mar_day_inv [of a med S s x g s' g' A M] assms(3,4) by (simp add: py_range_mem)
  qed
qed

lemma mar_admission_inv:
  assumes "mar_admission_step M S s a g = Inr (s', g')"
    and "rows_inv (\<lambda>r. \<exists>a\<in>set A. mar_row M S a r) s"
    and "a \<in> set A"
  shows "rows_inv (\<lambda>r. \<exists>a\<in>set A. mar_row M S a r) s'"
proof -
  from assms(1) obtain num g1 meds g2 where
    m: "df_sample num M g1 = Inr (meds, g2)" and
    l: "for_loop meds (mar_med_step a S) s g2 = Inr (s', g')"
    by (auto simp: mar_admission_step_def gbind_Inr_iff)
  from df_sample_subset [OF m] have sub: "set meds \<subseteq> set M" by simp
  show ?thesis
  proof (rule for_loop_rows_inv [OF l assms(2)])
    fix s x g s' g'
    assume "x \<in> set meds"
      and "rows_inv (\<lambda>r. \<exists>a\<in>set A. mar_row M S a r) s"
      and "mar_med_step a S s x g = Inr (s', g')"
    then show "rows_inv (\<lambda>r. \<exists>a\<in>set A. mar_row M S a r) s'"
      using mar_med_inv [of a S s x g s' g' A M] sub assms(3) by auto
  qed
qed

lemma generate_medication_administration_rows:
  assumes "generate_medication_administration A M S g = Inr (rows, g')"
  shows "\<forall>r\<in>set rows. \<exists>a\<in>set A. mar_row M S a r"
proof -
  from assms obtain sampled g1 where
    s: "df_sample_frac 3 10 A g = Inr (sampled, g1)" and
    l: "gbind (for_loop sampled (mar_admission_step M S) ([], 1)) (\<lambda>(rows, i). gret rows) g1
          = Inr (rows, g')"
    by (auto simp: generate_medication_administration_def gbind_Inr_iff)
  from df_sample_frac_subset [OF s] have sub: "set sampled \<subseteq> set A" .
  show ?thesis
  proof (rule rows_inv_result [OF l])
    fix s x g s' g'
    assume "x \<in> set sampled"
      and "rows_inv (\<lambda>r. \<exists>a\<in>set A. mar_row M S a r) s"
      and "mar_admission_step M S s x g = Inr (s', g')"
    then show "rows_inv (\<lambda>r. \<exists>a\<in>set A. mar_row M S a r) s'"
      using mar_admission_inv [of M S s x g s' g' A] sub by auto
  qed
qed

lemma uniform_rounded_bounds:
  "uniform_rounded lo hi g = Inr (x, g') \<Longrightarrow> lo \<le> hi \<longrightarrow> lo \<le> x \<and> x \<le> hi"
  by (auto dest: uniform_rounded_range)

text \<open>Vital signs.\<close>

lemma vital_check_step_result:
  assumes "vital_check_step a S day (rows, i) check g = Inr (s', g')"
    and "0 \<le> day" "day < a_length_of_stay a" "0 \<le> check" "check \<le> 3"
  shows "\<exists>r. s' = (rows @ [r], i + 1) \<and> vital_row S a r"
  using assms
  apply (simp only: vital_check_step_def prod.case Let_def)
  apply (elim gbindE)
  apply (simp only: gret_Inr_iff)
  apply (drule sample_one_mem choice_mem uniform_rounded_bounds)+
  apply (drule nurses_mem)
  apply (drule randint_range)+
  apply (clarsimp simp: vital_row_def vital_parent_def vital_times_def vital_ranges_def
      stay_end_def timedelta_def)
  done

lemma vital_check_inv:
  assumes "vital_check_step a S day s check g = Inr (s', g')"
    and "rows_inv (\<lambda>r. \<exists>a\<in>set A. vital_row S a r) s"
    and "a \<in> set A" "0 \<le> day" "day < a_length_of_stay a" "0 \<le> check" "check \<le> 3"
  shows "rows_inv (\<lambda>r. \<exists>a\<in>set A. vital_row S a r) s'"
proof -
  obtain rows i where s: "s = (rows, i)" by (cases s)
  from vital_check_step_result [OF assms(1) [unfolded s] assms(4-7)]
  obtain r where "s' = (rows @ [r], i + 1)" "vital_row S a r" by blast
  with assms(2,3) s show ?thesis by (auto intro!: rows_inv_append)
qed

lemma vital_admission_inv:
  assumes "vital_admission_step S s a g = Inr (s', g')"
    and "rows_inv (\<lambda>r. \<exists>a\<in>set A. vital_row S a r) s"
    and "a \<in> set A"
  shows "rows_inv (\<lambda>r. \<exists>a\<in>set A. vital_row S a r) s'"
proof -
  from assms(1) obtain checks g1 where
    c: "randint 2 4 g = Inr (checks, g1)" and
    l: "for_loop (py_range (a_length_of_stay a))
          (\<lambda>st day. for_loop (py_range checks) (vital_check_step a S day) st) s g1
        = Inr (s', g')"
    by (auto simp: vital_admission_step_def gbind_Inr_iff)
  from randint_range [OF c] have checks: "checks \<le> 4" by simp
  show ?thesis
  proof (rule for_loop_rows_inv [OF l assms(2)])
    fix s day g s' g'
    assume day: "day \<in> set (py_range (a_length_of_stay a))"
      and inv: "rows_inv (\<lambda>r. \<exists>a\<in>set A. vital_row S a r) s"
      and inner: "for_loop (py_range checks) (vital_check_step a S day) s g = Inr (s', g')"
    show "rows_inv (\<lambda>r. \<exists>a\<in>set A. vital_row S a r) s'"
    proof (rule for_loop_rows_inv [OF inner inv])
      fix s x g s' g'
      assume "x \<in> set (py_range checks)"
        and "rows_inv (\<lambda>r. \<exists>a\<in>set A. vital_row S a r) s"
        and "vital_check_step a S day s x g = Inr (s', g')"
      then show "rows_inv (\<lambda>r. \<exists>a\<in>set A. vital_row S a r) s'"
        using vital_check_inv [of a S day s x g s' g' A] day checks assms(3)
        by (simp add: py_range_mem)
    qed
  qed
qed

lemma generate_vital_signs_rows:
  assumes "generate_vital_signs A S g = Inr (rows, g')"
  shows "\<forall>r\<in>set rows. \<exists>a\<in>set A. vital_row S a r"
proof -
  from assms obtain sampled g1 where
    s: "df_sample_frac 3 10 A g = Inr (sampled, g1)" and
    l: "gbind (for_loop sampled (vital_admission_step S) ([], 1)) (\<lambda>(rows, i). gret rows) g1
          = Inr (rows, g')"
    by (auto simp: generate_vital_signs_def gbind_Inr_iff)
  from df_sample_frac_subset [OF s] have sub: "set sampled \<subseteq> set A" .
  show ?thesis
  proof (rule rows_inv_result [OF l])
    fix s x g s' g'
    assume "x \<in> set sampled"
      and "rows_inv (\<lambda>r. \<exists>a\<in>set A. vital_row S a r) s"
      and "vital_admission_step S s x g = Inr (s', g')"
    then show "rows_inv (\<lambda>r. \<exists>a\<in>set A. vital_row S a r) s'"
      using vital_admission_inv [of S s x g s' g' A] sub by auto
  qed
qed

text \<open>Daily activities.\<close>

lemma activity_day_step_result:
  assumes "activity_day_step a S (rows, i) day g = Inr (s', g')"
    and "0 \<le> day" "day < a_length_of_stay a"
  shows "\<exists>r. s' = (rows @ [r], i + 1) \<and> activity_row S a r"
  using assms
  apply (simp only: activity_day_step_def prod.case Let_def)
  apply (elim gbindE)
  apply (simp only: gret_Inr_iff)
  apply (drule sample_one_mem)
  apply (drule nurses_mem)
  apply (clarsimp simp: activity_row_def activity_parent_def activity_times_def
      stay_end_def timedelta_def)
  done

lemma activity_day_inv:
  assumes "activity_day_step a S s day g = Inr (s', g')"
    and "rows_inv (\<lambda>r. \<exists>a\<in>set A. activity_row S a r) s"
    and "a \<in> set A" "0 \<le> day" "day < a_length_of_stay a"
  shows "rows_inv (\<lambda>r. \<exists>a\<in>set A. activity_row S a r) s'"
proof -
  obtain rows i where s: "s = (rows, i)" by (cases s)
  from activity_day_step_result [OF assms(1) [unfolded s] assms(4,5)]
  obtain r where "s' = (rows @ [r], i + 1)" "activity_row S a r" by blast
  with assms(2,3) s show ?thesis by (auto intro!: rows_inv_append)
qed

lemma generate_daily_activities_rows:
  assumes "generate_daily_activities A S g = Inr (rows, g')"
  shows "\<forall>r\<in>set rows. \<exists>a\<in>set A. activity_row S a r"
proof -
  from assms obtain sampled g1 where
    s: "df_sample_frac 4 10 A g = Inr (sampled, g1)" and
    l: "gbind (for_loop sampled (activity_admission_step S) ([], 1)) (\<lambda>(rows, i). gret rows) g1
          = Inr (rows, g')"
    by (auto simp: generate_daily_activities_def gbind_Inr_iff)
  from df_sample_frac_subset [OF s] have sub: "set sampled \<subseteq> set A" .
  show ?thesis
  proof (rule rows_inv_result [OF l])
    fix s a g s' g'
    assume a: "a \<in> set sampled"
      and inv: "rows_inv (\<lambda>r. \<exists>a\<in>set A. activity_row S a r) s"
      and step: "activity_admission_step S s a g = Inr (s', g')"
    from step have
      days: "for_loop (py_range (a_length_of_stay a)) (activity_day_step a S) s g = Inr (s', g')"
      by (simp add: activity_admission_step_def)
    show "rows_inv (\<lambda>r. \<exists>a\<in>set A. activity_row S a r) s'"
    proof (rule for_loop_rows_inv [OF days inv])
      fix s x g s' g'
      assume "x \<in> set (py_range (a_length_of_stay a))"
        and "rows_inv (\<lambda>r. \<exists>a\<in>set A. activity_row S a r) s"
        and "activity_day_step a S s x g = Inr (s', g')"
      then show "rows_inv (\<lambda>r. \<exists>a\<in>set A. activity_row S a r) s'"
        using activity_day_inv [of a S s x g s' g' A] a sub by (auto simp: py_range_mem)
    qed
  qed
qed

text \<open>Procedure events.\<close>

lemma procedure_event_step_result:
  assumes "procedure_event_step a P S (rows, i) k g = Inr (s', g')"
  shows "\<exists>r. s' = (rows @ [r], i + 1) \<and> procedure_row P S a r"
  using assms
  apply (simp only: procedure_event_step_def prod.case Let_def)
  apply (elim gbindE)
  apply (simp only: gret_Inr_iff)
  apply (drule sample_one_mem)+
  apply (drule physicians_mem)
  apply (drule randint_range)+
  apply (clarsimp simp: procedure_row_def procedure_parent_def procedure_times_def
      stay_end_def timedelta_def)
  apply blast
  done

lemma generate_procedure_events_rows:
  assumes "generate_procedure_events A P S g = Inr (rows, g')"
  shows "\<forall>r\<in>set rows. \<exists>a\<in>set A. procedure_row P S a r"
proof -
  from assms obtain sampled g1 where
    s: "df_sample_frac 4 10 A g = Inr (sampled, g1)" and
    l: "gbind (for_loop sampled (procedure_admission_step P S) ([], 1))
          (\<lambda>(rows, i). gret rows) g1 = Inr (rows, g')"
    by (auto simp: generate_procedure_events_def gbind_Inr_iff)
  from df_sample_frac_subset [OF s] have sub: "set sampled \<subseteq> set A" .
  show ?thesis
  proof (rule rows_inv_result [OF l])
    fix s a g s' g'
    assume a: "a \<in> set sampled"
      and inv: "rows_inv (\<lambda>r. \<exists>a\<in>set A. procedure_row P S a r) s"
      and step: "procedure_admission_step P S s a g = Inr (s', g')"
    from step obtain num g1 where
      evs: "for_loop (py_range num) (procedure_event_step a P S) s g1 = Inr (s', g')"
      by (auto simp: procedure_admission_step_def gbind_Inr_iff)
    show "rows_inv (\<lambda>r. \<exists>a\<in>set A. procedure_row P S a r) s'"
    proof (rule for_loop_rows_inv [OF evs inv])
      fix s x g s' g'
      assume inv': "rows_inv (\<lambda>r. \<exists>a\<in>set A. procedure_row P S a r) s"
        and st: "procedure_event_step a P S s x g = Inr (s', g')"
      obtain rows i where s: "s = (rows, i)" by (cases s)
      from procedure_event_step_result [OF st [unfolded s]]
      obtain r where "s' = (rows @ [r], i + 1)" "procedure_row P S a r" by blast
      with inv' a sub s show "rows_inv (\<lambda>r. \<exists>a\<in>set A. procedure_row P S a r) s'"
        by (auto intro!: rows_inv_append)
    qed
  qed
qed

text \<open>Lab results.\<close>

lemma lab_panel_step_result:
  assumes "lab_panel_step a S (rows, i) k g = Inr (s', g')"
  shows "\<exists>r. s' = (rows @ [r], i + 1) \<and> lab_row S a r"
  using assms
  apply (simp only: lab_panel_step_def prod.case Let_def)
  apply (elim gbindE)
  apply (simp only: gret_Inr_iff)
  apply (drule sample_one_mem)
  apply (drule physicians_mem)
  apply (drule randint_range)+
  apply (clarsimp simp: lab_row_def lab_parent_def lab_times_def stay_end_def timedelta_def)
  done

lemma generate_lab_results_rows:
  assumes "generate_lab_results A S g = Inr (rows, g')"
  shows "\<forall>r\<in>set rows. \<exists>a\<in>set A. lab_row S a r"
proof -
  from assms obtain sampled g1 where
    s: "df_sample_frac 5 10 A g = Inr (sampled, g1)" and
    l: "gbind (for_loop sampled (lab_admission_step S) ([], 1))
          (\<lambda>(rows, i). gret rows) g1 = Inr (rows, g')"
    by (auto simp: generate_lab_results_def gbind_Inr_iff)
  from df_sample_frac_subset [OF s] have sub: "set sampled \<subseteq> set A" .
  show ?thesis
  proof (rule rows_inv_result [OF l])
    fix s a g s' g'
    assume a: "a \<in> set sampled"
      and inv: "rows_inv (\<lambda>r. \<exists>a\<in>set A. lab_row S a r) s"
      and step: "lab_admission_step S s a g = Inr (s', g')"
    from step obtain num g1 where
      panels: "for_loop (py_range num) (lab_panel_step a S) s g1 = Inr (s', g')"
      by (auto simp: lab_admission_step_def gbind_Inr_iff)
    show "rows_inv (\<lambda>r. \<exists>a\<in>set A. lab_row S a r) s'"
    proof (rule for_loop_rows_inv [OF panels inv])
      fix s x g s' g'
      assume inv': "rows_inv (\<lambda>r. \<exists>a\<in>set A. lab_row S a r) s"
        and st: "lab_panel_step a S s x g = Inr (s', g')"
      obtain rows i where s: "s = (rows, i)" by (cases s)
      from lab_panel_step_result [OF st [unfolded s]]
      obtain r where "s' = (rows @ [r], i + 1)" "lab_row S a r" by blast
      with inv' a sub s show "rows_inv (\<lambda>r. \<exists>a\<in>set A. lab_row S a r) s'"
        by (auto intro!: rows_inv_append)
    qed
  qed
qed

text \<open>Care plan goals.\<close>

lemma progress_draw:
  "(if status = ''Achieved'' then gret 100
    else if status = ''In Progress'' then randint 30 90
    else gret 0) g = Inr (progress, g')
   \<Longrightarrow> (status = ''Achieved'' \<longrightarrow> progress = 100)
       \<and> (status = ''In Progress'' \<longrightarrow> 30 \<le> progress \<and> progress \<le> 90)
       \<and> (status \<noteq> ''Achieved'' \<and> status \<noteq> ''In Progress'' \<longrightarrow> progress = 0)"
  by (auto split: if_splits dest!: randint_range)

lemma goal_step_result:
  assumes "goal_step a S (rows, i) k g = Inr (s', g')"
  shows "\<exists>r. s' = (rows @ [r], i + 1) \<and> goal_row S a r"
  using assms
  apply (simp only: goal_step_def prod.case Let_def)
  apply (elim gbindE)
  apply (simp only: gret_Inr_iff)
  apply (drule sample_one_mem progress_draw)+
  apply (drule nurses_mem)
  apply (drule randint_range)+
  apply (drule choice_mem)+
  apply (clarsimp simp: goal_row_def goal_parent_def goal_times_def stay_end_def timedelta_def
      progress_consistent_def)
  done

lemma generate_care_plan_goals_rows:
  assumes "generate_care_plan_goals A S g = Inr (rows, g')"
  shows "\<forall>r\<in>set rows. \<exists>a\<in>set A. goal_row S a r"
proof -
  from assms obtain sampled g1 where
    s: "df_sample_frac 6 10 A g = Inr (sampled, g1)" and
    l: "gbind (for_loop sampled (goal_admission_step S) ([], 1))
          (\<lambda>(rows, i). gret rows) g1 = Inr (rows, g')"
    by (auto simp: generate_care_plan_goals_def gbind_Inr_iff)
  from df_sample_frac_subset [OF s] have sub: "set sampled \<subseteq> set A" .
  show ?thesis
  proof (rule rows_inv_result [OF l])
    fix s a g s' g'
    assume a: "a \<in> set sampled"
      and inv: "rows_inv (\<lambda>r. \<exists>a\<in>set A. goal_row S a r) s"
      and step: "goal_admission_step S s a g = Inr (s', g')"
    from step obtain num g1 where
      goals: "for_loop (py_range num) (goal_step a S) s g1 = Inr (s', g')"
      by (auto simp: goal_admission_step_def gbind_Inr_iff)
    show "rows_inv (\<lambda>r. \<exists>a\<in>set A. goal_row S a r) s'"
    proof (rule for_loop_rows_inv [OF goals inv])
      fix s x g s' g'
      assume inv': "rows_inv (\<lambda>r. \<exists>a\<in>set A. goal_row S a r) s"
        and st: "goal_step a S s x g = Inr (s', g')"
      obtain rows i where s: "s = (rows, i)" by (cases s)
      from goal_step_result [OF st [unfolded s]]
      obtain r where "s' = (rows @ [r], i + 1)" "goal_row S a r" by blast
      with inv' a sub s show "rows_inv (\<lambda>r. \<exists>a\<in>set A. goal_row S a r) s'"
        by (auto intro!: rows_inv_append)
    qed
  qed
qed

subsection \<open>When the admission generator returns\<close>

lemma py_below_total: "\<exists>k g'. py_below n g = Inr (k, g')"
  by (simp add: py_below_def split: prod.splits)

lemma np_below_total: "\<exists>k g'. np_below n g = Inr (k, g')"
  by (simp add: np_below_def split: prod.splits)

lemma gbind_total:
  assumes "\<exists>x g1. m g = Inr (x, g1)"
    and "\<And>x g1. m g = Inr (x, g1) \<Longrightarrow> \<exists>y g2. f x g1 = Inr (y, g2)"
  shows "\<exists>y g2. gbind m f g = Inr (y, g2)"
  using assms by (auto simp: gbind_def)

lemma randint_total: "a \<le> b \<Longrightarrow> \<exists>x g'. randint a b g = Inr (x, g')"
  using py_below_total [of "nat (b - a + 1)" g] by (auto simp: randint_def gbind_def)

lemma choice_total: "xs \<noteq> [] \<Longrightarrow> \<exists>x g'. choice xs g = Inr (x, g')"
  using py_below_total [of "length xs" g] by (auto simp: choice_def gbind_def)

lemma uniform_rounded_total: "\<exists>x g'. uniform_rounded lo hi g = Inr (x, g')"
  using py_below_total [of "nat (hi - lo + 1)" g] by (auto simp: uniform_rounded_def gbind_def)

lemma choose_rows_total: "\<exists>rows g'. choose_rows k xs g = Inr (rows, g')"
proof (induction k arbitrary: xs g)
  case 0
  then show ?case by simp
next
  case (Suc k)
  obtain i g1 where i: "np_below (length xs) g = Inr (i, g1)"
    using np_below_total by blast
  obtain rest g2 where "choose_rows k (take i xs @ drop (Suc i) xs) g1 = Inr (rest, g2)"
    using Suc.IH by blast
  with i show ?case by (simp add: gbind_def)
qed

lemma df_sample_total:
  "0 \<le> n \<Longrightarrow> n \<le> int (length xs) \<Longrightarrow> \<exists>rows g'. df_sample n xs g = Inr (rows, g')"
  using choose_rows_total [of "nat n" xs g] by (auto simp: df_sample_def)

lemma sample_one_total:
  assumes "xs \<noteq> []"
  shows "\<exists>x g'. sample_one xs g = Inr (x, g')"
proof -
  from assms have "(1::int) \<le> int (length xs)" by (cases xs) auto
  then obtain rows g1 where r: "df_sample 1 xs g = Inr (rows, g1)"
    using df_sample_total [of 1 xs g] by auto
  from df_sample_subset [OF r] have "length rows = 1" by simp
  then obtain x where "rows = [x]" by (cases rows) auto
  with r show ?thesis by (simp add: sample_one_def gbind_def iloc0_def)
qed

text \<open>
  The tables the admission generator can run on: a stay horizon that is
  not negative, a ward, a bed in every ward, two diagnoses (up to two
  secondary ones are sampled) and a physician.
\<close>

lemma readmission_check_total:
  assumes "0 < n \<longrightarrow> adms \<noteq> []"
  shows "\<exists>b g'. (if 0 < n
                 then gbind (py_index adms (int (length adms) + 1 - 2)) (\<lambda>prev. gret (F prev))
                 else gret False) g = Inr (b, g')"
proof (cases "0 < n")
  case True
  with assms have "py_index adms (int (length adms) + 1 - 2) g = Inr (last adms, g)"
    using py_index_previous by blast
  with True show ?thesis by (simp add: gbind_def gret_def)
next
  case False
  then show ?thesis by (auto simp: gret_def)
qed

lemma admission_step_total:
  assumes "0 \<le> h" "W \<noteq> []" "2 \<le> length D" "physicians S \<noteq> []"
    and "\<forall>w\<in>set W. \<exists>b\<in>set B. b_ward_id b = w_ward_id w"
    and "0 < n \<longrightarrow> adms \<noteq> []"
  shows "\<exists>s' g'. admission_step patient W D S B h (adms, int (length adms) + 1) n g = Inr (s', g')"
proof -
  have D: "D \<noteq> []" using assms(3) by auto
  have beds: "filter (\<lambda>b. b_ward_id b = w_ward_id w) B \<noteq> []" if "w \<in> set W" for w
    using assms(5) that by (auto simp: filter_empty_conv)
  show ?thesis
    unfolding admission_step_def prod.case Let_def
    apply (rule gbind_total, rule randint_total, rule assms(1))
    apply (rule gbind_total, rule randint_total, simp)
    apply (rule gbind_total, rule randint_total, simp)
    apply (rule gbind_total, rule sample_one_total, rule D)
    apply (rule gbind_total)
     apply (simp add: randint_total)
    apply (rule gbind_total, rule readmission_check_total, rule assms(6))
    apply (rule gbind_total, rule sample_one_total, rule assms(2))
    apply (rule gbind_total, rule sample_one_total, erule beds [OF sample_one_mem])
    apply (rule gbind_total, rule sample_one_total, rule assms(4))
    apply (rule gbind_total, rule choice_total, simp add: admission_types_def)
    apply (rule gbind_total, rule randint_total, simp)
    apply (rule gbind_total, rule df_sample_total)
      apply (drule randint_range, simp)
     apply (drule randint_range, use assms(3) in simp)
    apply (rule gbind_total, rule choice_total, simp add: dispositions_def)
    apply (rule gbind_total, rule uniform_rounded_total)
    apply (simp add: gret_def)
    done
qed

lemma patient_loop_total:
  assumes "0 \<le> h" "W \<noteq> []" "2 \<le> length D" "physicians S \<noteq> []"
    and "\<forall>w\<in>set W. \<exists>b\<in>set B. b_ward_id b = w_ward_id w"
  shows "0 < i \<longrightarrow> adms \<noteq> [] \<Longrightarrow> 0 \<le> i
   \<Longrightarrow> \<exists>adms' g'. for_loop [i..j] (admission_step patient W D S B h)
          (adms, int (length adms) + 1) g = Inr ((adms', int (length adms') + 1), g')"
proof (induction "nat (j + 1 - i)" arbitrary: i adms g)
  case 0
  then have "[i..j] = []" by simp
  then show ?case by simp
next
  case (Suc k)
  then have ij: "i \<le> j" by simp
  then have unf: "[i..j] = i # [i + 1..j]" by (rule upto_rec1)
  from admission_step_total [OF assms Suc.prems(1)] obtain s1 g1 where
    b: "admission_step patient W D S B h (adms, int (length adms) + 1) i g = Inr (s1, g1)"
    by blast
  from admission_step_result [OF b] obtain a where
    s1: "s1 = (adms @ [a], int (length (adms @ [a])) + 1)" by auto
  have k: "k = nat (j + 1 - (i + 1))" using Suc.hyps(2) by simp
  have "\<exists>adms' g'. for_loop [i + 1..j] (admission_step patient W D S B h)
          (adms @ [a], int (length (adms @ [a])) + 1) g1 = Inr ((adms', int (length adms') + 1), g')"
    by (rule Suc.hyps(1) [OF k]) (use Suc.prems(2) in auto)
  with b s1 show ?case unfolding unf by (simp add: gbind_def)
qed

lemma admissions_loop_total:
  assumes "0 \<le> h" "W \<noteq> []" "2 \<le> length D" "physicians S \<noteq> []"
    and "\<forall>w\<in>set W. \<exists>b\<in>set B. b_ward_id b = w_ward_id w"
  shows "\<exists>adms' g'. for_loop ps (patient_admissions W D S B h)
          (adms, int (length adms) + 1) g = Inr ((adms', int (length adms') + 1), g')"
proof (induction ps arbitrary: adms g)
  case Nil
  then show ?case by simp
next
  case (Cons p ps)
  obtain num g1 where n: "randint 2 5 g = Inr (num, g1)"
    using randint_total [of 2 5 g] by auto
  obtain adms1 g2 where
    "for_loop [0..num - 1] (admission_step p W D S B h) (adms, int (length adms) + 1) g1
       = Inr ((adms1, int (length adms1) + 1), g2)"
    using patient_loop_total [OF assms, where i = 0 and adms = adms and patient = p
        and j = "num - 1" and g = g1] by auto
  with n have
    "patient_admissions W D S B h (adms, int (length adms) + 1) p g
       = Inr ((adms1, int (length adms1) + 1), g2)"
    by (simp add: patient_admissions_def gbind_def py_range_def)
  with Cons.IH [of adms1 g2] show ?case by (auto simp: gbind_def)
qed

lemma horizon_days_nonneg: "0 \<le> horizon_days y n"
  by (induction n arbitrary: y) auto

lemma generate_admissions_total:
  assumes "W \<noteq> []" "2 \<le> length D" "physicians S \<noteq> []"
    and "\<forall>w\<in>set W. \<exists>b\<in>set B. b_ward_id b = w_ward_id w"
  shows "\<exists>adms g'. generate_admissions ps W D S B y n g = Inr (adms, g')"
proof -
  have "0 \<le> horizon_days y n" by (rule horizon_days_nonneg)
  from admissions_loop_total [OF this assms, where ps = ps and adms = "[]" and g = g]
  obtain adms' g' where
    "for_loop ps (patient_admissions W D S B (horizon_days y n)) ([], 1) g
       = Inr ((adms', int (length adms') + 1), g')"
    by auto
  then show ?thesis by (simp add: generate_admissions_def gbind_def gret_def)
qed

text \<open>The patient table: it is always generated, with the ids \<open>1, \<dots>, n\<close>.\<close>

lemma patient_step_result:
  "\<exists>p g'. patient_step ps i g = Inr (ps @ [p], g') \<and> p_patient_id p = i"
proof -
  obtain a g1 where a: "choice genders g = Inr (a, g1)"
    using choice_total [of genders g] by (auto simp: genders_def)
  obtain b g2 where b: "choice blood_types g1 = Inr (b, g2)"
    using choice_total [of blood_types g1] by (auto simp: blood_types_def)
  obtain c g3 where c: "choice insurance_providers g2 = Inr (c, g3)"
    using choice_total [of insurance_providers g2] by (auto simp: insurance_providers_def)
  from a b c show ?thesis by (simp add: patient_step_def gbind_def gret_def)
qed

lemma patients_loop:
  "\<exists>ps' g'. for_loop [i..j] patient_step ps g = Inr (ps', g')
      \<and> map p_patient_id ps' = map p_patient_id ps @ [i..j]"
proof (induction "nat (j + 1 - i)" arbitrary: i ps g)
  case 0
  then have "[i..j] = []" by simp
  then show ?case by simp
next
  case (Suc k)
  then have ij: "i \<le> j" by simp
  then have unf: "[i..j] = i # [i + 1..j]" by (rule upto_rec1)
  obtain p g1 where p: "patient_step ps i g = Inr (ps @ [p], g1)" "p_patient_id p = i"
    using patient_step_result by blast
  have k: "k = nat (j + 1 - (i + 1))" using Suc.hyps(2) by simp
  from Suc.hyps(1) [OF k, of "ps @ [p]" g1] p show ?case
    unfolding unf by (auto simp: gbind_def)
qed

lemma generate_patients_result:
  "\<exists>ps g'. generate_patients n g = Inr (ps, g')"
  "generate_patients n g = Inr (ps, g') \<Longrightarrow> map p_patient_id ps = [1..n]"
  using patients_loop [of 1 n "[]" g] by (auto simp: generate_patients_def)

text \<open>The staff table likewise: always generated, with the ids \<open>1, \<dots>, n\<close>.\<close>

lemma staff_step_result:
  "\<exists>s g'. staff_step rows i g = Inr (rows @ [s], g') \<and> s_staff_id s = i"
proof -
  obtain a g1 where a: "choice STAFF_ROLES g = Inr (a, g1)"
    using choice_total [of STAFF_ROLES g] by (auto simp: STAFF_ROLES_def)
  obtain b g2 where b: "choice (map w_department WARDS) g1 = Inr (b, g2)"
    using choice_total [of "map w_department WARDS" g1] by (auto simp: WARDS_def)
  obtain c g3 where c: "choice shift_patterns g2 = Inr (c, g3)"
    using choice_total [of shift_patterns g2] by (auto simp: shift_patterns_def)
  from a b c show ?thesis by (simp add: staff_step_def gbind_def gret_def)
qed

lemma staff_loop:
  "\<exists>rows' g'. for_loop [i..j] staff_step rows g = Inr (rows', g')
      \<and> map s_staff_id rows' = map s_staff_id rows @ [i..j]"
proof (induction "nat (j + 1 - i)" arbitrary: i rows g)
  case 0
  then have "[i..j] = []" by simp
  then show ?case by simp
next
  case (Suc k)
  then have ij: "i \<le> j" by simp
  then have unf: "[i..j] = i # [i + 1..j]" by (rule upto_rec1)
  obtain s g1 where s: "staff_step rows i g = Inr (rows @ [s], g1)" "s_staff_id s = i"
    using staff_step_result by blast
  have k: "k = nat (j + 1 - (i + 1))" using Suc.hyps(2) by simp
  from Suc.hyps(1) [OF k, of "rows @ [s]" g1] s show ?case
    unfolding unf by (auto simp: gbind_def)
qed

lemma generate_staff_result:
  "\<exists>rows g'. generate_staff n g = Inr (rows, g')"
  "generate_staff n g = Inr (rows, g') \<Longrightarrow> map s_staff_id rows = [1..n]"
  "generate_staff n g = Inr (rows, g') \<Longrightarrow> distinct (map s_staff_id rows)"
  using staff_loop [of 1 n "[]" g] by (auto simp: generate_staff_def)

lemma generate_diagnoses_ids: "map d_diagnosis_id generate_diagnoses = [1..12]"
  by (simp add: generate_diagnoses_def COMMON_DIAGNOSES_def upto.simps)

subsection \<open>The admission ids\<close>

lemma admission_step_ids:
  assumes "admission_step patient W D S B h s n g = Inr (s', g')" and "ids_inv s"
  shows "ids_inv s'"
proof -
  obtain adms aid where s: "s = (adms, aid)" by (cases s)
  from admission_step_result [OF assms(1) [unfolded s]] obtain a where
    a: "s' = (adms @ [a], aid + 1)" "a_admission_id a = aid" by blast
  from assms(2) s have aid: "aid = int (length adms) + 1"
    and ids: "map a_admission_id adms = [1..int (length adms)]"
    by (simp_all add: ids_inv_def)
  have "[1..1 + int (length adms)] = [1..int (length adms)] @ [1 + int (length adms)]"
    using upto_rec2 [of 1 "1 + int (length adms)"] by simp
  with a aid ids show ?thesis by (simp add: ids_inv_def add.commute)
qed

lemma generate_admissions_ids:
  assumes "generate_admissions P W D S B y n g = Inr (A, g')"
  shows "map a_admission_id A = [1..int (length A)]"
proof -
  from assms obtain aid g1 where
    l: "for_loop P (patient_admissions W D S B (horizon_days y n)) ([], 1) g
          = Inr ((A, aid), g1)"
    by (auto simp: generate_admissions_def gbind_Inr_iff)
  have init: "ids_inv ([], 1)" by (simp add: ids_inv_def)
  have "ids_inv (A, aid)"
  proof (rule for_loop_inv [where I = ids_inv, OF l init])
    fix s p g s' g'
    assume inv: "ids_inv s"
      and step: "patient_admissions W D S B (horizon_days y n) s p g = Inr (s', g')"
    from step obtain num g1 where
      inner: "for_loop (py_range num) (admission_step p W D S B (horizon_days y n)) s g1
                = Inr (s', g')"
      by (auto simp: patient_admissions_def gbind_Inr_iff)
    show "ids_inv s'"
      by (rule for_loop_inv [where I = ids_inv, OF inner inv]) (rule admission_step_ids)
  qed
  then show ?thesis by (simp add: ids_inv_def)
qed

lemma generate_admissions_ids_distinct:
  assumes "generate_admissions P W D S B y n g = Inr (A, g')"
  shows "distinct (map a_admission_id A)" and "sorted (map a_admission_id A)"
  using generate_admissions_ids [OF assms] by simp_all

subsection \<open>Lookups by key\<close>

lemma find_distinct_key:
  "distinct (map key xs) \<Longrightarrow> x \<in> set xs \<Longrightarrow> find (\<lambda>y. key y = key x) xs = Some x"
  by (induction xs) (auto simp: image_iff)

lemma has_role_attributed:
  assumes "distinct (map s_staff_id S)" and "has_role S roles sid"
  shows "attributed_to S roles sid"
proof -
  from assms(2) obtain s where s: "s \<in> set S" "s_staff_id s = sid" "s_role s \<in> set roles"
    by (auto simp: has_role_def)
  from find_distinct_key [OF assms(1) s(1)] s(2)
  have "find (\<lambda>y. s_staff_id y = sid) S = Some s" by simp
  with s(3) show ?thesis by (simp add: attributed_to_def staff_role_def)
qed

subsection \<open>The small run, evaluated\<close>

lemma gbind_weak_cong: "m = m' \<Longrightarrow> gbind m f = gbind m' f"
  by simp

lemma horizon_config: "horizon_days 2020 5 = 1827"
  by (simp add: eval_nat_numeral is_leap_def)

lemma choose_rows_numeral:
  "choose_rows (numeral k) xs =
     gbind (np_below (length xs)) (\<lambda>i.
     gbind (choose_rows (pred_numeral k) (take i xs @ drop (Suc i) xs)) (\<lambda>rest.
     gret (xs ! i # rest)))"
  by (simp add: numeral_eq_Suc)

lemmas run_simps =
  gbind_def gret_def graise_def randint_def choice_def uniform_rounded_def random_py_def
  py_below_def np_below_def py_range_def upto.simps sample_one_def df_sample_def
  df_sample_frac_def py_round_def iloc0_def choose_rows_numeral py_index_def
  timedelta_def days_of_def date_of_def physicians_def nurses_def physician_roles_def
  nurse_role_def Let_def

lemmas ex_tables =
  ex_patients_def mk_patient_def ex_staff_def mk_staff_def ex_beds_def mk_bed_def
  ex_medications_def mk_medication_def ex_procedures_def mk_procedure_def
  generate_wards_def WARDS_def mk_ward_def generate_diagnoses_def COMMON_DIAGNOSES_def

lemma ex_admissions_run:
  "generate_admissions ex_patients generate_wards generate_diagnoses ex_staff ex_beds
     START_YEAR NUM_YEARS ex_rng = Inr (ex_admissions, \<lparr>py = [], np = []\<rparr>)"
  by (simp add: generate_admissions_def patient_admissions_def admission_step_def
      START_YEAR_def NUM_YEARS_def horizon_config admission_types_def dispositions_def
      ex_rng_def ex_admissions_def ex_tables run_simps cong: gbind_weak_cong)

lemma ex_mar_run:
  "generate_medication_administration ex_admissions ex_medications ex_staff ex_mar_rng
     = Inr (ex_mar, \<lparr>py = [], np = []\<rparr>)"
  by (simp add: generate_medication_administration_def mar_admission_step_def
      mar_med_step_def mar_day_step_def mar_dose_step_def mar_statuses_def routes_def
      ex_mar_rng_def ex_admissions_def ex_mar_def ex_tables run_simps cong: gbind_weak_cong)

lemma ex_vitals_run:
  "generate_vital_signs ex_admissions ex_staff ex_vital_rng
     = Inr (ex_vitals, \<lparr>py = [], np = []\<rparr>)"
  by (simp add: generate_vital_signs_def vital_admission_step_def vital_check_step_def
      ex_vital_rng_def ex_admissions_def ex_vitals_def ex_tables run_simps
      cong: gbind_weak_cong)

lemma ex_activities_run:
  "generate_daily_activities ex_admissions ex_staff ex_activity_rng
     = Inr (ex_activities, \<lparr>py = [], np = []\<rparr>)"
  by (simp add: generate_daily_activities_def activity_admission_step_def
      activity_day_step_def mental_statuses_def moods_def possible_comments_def gt_0_3_def
      ex_activity_rng_def ex_admissions_def ex_activities_def ex_tables run_simps
      cong: gbind_weak_cong)

lemma ex_procedure_events_run:
  "generate_procedure_events ex_admissions ex_procedures ex_staff ex_procedure_rng
     = Inr (ex_procedure_events, \<lparr>py = [], np = []\<rparr>)"
  by (simp add: generate_procedure_events_def procedure_admission_step_def
      procedure_event_step_def outcomes_def gt_0_9_def
      ex_procedure_rng_def ex_admissions_def ex_procedure_events_def ex_tables run_simps
      cong: gbind_weak_cong)

lemma ex_labs_run:
  "generate_lab_results ex_admissions ex_staff ex_lab_rng
     = Inr (ex_labs, \<lparr>py = [], np = []\<rparr>)"
  by (simp add: generate_lab_results_def lab_admission_step_def lab_panel_step_def
      test_types_def abnormal_flags_def
      ex_lab_rng_def ex_admissions_def ex_labs_def ex_tables run_simps
      cong: gbind_weak_cong)

lemma ex_goals_run:
  "generate_care_plan_goals ex_admissions ex_staff ex_goal_rng
     = Inr (ex_goals, \<lparr>py = [], np = []\<rparr>)"
  by (simp add: generate_care_plan_goals_def goal_admission_step_def goal_step_def
      goal_templates_def goal_statuses_def
      ex_goal_rng_def ex_admissions_def ex_goals_def ex_tables run_simps
      cong: gbind_weak_cong)

section \<open>The claims\<close>

subsection \<open>Admissions\<close>

lemma readmission_chain_nth:
  "readmission_chain prev as \<longleftrightarrow>
     (\<forall>k<length as. a_is_readmission (as ! k) \<longleftrightarrow>
        days_of (a_admission_datetime (as ! k) - a_discharge_datetime ((prev # as) ! k)) \<le> 30)"
proof (induction as arbitrary: prev)
  case Nil
  then show ?case by simp
next
  case (Cons a as)
  show ?case
    unfolding readmission_chain.simps Cons.IH length_Cons
    by (simp add: All_less_Suc2)
qed

lemma readmission_invariant_nth:
  "readmission_invariant as \<longleftrightarrow>
     (\<forall>k<length as. a_is_readmission (as ! k) \<longleftrightarrow>
        0 < k \<and> days_of (a_admission_datetime (as ! k) - a_discharge_datetime (as ! (k - 1))) \<le> 30)"
proof (cases as)
  case Nil
  then show ?thesis by simp
next
  case (Cons a as')
  show ?thesis
    unfolding Cons readmission_invariant.simps readmission_chain_nth length_Cons
    by (simp add: All_less_Suc2)
qed

text \<open>
  Claim C1. The admissions of a patient are emitted in generation order;
  the first one is never flagged as a readmission, and the k-th one (k > 1)
  is flagged if and only if the \<^verbatim>\<open>.days\<close> of its start minus the discharge of
  the admission generated just before it for that patient is at most 30.
  The admission ids grow along the table, the order of generation. Here
  \<open>admissions_of\<close> takes the admissions of the patient out of the generated
  table, in the order of the table; the patient ids are distinct, as
  \<^verbatim>\<open>generate_patients\<close> makes them. The floor in \<^verbatim>\<open>.days\<close> makes an
  admission that starts before the previous discharge a readmission too.
\<close>

theorem readmission_flags:
  assumes "generate_admissions patients_df wards_df diagnoses_df staff_df beds_df
             start_year num_years g = Inr (admissions, g')"
    and "distinct (map p_patient_id patients_df)"
    and "patient \<in> set patients_df"
    and "visits = admissions_of (p_patient_id patient) admissions"
  shows "readmission_invariant visits
     \<and> (\<forall>k<length visits. a_is_readmission (visits ! k) \<longleftrightarrow>
           0 < k \<and> days_of (a_admission_datetime (visits ! k)
                              - a_discharge_datetime (visits ! (k - 1))) \<le> 30)
     \<and> sorted (map a_admission_id visits) \<and> distinct (map a_admission_id visits)"
proof -
  from generate_admissions_blocks [OF assms(1)] obtain blks where
    "admissions = concat blks"
    "list_all2 (patient_block wards_df diagnoses_df staff_df beds_df) patients_df blks"
    by blast
  with blocks_of_patient [OF this(2) assms(2,3)] assms(4)
  have inv: "readmission_invariant visits" by (simp add: patient_block_def)
  from generate_admissions_ids_distinct [OF assms(1)] assms(4)
  have "sorted (map a_admission_id visits)" "distinct (map a_admission_id visits)"
    by (simp_all add: admissions_of_def sorted_filter distinct_map_filter)
  with inv show ?thesis using readmission_invariant_nth [of visits] by blast
qed

theorem readmission_flags_witness:
  "generate_admissions ex_patients generate_wards generate_diagnoses ex_staff ex_beds
     START_YEAR NUM_YEARS ex_rng = Inr (ex_admissions, \<lparr>py = [], np = []\<rparr>)
   \<and> distinct (map p_patient_id ex_patients)
   \<and> mk_patient 2 \<in> set ex_patients
   \<and> map a_admission_id (admissions_of 1 ex_admissions) = [1, 2, 3]
   \<and> map a_is_readmission (admissions_of 1 ex_admissions) = [False, True, False]
   \<and> map a_admission_id (admissions_of 2 ex_admissions) = [4, 5]
   \<and> map a_is_readmission (admissions_of 2 ex_admissions) = [False, True]
   \<and> readmission_invariant (admissions_of (p_patient_id (mk_patient 2)) ex_admissions)"
proof -
  have d: "distinct (map p_patient_id ex_patients)"
    and m: "mk_patient 2 \<in> set ex_patients"
    by (simp_all add: ex_patients_def mk_patient_def)
  have "map a_admission_id (admissions_of 1 ex_admissions) = [1, 2, 3]"
    "map a_is_readmission (admissions_of 1 ex_admissions) = [False, True, False]"
    "map a_admission_id (admissions_of 2 ex_admissions) = [4, 5]"
    "map a_is_readmission (admissions_of 2 ex_admissions) = [False, True]"
    by (simp_all add: admissions_of_def ex_admissions_def)
  with readmission_flags [OF ex_admissions_run d m refl] ex_admissions_run d m
  show ?thesis by blast
qed

lemma primary_diagnosis_found:
  assumes "distinct (map d_diagnosis_id D)" and "d \<in> set D"
    and "d_diagnosis_id d = a_primary_diagnosis_id a"
  shows "primary_diagnosis D a = Some d"
  using find_distinct_key [OF assms(1,2)] assms(3) by (simp add: primary_diagnosis_def)

lemma los_in_range_positive: "los_in_range severity los \<Longrightarrow> 0 < los"
  by (auto simp: los_in_range_def split: if_splits)

text \<open>
  Claim C2. For every generated admission the discharge is the admission
  plus exactly \<open>length_of_stay\<close> days, and the stay is in the range that the
  severity of the primary diagnosis dictates: 5 to 21 days when Critical, 3
  to 14 when Serious, 1 to 7 otherwise; so the stay is positive and the
  discharge is not before the admission. The primary diagnosis is the row
  of the diagnosis table with the admission's \<open>primary_diagnosis_id\<close>; the
  diagnosis ids are distinct, as \<^verbatim>\<open>generate_diagnoses\<close> makes them.
\<close>

theorem stay_length:
  assumes "generate_admissions patients_df wards_df diagnoses_df staff_df beds_df
             start_year num_years g = Inr (admissions, g')"
    and "distinct (map d_diagnosis_id diagnoses_df)"
    and "a \<in> set admissions"
  shows "a_discharge_datetime a = a_admission_datetime a + timedelta (a_length_of_stay a) 0 0
     \<and> (\<exists>d. primary_diagnosis diagnoses_df a = Some d
            \<and> los_in_range (d_severity_level d) (a_length_of_stay a))
     \<and> 0 < a_length_of_stay a
     \<and> a_admission_datetime a \<le> a_discharge_datetime a"
proof -
  from generate_admissions_blocks [OF assms(1)] obtain blks where
    "admissions = concat blks"
    "list_all2 (patient_block wards_df diagnoses_df staff_df beds_df) patients_df blks"
    by blast
  with blocks_rows assms(3) obtain p where
    row: "admission_row p wards_df diagnoses_df staff_df beds_df a" by blast
  then obtain d where d: "d \<in> set diagnoses_df" "d_diagnosis_id d = a_primary_diagnosis_id a"
    "los_in_range (d_severity_level d) (a_length_of_stay a)"
    by (auto simp: admission_row_def)
  from primary_diagnosis_found [OF assms(2) d(1,2)] d(3)
  have look: "\<exists>d. primary_diagnosis diagnoses_df a = Some d
            \<and> los_in_range (d_severity_level d) (a_length_of_stay a)" by blast
  from los_in_range_positive [OF d(3)] have pos: "0 < a_length_of_stay a" .
  from row have dis:
    "a_discharge_datetime a = a_admission_datetime a + timedelta (a_length_of_stay a) 0 0"
    by (simp add: admission_row_def)
  with pos have "a_admission_datetime a \<le> a_discharge_datetime a"
    by (simp add: timedelta_def)
  with dis look pos show ?thesis by blast
qed

theorem stay_length_witness:
  "generate_admissions ex_patients generate_wards generate_diagnoses ex_staff ex_beds
     START_YEAR NUM_YEARS ex_rng = Inr (ex_admissions, \<lparr>py = [], np = []\<rparr>)
   \<and> distinct (map d_diagnosis_id generate_diagnoses)
   \<and> ex_admissions ! 2 \<in> set ex_admissions
   \<and> map_option d_severity_level (primary_diagnosis generate_diagnoses (ex_admissions ! 2))
       = Some ''Critical''
   \<and> a_length_of_stay (ex_admissions ! 2) = 7
   \<and> a_discharge_datetime (ex_admissions ! 2)
       = a_admission_datetime (ex_admissions ! 2)
         + timedelta (a_length_of_stay (ex_admissions ! 2)) 0 0
   \<and> (\<exists>d. primary_diagnosis generate_diagnoses (ex_admissions ! 2) = Some d
          \<and> los_in_range (d_severity_level d) (a_length_of_stay (ex_admissions ! 2)))"
proof -
  have d: "distinct (map d_diagnosis_id generate_diagnoses)"
    by (simp add: generate_diagnoses_def COMMON_DIAGNOSES_def upto.simps)
  have m: "ex_admissions ! 2 \<in> set ex_admissions"
    by (simp add: ex_admissions_def)
  have "map_option d_severity_level (primary_diagnosis generate_diagnoses (ex_admissions ! 2))
          = Some ''Critical''"
    "a_length_of_stay (ex_admissions ! 2) = 7"
    by (simp_all add: primary_diagnosis_def generate_diagnoses_def COMMON_DIAGNOSES_def
        upto.simps ex_admissions_def)
  with stay_length [OF ex_admissions_run d m] ex_admissions_run d m
  show ?thesis by blast
qed

text \<open>
  Claim C9. The column \<^verbatim>\<open>readmission_days_since_discharge\<close> of every
  generated admission is \<^verbatim>\<open>None\<close>, also when the admission is flagged as a
  readmission: the days since the last discharge serve the flag only.
\<close>

theorem readmission_days_never_set:
  assumes "generate_admissions patients_df wards_df diagnoses_df staff_df beds_df
             start_year num_years g = Inr (admissions, g')"
    and "a \<in> set admissions"
  shows "a_readmission_days_since_discharge a = None"
proof -
  from generate_admissions_blocks [OF assms(1)] obtain blks where
    "admissions = concat blks"
    "list_all2 (patient_block wards_df diagnoses_df staff_df beds_df) patients_df blks"
    by blast
  with blocks_rows assms(2) obtain p where
    "admission_row p wards_df diagnoses_df staff_df beds_df a" by blast
  then show ?thesis by (simp add: admission_row_def)
qed

theorem readmission_days_never_set_witness:
  "generate_admissions ex_patients generate_wards generate_diagnoses ex_staff ex_beds
     START_YEAR NUM_YEARS ex_rng = Inr (ex_admissions, \<lparr>py = [], np = []\<rparr>)
   \<and> ex_admissions ! 1 \<in> set ex_admissions
   \<and> a_is_readmission (ex_admissions ! 1)
   \<and> a_readmission_days_since_discharge (ex_admissions ! 1) = None"
proof -
  have m: "ex_admissions ! 1 \<in> set ex_admissions"
    and r: "a_is_readmission (ex_admissions ! 1)"
    by (simp_all add: ex_admissions_def)
  with readmission_days_never_set [OF ex_admissions_run m] ex_admissions_run
  show ?thesis by blast
qed

lemma ward_ids: "w \<in> set WARDS \<Longrightarrow> 1 \<le> w_ward_id w \<and> w_ward_id w \<le> 12"
  by (auto simp: WARDS_def mk_ward_def)

text \<open>
  Claim C8. With \<^verbatim>\<open>NUM_PATIENTS = 500\<close>, the 12 configured wards and the
  5-year horizon, every patient receives between 2 and 5 admissions, the
  admission table has between 1000 and 2500 rows, and the \<open>ward_id\<close> of every
  admission is the id of one of the 12 configured wards. The patients are
  those that \<^verbatim>\<open>generate_patients\<close> returns.
\<close>

theorem admissions_scenario:
  assumes "generate_patients NUM_PATIENTS g0 = Inr (patients_df, g1)"
    and "generate_admissions patients_df generate_wards diagnoses_df staff_df beds_df
           START_YEAR NUM_YEARS g2 = Inr (admissions, g3)"
  shows "1000 \<le> length admissions \<and> length admissions \<le> 2500
     \<and> (\<forall>p\<in>set patients_df.
            2 \<le> length (admissions_of (p_patient_id p) admissions)
          \<and> length (admissions_of (p_patient_id p) admissions) \<le> 5)
     \<and> (\<forall>a\<in>set admissions.
            a_ward_id a \<in> w_ward_id ` set WARDS \<and> 1 \<le> a_ward_id a \<and> a_ward_id a \<le> 12)
     \<and> length WARDS = 12"
proof -
  from generate_patients_result(2) [OF assms(1)]
  have ids: "map p_patient_id patients_df = [1..500]" by (simp add: NUM_PATIENTS_def)
  then have "length (map p_patient_id patients_df) = 500" by simp
  then have len: "length patients_df = 500" by simp
  from ids have dist: "distinct (map p_patient_id patients_df)" by simp
  from generate_admissions_blocks [OF assms(2)] obtain blks where
    adms: "admissions = concat blks" and
    blks: "list_all2 (patient_block generate_wards diagnoses_df staff_df beds_df) patients_df blks"
    by blast
  from blocks_length [OF blks] adms len
  have count: "1000 \<le> length admissions \<and> length admissions \<le> 2500" by simp
  have each: "2 \<le> length (admissions_of (p_patient_id p) admissions)
          \<and> length (admissions_of (p_patient_id p) admissions) \<le> 5" if "p \<in> set patients_df" for p
    using blocks_of_patient [OF blks dist that] adms by (simp add: patient_block_def)
  have ward: "a_ward_id a \<in> w_ward_id ` set WARDS \<and> 1 \<le> a_ward_id a \<and> a_ward_id a \<le> 12"
    if "a \<in> set admissions" for a
  proof -
    from blocks_rows [OF blks] that adms obtain p where
      "admission_row p generate_wards diagnoses_df staff_df beds_df a" by blast
    then obtain w where "w \<in> set WARDS" "w_ward_id w = a_ward_id a"
      by (auto simp: admission_row_def admission_refs_def generate_wards_def)
    with ward_ids [of w] show ?thesis by force
  qed
  have "length WARDS = 12" by (simp add: WARDS_def)
  with count each ward show ?thesis by blast
qed

theorem admissions_scenario_witness:
  "\<exists>patients_df g1 admissions g3.
     generate_patients NUM_PATIENTS \<lparr>py = [], np = []\<rparr> = Inr (patients_df, g1)
   \<and> generate_admissions patients_df generate_wards generate_diagnoses ex_staff ex_beds
       START_YEAR NUM_YEARS g1 = Inr (admissions, g3)
   \<and> length patients_df = 500
   \<and> 1000 \<le> length admissions \<and> length admissions \<le> 2500
   \<and> list_all (\<lambda>p. 2 \<le> length (admissions_of (p_patient_id p) admissions)
                  \<and> length (admissions_of (p_patient_id p) admissions) \<le> 5) patients_df
   \<and> list_all (\<lambda>a. 1 \<le> a_ward_id a \<and> a_ward_id a \<le> 12) admissions"
proof -
  obtain patients_df g1 where
    p: "generate_patients NUM_PATIENTS \<lparr>py = [], np = []\<rparr> = Inr (patients_df, g1)"
    using generate_patients_result(1) by blast
  have "generate_wards \<noteq> []" "2 \<le> length generate_diagnoses" "physicians ex_staff \<noteq> []"
    "\<forall>w\<in>set generate_wards. \<exists>b\<in>set ex_beds. b_ward_id b = w_ward_id w"
    by (simp_all add: generate_wards_def WARDS_def generate_diagnoses_def COMMON_DIAGNOSES_def
        physicians_def physician_roles_def ex_staff_def mk_staff_def ex_beds_def mk_bed_def
        mk_ward_def)
  from generate_admissions_total [OF this] obtain admissions g3 where
    a: "generate_admissions patients_df generate_wards generate_diagnoses ex_staff ex_beds
          START_YEAR NUM_YEARS g1 = Inr (admissions, g3)"
    by blast
  from generate_patients_result(2) [OF p]
  have "length (map p_patient_id patients_df) = 500" by (simp add: NUM_PATIENTS_def)
  then have "length patients_df = 500" by simp
  with admissions_scenario [OF p a] p a show ?thesis
    by (intro exI [of _ patients_df] exI [of _ g1] exI [of _ admissions] exI [of _ g3])
       (simp add: list_all_iff)
qed

subsection \<open>Vital signs and care goals\<close>

text \<open>
  Claim C10. The numeric fields of every generated vital-sign record lie
  in the ranges written into the generator: systolic pressure 90 to 180,
  diastolic 60 to 120, heart rate 55 to 120, temperature 36.0 to 39.0 (in
  tenths), respiratory rate 12 to 24, oxygen saturation 88 to 100, pain
  level 0 to 8. The catalog \<^verbatim>\<open>VITAL_SIGNS_RANGES\<close> has other bounds for four
  of them (heart rate from 50, respiratory rate to 25, oxygen saturation
  from 85, pain level to 10); the generator does not read it.
\<close>

theorem vital_sign_ranges:
  assumes "generate_vital_signs admissions_df staff_df g = Inr (vitals, g')"
    and "r \<in> set vitals"
  shows "vital_ranges r
     \<and> map_of VITAL_SIGNS_RANGES ''blood_pressure_systolic'' = Some (90, 180)
     \<and> map_of VITAL_SIGNS_RANGES ''blood_pressure_diastolic'' = Some (60, 120)
     \<and> map_of VITAL_SIGNS_RANGES ''heart_rate'' = Some (50, 120)
     \<and> map_of VITAL_SIGNS_RANGES ''temperature'' = Some (360, 390)
     \<and> map_of VITAL_SIGNS_RANGES ''respiratory_rate'' = Some (12, 25)
     \<and> map_of VITAL_SIGNS_RANGES ''oxygen_saturation'' = Some (85, 100)
     \<and> map_of VITAL_SIGNS_RANGES ''pain_level'' = Some (0, 10)"
proof -
  from generate_vital_signs_rows [OF assms(1)] assms(2)
  have "vital_ranges r" by (auto simp: vital_row_def)
  then show ?thesis by (simp add: VITAL_SIGNS_RANGES_def)
qed

theorem vital_sign_ranges_witness:
  "generate_vital_signs ex_admissions ex_staff ex_vital_rng
     = Inr (ex_vitals, \<lparr>py = [], np = []\<rparr>)
   \<and> ex_vitals ! 1 \<in> set ex_vitals
   \<and> map v_heart_rate ex_vitals = [72, 120, 55, 55]
   \<and> map v_respiratory_rate ex_vitals = [16, 24, 12, 12]
   \<and> map v_oxygen_saturation ex_vitals = [97, 100, 88, 88]
   \<and> map v_pain_level ex_vitals = [3, 8, 0, 0]
   \<and> vital_ranges (ex_vitals ! 1)"
proof -
  have m: "ex_vitals ! 1 \<in> set ex_vitals"
    by (simp add: ex_vitals_def)
  have "map v_heart_rate ex_vitals = [72, 120, 55, 55]"
    "map v_respiratory_rate ex_vitals = [16, 24, 12, 12]"
    "map v_oxygen_saturation ex_vitals = [97, 100, 88, 88]"
    "map v_pain_level ex_vitals = [3, 8, 0, 0]"
    by (simp_all add: ex_vitals_def)
  with vital_sign_ranges [OF ex_vitals_run m] ex_vitals_run m
  show ?thesis by blast
qed

text \<open>
  Claim C7. The progress of every generated care-plan goal follows from
  its status: \<^verbatim>\<open>Achieved\<close> gives 100, \<^verbatim>\<open>Not Started\<close> and \<^verbatim>\<open>Discontinued\<close>
  give 0, \<^verbatim>\<open>In Progress\<close> gives a value from 30 to 90.
\<close>

theorem care_goal_consistency:
  assumes "generate_care_plan_goals admissions_df staff_df g = Inr (goals, g')"
    and "r \<in> set goals"
  shows "(goal_status r = ''Achieved'' \<longrightarrow> goal_progress_pct r = 100)
     \<and> (goal_status r = ''Not Started'' \<or> goal_status r = ''Discontinued''
          \<longrightarrow> goal_progress_pct r = 0)
     \<and> (goal_status r = ''In Progress''
          \<longrightarrow> 30 \<le> goal_progress_pct r \<and> goal_progress_pct r \<le> 90)
     \<and> goal_status r \<in> set goal_statuses"
proof -
  from generate_care_plan_goals_rows [OF assms(1)] assms(2)
  have "progress_consistent r" "goal_status r \<in> set goal_statuses"
    by (auto simp: goal_row_def)
  then show ?thesis by (simp add: progress_consistent_def)
qed

theorem care_goal_consistency_witness:
  "generate_care_plan_goals ex_admissions ex_staff ex_goal_rng
     = Inr (ex_goals, \<lparr>py = [], np = []\<rparr>)
   \<and> ex_goals ! 1 \<in> set ex_goals
   \<and> map goal_status ex_goals =
       [''Achieved'', ''In Progress'', ''Not Started'', ''Discontinued'', ''Not Started'',
        ''Not Started'']
   \<and> map goal_progress_pct ex_goals = [100, 72, 0, 0, 0, 0]
   \<and> goal_status (ex_goals ! 1) = ''In Progress''
   \<and> 30 \<le> goal_progress_pct (ex_goals ! 1) \<and> goal_progress_pct (ex_goals ! 1) \<le> 90"
proof -
  have m: "ex_goals ! 1 \<in> set ex_goals"
    by (simp add: ex_goals_def)
  have "map goal_status ex_goals =
       [''Achieved'', ''In Progress'', ''Not Started'', ''Discontinued'', ''Not Started'',
        ''Not Started'']"
    "map goal_progress_pct ex_goals = [100, 72, 0, 0, 0, 0]"
    "goal_status (ex_goals ! 1) = ''In Progress''"
    by (simp_all add: ex_goals_def)
  with care_goal_consistency [OF ex_goals_run m] ex_goals_run m
  show ?thesis by blast
qed

subsection \<open>Staff attribution\<close>

text \<open>
  Claim C5. Every staff reference of every child table resolves to a
  staff row with a role the generator permits: the recorder of a vital
  sign, of a daily activity and the creator of a care goal, and the nurse
  who administered a medication (when the column is set), are Registered
  Nurses; the prescriber of a medication, the performer of a procedure
  and the orderer of a lab test are Attending Physicians or Residents. The
  staff ids are distinct, as \<^verbatim>\<open>generate_staff\<close> makes them.
\<close>

theorem staff_attribution:
  assumes "distinct (map s_staff_id staff_df)"
  shows
    "(generate_medication_administration admissions_df medications_df staff_df g1
        = Inr (mar, g1')
      \<longrightarrow> (\<forall>r\<in>set mar. mar_attribution staff_df r))
   \<and> (generate_vital_signs admissions_df staff_df g2 = Inr (vitals, g2')
      \<longrightarrow> (\<forall>r\<in>set vitals. attributed_to staff_df [nurse_role] (v_recorded_by_staff_id r)))
   \<and> (generate_daily_activities admissions_df staff_df g3 = Inr (activities, g3')
      \<longrightarrow> (\<forall>r\<in>set activities.
             attributed_to staff_df [nurse_role] (act_recorded_by_staff_id r)))
   \<and> (generate_procedure_events admissions_df procedures_df staff_df g4 = Inr (events, g4')
      \<longrightarrow> (\<forall>r\<in>set events.
             attributed_to staff_df physician_roles (pe_performed_by_staff_id r)))
   \<and> (generate_lab_results admissions_df staff_df g5 = Inr (labs, g5')
      \<longrightarrow> (\<forall>r\<in>set labs. attributed_to staff_df physician_roles (lab_ordered_by_staff_id r)))
   \<and> (generate_care_plan_goals admissions_df staff_df g6 = Inr (goals, g6')
      \<longrightarrow> (\<forall>r\<in>set goals. attributed_to staff_df [nurse_role] (goal_created_by_staff_id r)))"
proof (intro conjI impI ballI)
  fix r
  assume "generate_medication_administration admissions_df medications_df staff_df g1
            = Inr (mar, g1')" and "r \<in> set mar"
  with generate_medication_administration_rows
  have "mar_roles staff_df r" by (fastforce simp: mar_row_def)
  then show "mar_attribution staff_df r"
    using has_role_attributed [OF assms]
    by (auto simp: mar_roles_def mar_attribution_def split: option.splits)
next
  fix r
  assume "generate_vital_signs admissions_df staff_df g2 = Inr (vitals, g2')" and "r \<in> set vitals"
  with generate_vital_signs_rows
  have "has_role staff_df [nurse_role] (v_recorded_by_staff_id r)"
    by (fastforce simp: vital_row_def)
  then show "attributed_to staff_df [nurse_role] (v_recorded_by_staff_id r)"
    by (rule has_role_attributed [OF assms])
next
  fix r
  assume "generate_daily_activities admissions_df staff_df g3 = Inr (activities, g3')"
    and "r \<in> set activities"
  with generate_daily_activities_rows
  have "has_role staff_df [nurse_role] (act_recorded_by_staff_id r)"
    by (fastforce simp: activity_row_def)
  then show "attributed_to staff_df [nurse_role] (act_recorded_by_staff_id r)"
    by (rule has_role_attributed [OF assms])
next
  fix r
  assume "generate_procedure_events admissions_df procedures_df staff_df g4 = Inr (events, g4')"
    and "r \<in> set events"
  with generate_procedure_events_rows
  have "has_role staff_df physician_roles (pe_performed_by_staff_id r)"
    by (fastforce simp: procedure_row_def)
  then show "attributed_to staff_df physician_roles (pe_performed_by_staff_id r)"
    by (rule has_role_attributed [OF assms])
next
  fix r
  assume "generate_lab_results admissions_df staff_df g5 = Inr (labs, g5')" and "r \<in> set labs"
  with generate_lab_results_rows
  have "has_role staff_df physician_roles (lab_ordered_by_staff_id r)"
    by (fastforce simp: lab_row_def)
  then show "attributed_to staff_df physician_roles (lab_ordered_by_staff_id r)"
    by (rule has_role_attributed [OF assms])
next
  fix r
  assume "generate_care_plan_goals admissions_df staff_df g6 = Inr (goals, g6')"
    and "r \<in> set goals"
  with generate_care_plan_goals_rows
  have "has_role staff_df [nurse_role] (goal_created_by_staff_id r)"
    by (fastforce simp: goal_row_def)
  then show "attributed_to staff_df [nurse_role] (goal_created_by_staff_id r)"
    by (rule has_role_attributed [OF assms])
qed

theorem staff_attribution_witness:
  "distinct (map s_staff_id ex_staff)
   \<and> generate_medication_administration ex_admissions ex_medications ex_staff ex_mar_rng
       = Inr (ex_mar, \<lparr>py = [], np = []\<rparr>)
   \<and> generate_vital_signs ex_admissions ex_staff ex_vital_rng
       = Inr (ex_vitals, \<lparr>py = [], np = []\<rparr>)
   \<and> generate_daily_activities ex_admissions ex_staff ex_activity_rng
       = Inr (ex_activities, \<lparr>py = [], np = []\<rparr>)
   \<and> generate_procedure_events ex_admissions ex_procedures ex_staff ex_procedure_rng
       = Inr (ex_procedure_events, \<lparr>py = [], np = []\<rparr>)
   \<and> generate_lab_results ex_admissions ex_staff ex_lab_rng
       = Inr (ex_labs, \<lparr>py = [], np = []\<rparr>)
   \<and> generate_care_plan_goals ex_admissions ex_staff ex_goal_rng
       = Inr (ex_goals, \<lparr>py = [], np = []\<rparr>)
   \<and> list_all (mar_attribution ex_staff) ex_mar
   \<and> list_all (\<lambda>r. attributed_to ex_staff [nurse_role] (v_recorded_by_staff_id r)) ex_vitals
   \<and> list_all (\<lambda>r. attributed_to ex_staff [nurse_role] (act_recorded_by_staff_id r))
       ex_activities
   \<and> list_all (\<lambda>r. attributed_to ex_staff physician_roles (pe_performed_by_staff_id r))
       ex_procedure_events
   \<and> list_all (\<lambda>r. attributed_to ex_staff physician_roles (lab_ordered_by_staff_id r)) ex_labs
   \<and> list_all (\<lambda>r. attributed_to ex_staff [nurse_role] (goal_created_by_staff_id r)) ex_goals
   \<and> map mar_prescribed_by_staff_id ex_mar = [1, 3, 1, 3, 1, 3, 1, 1, 1]
   \<and> map mar_administered_by_staff_id ex_mar
       = [Some 2, None, None, Some 2, None, Some 2, Some 2, Some 2, Some 2]
   \<and> map (staff_role ex_staff) [1, 2, 3]
       = [Some ''Attending Physician'', Some ''Registered Nurse'', Some ''Resident'']"
proof -
  have d: "distinct (map s_staff_id ex_staff)"
    by (simp add: ex_staff_def mk_staff_def)
  note t = staff_attribution [OF d, where admissions_df = ex_admissions
      and medications_df = ex_medications and procedures_df = ex_procedures
      and ?g1.0 = ex_mar_rng and mar = ex_mar and ?g1' = "\<lparr>py = [], np = []\<rparr>"
      and ?g2.0 = ex_vital_rng and vitals = ex_vitals and ?g2' = "\<lparr>py = [], np = []\<rparr>"
      and ?g3.0 = ex_activity_rng and activities = ex_activities
      and ?g3' = "\<lparr>py = [], np = []\<rparr>"
      and ?g4.0 = ex_procedure_rng and events = ex_procedure_events
      and ?g4' = "\<lparr>py = [], np = []\<rparr>"
      and ?g5.0 = ex_lab_rng and labs = ex_labs and ?g5' = "\<lparr>py = [], np = []\<rparr>"
      and ?g6.0 = ex_goal_rng and goals = ex_goals and ?g6' = "\<lparr>py = [], np = []\<rparr>"]
  have ids: "map mar_prescribed_by_staff_id ex_mar = [1, 3, 1, 3, 1, 3, 1, 1, 1]"
    "map mar_administered_by_staff_id ex_mar
       = [Some 2, None, None, Some 2, None, Some 2, Some 2, Some 2, Some 2]"
    by (simp_all add: ex_mar_def)
  have roles: "map (staff_role ex_staff) [1, 2, 3]
       = [Some ''Attending Physician'', Some ''Registered Nurse'', Some ''Resident'']"
    by (simp add: staff_role_def ex_staff_def mk_staff_def)
  from t ex_mar_run ex_vitals_run ex_activities_run ex_procedure_events_run ex_labs_run
    ex_goals_run
  have "list_all (mar_attribution ex_staff) ex_mar"
    "list_all (\<lambda>r. attributed_to ex_staff [nurse_role] (v_recorded_by_staff_id r)) ex_vitals"
    "list_all (\<lambda>r. attributed_to ex_staff [nurse_role] (act_recorded_by_staff_id r))
       ex_activities"
    "list_all (\<lambda>r. attributed_to ex_staff physician_roles (pe_performed_by_staff_id r))
       ex_procedure_events"
    "list_all (\<lambda>r. attributed_to ex_staff physician_roles (lab_ordered_by_staff_id r)) ex_labs"
    "list_all (\<lambda>r. attributed_to ex_staff [nurse_role] (goal_created_by_staff_id r)) ex_goals"
    unfolding list_all_iff by blast+
  with d ids roles ex_mar_run ex_vitals_run ex_activities_run ex_procedure_events_run
    ex_labs_run ex_goals_run
  show ?thesis by blast
qed

subsection \<open>Referential integrity\<close>

lemma admission_rows:
  assumes "generate_admissions P W D S B y n g = Inr (A, g')" and "a \<in> set A"
  shows "\<exists>p\<in>set P. admission_row p W D S B a"
proof -
  from generate_admissions_blocks [OF assms(1)] obtain blks where
    "A = concat blks" "list_all2 (patient_block W D S B) P blks"
    by blast
  with blocks_rows assms(2) show ?thesis by blast
qed

lemma admission_known_patient:
  assumes "generate_admissions P W D S B y n g = Inr (A, g')" and "a \<in> set A"
  shows "known_patient P (a_patient_id a)"
  using admission_rows [OF assms] by (auto simp: admission_row_def known_patient_def)

text \<open>
  Claim C4. Referential integrity across the generated tables: every
  foreign key of every fact table is the key of a row of the table it
  refers to. The admission ids are \<open>1, 2, \<dots>\<close>, each once. An admission's patient, ward, bed, primary and secondary
  diagnoses and attending doctor exist, and its bed is a bed of its ward; a
  child row's admission is a row of the admission table that has the same
  patient, that patient exists, and its medication, procedure and staff
  members exist.
\<close>

theorem referential_integrity:
  assumes "generate_admissions patients_df wards_df diagnoses_df staff_df beds_df
             start_year num_years g0 = Inr (admissions, g0')"
  shows
    "map a_admission_id admissions = [1..int (length admissions)]
   \<and> (\<forall>a\<in>set admissions. admission_fks patients_df wards_df diagnoses_df staff_df beds_df a)
   \<and> (generate_medication_administration admissions medications_df staff_df g1
        = Inr (mar, g1')
      \<longrightarrow> (\<forall>r\<in>set mar. mar_fks patients_df admissions medications_df staff_df r))
   \<and> (generate_vital_signs admissions staff_df g2 = Inr (vitals, g2')
      \<longrightarrow> (\<forall>r\<in>set vitals. vital_fks patients_df admissions staff_df r))
   \<and> (generate_daily_activities admissions staff_df g3 = Inr (activities, g3')
      \<longrightarrow> (\<forall>r\<in>set activities. activity_fks patients_df admissions staff_df r))
   \<and> (generate_procedure_events admissions procedures_df staff_df g4 = Inr (events, g4')
      \<longrightarrow> (\<forall>r\<in>set events. procedure_fks patients_df admissions procedures_df staff_df r))
   \<and> (generate_lab_results admissions staff_df g5 = Inr (labs, g5')
      \<longrightarrow> (\<forall>r\<in>set labs. lab_fks patients_df admissions staff_df r))
   \<and> (generate_care_plan_goals admissions staff_df g6 = Inr (goals, g6')
      \<longrightarrow> (\<forall>r\<in>set goals. goal_fks patients_df admissions staff_df r))"
proof (intro conjI impI ballI)
  show "map a_admission_id admissions = [1..int (length admissions)]"
    by (rule generate_admissions_ids [OF assms])
next
  fix a
  assume "a \<in> set admissions"
  with admission_rows [OF assms] admission_known_patient [OF assms]
  show "admission_fks patients_df wards_df diagnoses_df staff_df beds_df a"
    by (auto simp: admission_fks_def admission_row_def)
next
  fix r
  assume "generate_medication_administration admissions medications_df staff_df g1
            = Inr (mar, g1')" and "r \<in> set mar"
  with generate_medication_administration_rows obtain a where
    a: "a \<in> set admissions" "mar_row medications_df staff_df a r" by blast
  with admission_known_patient [OF assms a(1)]
  show "mar_fks patients_df admissions medications_df staff_df r"
    by (auto simp: mar_fks_def mar_row_def mar_parent_def)
next
  fix r
  assume "generate_vital_signs admissions staff_df g2 = Inr (vitals, g2')" and "r \<in> set vitals"
  with generate_vital_signs_rows obtain a where
    a: "a \<in> set admissions" "vital_row staff_df a r" by blast
  with admission_known_patient [OF assms a(1)]
  show "vital_fks patients_df admissions staff_df r"
    by (auto simp: vital_fks_def vital_row_def vital_parent_def known_staff_def
        dest: has_role_staff)
next
  fix r
  assume "generate_daily_activities admissions staff_df g3 = Inr (activities, g3')"
    and "r \<in> set activities"
  with generate_daily_activities_rows obtain a where
    a: "a \<in> set admissions" "activity_row staff_df a r" by blast
  with admission_known_patient [OF assms a(1)]
  show "activity_fks patients_df admissions staff_df r"
    by (auto simp: activity_fks_def activity_row_def activity_parent_def known_staff_def
        dest: has_role_staff)
next
  fix r
  assume "generate_procedure_events admissions procedures_df staff_df g4 = Inr (events, g4')"
    and "r \<in> set events"
  with generate_procedure_events_rows obtain a where
    a: "a \<in> set admissions" "procedure_row procedures_df staff_df a r" by blast
  with admission_known_patient [OF assms a(1)]
  show "procedure_fks patients_df admissions procedures_df staff_df r"
    by (auto simp: procedure_fks_def procedure_row_def procedure_parent_def known_staff_def
        dest: has_role_staff)
next
  fix r
  assume "generate_lab_results admissions staff_df g5 = Inr (labs, g5')" and "r \<in> set labs"
  with generate_lab_results_rows obtain a where
    a: "a \<in> set admissions" "lab_row staff_df a r" by blast
  with admission_known_patient [OF assms a(1)]
  show "lab_fks patients_df admissions staff_df r"
    by (auto simp: lab_fks_def lab_row_def lab_parent_def known_staff_def
        dest: has_role_staff)
next
  fix r
  assume "generate_care_plan_goals admissions staff_df g6 = Inr (goals, g6')"
    and "r \<in> set goals"
  with generate_care_plan_goals_rows obtain a where
    a: "a \<in> set admissions" "goal_row staff_df a r" by blast
  with admission_known_patient [OF assms a(1)]
  show "goal_fks patients_df admissions staff_df r"
    by (auto simp: goal_fks_def goal_row_def goal_parent_def known_staff_def
        dest: has_role_staff)
qed

theorem referential_integrity_witness:
  "generate_admissions ex_patients generate_wards generate_diagnoses ex_staff ex_beds
     START_YEAR NUM_YEARS ex_rng = Inr (ex_admissions, \<lparr>py = [], np = []\<rparr>)
   \<and> generate_medication_administration ex_admissions ex_medications ex_staff ex_mar_rng
       = Inr (ex_mar, \<lparr>py = [], np = []\<rparr>)
   \<and> generate_vital_signs ex_admissions ex_staff ex_vital_rng
       = Inr (ex_vitals, \<lparr>py = [], np = []\<rparr>)
   \<and> generate_daily_activities ex_admissions ex_staff ex_activity_rng
       = Inr (ex_activities, \<lparr>py = [], np = []\<rparr>)
   \<and> generate_procedure_events ex_admissions ex_procedures ex_staff ex_procedure_rng
       = Inr (ex_procedure_events, \<lparr>py = [], np = []\<rparr>)
   \<and> generate_lab_results ex_admissions ex_staff ex_lab_rng
       = Inr (ex_labs, \<lparr>py = [], np = []\<rparr>)
   \<and> generate_care_plan_goals ex_admissions ex_staff ex_goal_rng
       = Inr (ex_goals, \<lparr>py = [], np = []\<rparr>)
   \<and> list_all (admission_fks ex_patients generate_wards generate_diagnoses ex_staff ex_beds)
       ex_admissions
   \<and> list_all (mar_fks ex_patients ex_admissions ex_medications ex_staff) ex_mar
   \<and> list_all (vital_fks ex_patients ex_admissions ex_staff) ex_vitals
   \<and> list_all (activity_fks ex_patients ex_admissions ex_staff) ex_activities
   \<and> list_all (procedure_fks ex_patients ex_admissions ex_procedures ex_staff)
       ex_procedure_events
   \<and> list_all (lab_fks ex_patients ex_admissions ex_staff) ex_labs
   \<and> list_all (goal_fks ex_patients ex_admissions ex_staff) ex_goals
   \<and> map (\<lambda>a. (a_ward_id a, a_bed_id a)) ex_admissions
       = [(2, 102), (1, 101), (12, 112), (5, 105), (5, 105)]
   \<and> map mar_admission_id ex_mar = [4, 4, 4, 4, 4, 4, 1, 1, 1]"
proof -
  note t = referential_integrity [OF ex_admissions_run, where medications_df = ex_medications
      and procedures_df = ex_procedures
      and ?g1.0 = ex_mar_rng and mar = ex_mar and ?g1' = "\<lparr>py = [], np = []\<rparr>"
      and ?g2.0 = ex_vital_rng and vitals = ex_vitals and ?g2' = "\<lparr>py = [], np = []\<rparr>"
      and ?g3.0 = ex_activity_rng and activities = ex_activities
      and ?g3' = "\<lparr>py = [], np = []\<rparr>"
      and ?g4.0 = ex_procedure_rng and events = ex_procedure_events
      and ?g4' = "\<lparr>py = [], np = []\<rparr>"
      and ?g5.0 = ex_lab_rng and labs = ex_labs and ?g5' = "\<lparr>py = [], np = []\<rparr>"
      and ?g6.0 = ex_goal_rng and goals = ex_goals and ?g6' = "\<lparr>py = [], np = []\<rparr>"]
  have ids: "map (\<lambda>a. (a_ward_id a, a_bed_id a)) ex_admissions
       = [(2, 102), (1, 101), (12, 112), (5, 105), (5, 105)]"
    "map mar_admission_id ex_mar = [4, 4, 4, 4, 4, 4, 1, 1, 1]"
    by (simp_all add: ex_admissions_def ex_mar_def)
  from t ex_mar_run ex_vitals_run ex_activities_run ex_procedure_events_run ex_labs_run
    ex_goals_run
  have "list_all (admission_fks ex_patients generate_wards generate_diagnoses ex_staff ex_beds)
       ex_admissions"
    "list_all (mar_fks ex_patients ex_admissions ex_medications ex_staff) ex_mar"
    "list_all (vital_fks ex_patients ex_admissions ex_staff) ex_vitals"
    "list_all (activity_fks ex_patients ex_admissions ex_staff) ex_activities"
    "list_all (procedure_fks ex_patients ex_admissions ex_procedures ex_staff)
       ex_procedure_events"
    "list_all (lab_fks ex_patients ex_admissions ex_staff) ex_labs"
    "list_all (goal_fks ex_patients ex_admissions ex_staff) ex_goals"
    unfolding list_all_iff by blast+
  with ids ex_admissions_run ex_mar_run ex_vitals_run ex_activities_run
    ex_procedure_events_run ex_labs_run ex_goals_run
  show ?thesis by blast
qed

subsection \<open>Timestamps of child rows\<close>

text \<open>
  Claim C3, as amended. Every child row belongs to an admission of the
  table (same \<open>admission_id\<close> and \<open>patient_id\<close>), and relative to that
  admission's start \<open>admission_datetime\<close> and end \<open>admission_datetime +
  length_of_stay\<close> days: a vital sign and a daily activity are recorded, a
  procedure is scheduled and performed and a lab sample is collected from
  the start on and strictly before the end; a medication is scheduled from
  the start on and at the latest at the end itself, and is administered (if
  at all) between 30 minutes before and 60 minutes after its schedule; a
  lab result comes 2 to 24 hours after the collection; a care goal is
  created 2 to 24 hours after the start and last updated between one day
  after the start and the end. The claim as stated, with every medication
  and lab timestamp strictly before the end, fails: see the
  counterexample below.
\<close>

theorem child_timestamps:
  "(generate_medication_administration admissions_df medications_df staff_df g1
        = Inr (mar, g1')
      \<longrightarrow> (\<forall>r\<in>set mar. \<exists>a\<in>set admissions_df. mar_parent a r \<and> mar_times a r))
   \<and> (generate_vital_signs admissions_df staff_df g2 = Inr (vitals, g2')
      \<longrightarrow> (\<forall>r\<in>set vitals. \<exists>a\<in>set admissions_df. vital_parent a r \<and> vital_times a r))
   \<and> (generate_daily_activities admissions_df staff_df g3 = Inr (activities, g3')
      \<longrightarrow> (\<forall>r\<in>set activities.
             \<exists>a\<in>set admissions_df. activity_parent a r \<and> activity_times a r))
   \<and> (generate_procedure_events admissions_df procedures_df staff_df g4 = Inr (events, g4')
      \<longrightarrow> (\<forall>r\<in>set events.
             \<exists>a\<in>set admissions_df. procedure_parent a r \<and> procedure_times a r))
   \<and> (generate_lab_results admissions_df staff_df g5 = Inr (labs, g5')
      \<longrightarrow> (\<forall>r\<in>set labs. \<exists>a\<in>set admissions_df. lab_parent a r \<and> lab_times a r))
   \<and> (generate_care_plan_goals admissions_df staff_df g6 = Inr (goals, g6')
      \<longrightarrow> (\<forall>r\<in>set goals. \<exists>a\<in>set admissions_df. goal_parent a r \<and> goal_times a r))"
proof (intro conjI impI ballI)
  fix r
  assume "generate_medication_administration admissions_df medications_df staff_df g1
            = Inr (mar, g1')" and "r \<in> set mar"
  with generate_medication_administration_rows
  show "\<exists>a\<in>set admissions_df. mar_parent a r \<and> mar_times a r"
    by (fastforce simp: mar_row_def)
next
  fix r
  assume "generate_vital_signs admissions_df staff_df g2 = Inr (vitals, g2')"
    and "r \<in> set vitals"
  with generate_vital_signs_rows
  show "\<exists>a\<in>set admissions_df. vital_parent a r \<and> vital_times a r"
    by (fastforce simp: vital_row_def)
next
  fix r
  assume "generate_daily_activities admissions_df staff_df g3 = Inr (activities, g3')"
    and "r \<in> set activities"
  with generate_daily_activities_rows
  show "\<exists>a\<in>set admissions_df. activity_parent a r \<and> activity_times a r"
    by (fastforce simp: activity_row_def)
next
  fix r
  assume "generate_procedure_events admissions_df procedures_df staff_df g4
            = Inr (events, g4')" and "r \<in> set events"
  with generate_procedure_events_rows
  show "\<exists>a\<in>set admissions_df. procedure_parent a r \<and> procedure_times a r"
    by (fastforce simp: procedure_row_def)
next
  fix r
  assume "generate_lab_results admissions_df staff_df g5 = Inr (labs, g5')" and "r \<in> set labs"
  with generate_lab_results_rows
  show "\<exists>a\<in>set admissions_df. lab_parent a r \<and> lab_times a r"
    by (fastforce simp: lab_row_def)
next
  fix r
  assume "generate_care_plan_goals admissions_df staff_df g6 = Inr (goals, g6')"
    and "r \<in> set goals"
  with generate_care_plan_goals_rows
  show "\<exists>a\<in>set admissions_df. goal_parent a r \<and> goal_times a r"
    by (fastforce simp: goal_row_def)
qed

theorem child_timestamps_witness:
  "generate_medication_administration ex_admissions ex_medications ex_staff ex_mar_rng
       = Inr (ex_mar, \<lparr>py = [], np = []\<rparr>)
   \<and> generate_vital_signs ex_admissions ex_staff ex_vital_rng
       = Inr (ex_vitals, \<lparr>py = [], np = []\<rparr>)
   \<and> generate_daily_activities ex_admissions ex_staff ex_activity_rng
       = Inr (ex_activities, \<lparr>py = [], np = []\<rparr>)
   \<and> generate_procedure_events ex_admissions ex_procedures ex_staff ex_procedure_rng
       = Inr (ex_procedure_events, \<lparr>py = [], np = []\<rparr>)
   \<and> generate_lab_results ex_admissions ex_staff ex_lab_rng
       = Inr (ex_labs, \<lparr>py = [], np = []\<rparr>)
   \<and> generate_care_plan_goals ex_admissions ex_staff ex_goal_rng
       = Inr (ex_goals, \<lparr>py = [], np = []\<rparr>)
   \<and> list_all (\<lambda>r. \<exists>a\<in>set ex_admissions. mar_parent a r \<and> mar_times a r) ex_mar
   \<and> list_all (\<lambda>r. \<exists>a\<in>set ex_admissions. vital_parent a r \<and> vital_times a r) ex_vitals
   \<and> list_all (\<lambda>r. \<exists>a\<in>set ex_admissions. activity_parent a r \<and> activity_times a r)
       ex_activities
   \<and> list_all (\<lambda>r. \<exists>a\<in>set ex_admissions. procedure_parent a r \<and> procedure_times a r)
       ex_procedure_events
   \<and> list_all (\<lambda>r. \<exists>a\<in>set ex_admissions. lab_parent a r \<and> lab_times a r) ex_labs
   \<and> list_all (\<lambda>r. \<exists>a\<in>set ex_admissions. goal_parent a r \<and> goal_times a r) ex_goals
   \<and> map stay_end ex_admissions = [16350, 23580, 154080, 578879, 578880]
   \<and> map v_recorded_datetime ex_vitals = [577439, 577799, 14910, 15270]"
proof -
  note t = child_timestamps [where admissions_df = ex_admissions
      and staff_df = ex_staff
      and medications_df = ex_medications and procedures_df = ex_procedures
      and ?g1.0 = ex_mar_rng and mar = ex_mar and ?g1' = "\<lparr>py = [], np = []\<rparr>"
      and ?g2.0 = ex_vital_rng and vitals = ex_vitals and ?g2' = "\<lparr>py = [], np = []\<rparr>"
      and ?g3.0 = ex_activity_rng and activities = ex_activities
      and ?g3' = "\<lparr>py = [], np = []\<rparr>"
      and ?g4.0 = ex_procedure_rng and events = ex_procedure_events
      and ?g4' = "\<lparr>py = [], np = []\<rparr>"
      and ?g5.0 = ex_lab_rng and labs = ex_labs and ?g5' = "\<lparr>py = [], np = []\<rparr>"
      and ?g6.0 = ex_goal_rng and goals = ex_goals and ?g6' = "\<lparr>py = [], np = []\<rparr>"]
  have vals: "map stay_end ex_admissions = [16350, 23580, 154080, 578879, 578880]"
    "map v_recorded_datetime ex_vitals = [577439, 577799, 14910, 15270]"
    by (simp_all add: ex_admissions_def ex_vitals_def stay_end_def timedelta_def)
  from t ex_mar_run ex_vitals_run ex_activities_run ex_procedure_events_run ex_labs_run
    ex_goals_run
  have "list_all (\<lambda>r. \<exists>a\<in>set ex_admissions. mar_parent a r \<and> mar_times a r) ex_mar"
    "list_all (\<lambda>r. \<exists>a\<in>set ex_admissions. vital_parent a r \<and> vital_times a r) ex_vitals"
    "list_all (\<lambda>r. \<exists>a\<in>set ex_admissions. activity_parent a r \<and> activity_times a r)
       ex_activities"
    "list_all (\<lambda>r. \<exists>a\<in>set ex_admissions. procedure_parent a r \<and> procedure_times a r)
       ex_procedure_events"
    "list_all (\<lambda>r. \<exists>a\<in>set ex_admissions. lab_parent a r \<and> lab_times a r) ex_labs"
    "list_all (\<lambda>r. \<exists>a\<in>set ex_admissions. goal_parent a r \<and> goal_times a r) ex_goals"
    unfolding list_all_iff by blast+
  with vals ex_mar_run ex_vitals_run ex_activities_run ex_procedure_events_run ex_labs_run
    ex_goals_run
  show ?thesis by blast
qed

text \<open>
  The counterexample to claim C3 as stated. In the run above the fourth
  admission (id 4) starts at minute 577439 and stays one day, so its window
  ends at minute 578879. Its first medication is given four times that day,
  every 8 hours: the fourth dose (row 4 of the table) is scheduled at the
  end of the window itself and administered 60 minutes later. Its lab
  sample is collected inside the window and its result comes 24 hours
  later, after the end.
\<close>

theorem child_timestamps_counterexample:
  "generate_medication_administration ex_admissions ex_medications ex_staff ex_mar_rng
       = Inr (ex_mar, \<lparr>py = [], np = []\<rparr>)
   \<and> generate_lab_results ex_admissions ex_staff ex_lab_rng
       = Inr (ex_labs, \<lparr>py = [], np = []\<rparr>)
   \<and> distinct (map a_admission_id ex_admissions)
   \<and> a_admission_datetime (ex_admissions ! 3)
        + timedelta (a_length_of_stay (ex_admissions ! 3)) 0 0 = 578879
   \<and> mar_admission_id (ex_mar ! 3) = a_admission_id (ex_admissions ! 3)
   \<and> mar_scheduled_datetime (ex_mar ! 3) = 578879
   \<and> mar_administered_datetime (ex_mar ! 3) = Some 578939
   \<and> \<not> mar_scheduled_datetime (ex_mar ! 3)
        < a_admission_datetime (ex_admissions ! 3)
          + timedelta (a_length_of_stay (ex_admissions ! 3)) 0 0
   \<and> lab_admission_id (ex_labs ! 0) = a_admission_id (ex_admissions ! 3)
   \<and> lab_resulted_datetime (ex_labs ! 0) = 579479
   \<and> \<not> lab_resulted_datetime (ex_labs ! 0)
        < a_admission_datetime (ex_admissions ! 3)
          + timedelta (a_length_of_stay (ex_admissions ! 3)) 0 0"
proof -
  have "distinct (map a_admission_id ex_admissions)"
    "a_admission_datetime (ex_admissions ! 3)
        + timedelta (a_length_of_stay (ex_admissions ! 3)) 0 0 = 578879"
    "mar_admission_id (ex_mar ! 3) = a_admission_id (ex_admissions ! 3)"
    "mar_scheduled_datetime (ex_mar ! 3) = 578879"
    "mar_administered_datetime (ex_mar ! 3) = Some 578939"
    "lab_admission_id (ex_labs ! 0) = a_admission_id (ex_admissions ! 3)"
    "lab_resulted_datetime (ex_labs ! 0) = 579479"
    by (simp_all add: ex_admissions_def ex_mar_def ex_labs_def timedelta_def)
  with ex_mar_run ex_labs_run show ?thesis by simp
qed

end
